theory Spec2Isabelle
  imports
    Complex_Main
    "HOL-Library.AList"
    "HOL-Library.Char_ord"
    "HOL-Library.List_Lexorder"
    "HOL-Library.Log_Nat"
    "HOL-Library.Multiset"
    "HOL-Library.Sublist"
    "HOL-Library.Word"
begin

section \<open>JavaScript strings and error objects (error-handler.server.ts)\<close>

text \<open>
  Strings are lists of characters with codes below 256, compared by code.
  \<open>String.prototype.toLowerCase\<close> on that range maps \<open>A-Z\<close>, and the Latin-1 capitals
  \<open>U+00C0-U+00DE\<close> except \<open>U+00D7\<close>, to the letter 32 codes higher (\<open>latin1_lower\<close> lists
  the characters \<open>U+00E0-U+00FE\<close>); \<open>String.prototype.includes\<close>
  (here \<open>string_includes\<close>) is the test for a contiguous occurrence.
\<close>

definition latin1_lower :: string where
  "latin1_lower =
     [
      CHR 0xE0, CHR 0xE1, CHR 0xE2, CHR 0xE3, CHR 0xE4, CHR 0xE5, CHR 0xE6, CHR 0xE7,
      CHR 0xE8, CHR 0xE9, CHR 0xEA, CHR 0xEB, CHR 0xEC, CHR 0xED, CHR 0xEE, CHR 0xEF,
      CHR 0xF0, CHR 0xF1, CHR 0xF2, CHR 0xF3, CHR 0xF4, CHR 0xF5, CHR 0xF6, CHR 0xF7,
      CHR 0xF8, CHR 0xF9, CHR 0xFA, CHR 0xFB, CHR 0xFC, CHR 0xFD, CHR 0xFE
     ]"

definition toLowerCase_char :: "char \<Rightarrow> char" where
  "toLowerCase_char c =
     (if 65 \<le> (of_char c :: nat) \<and> (of_char c :: nat) \<le> 90
      then ''abcdefghijklmnopqrstuvwxyz'' ! (of_char c - 65)
      else if 192 \<le> (of_char c :: nat) \<and> (of_char c :: nat) \<le> 222 \<and> (of_char c :: nat) \<noteq> 215
      then latin1_lower ! (of_char c - 192)
      else c)"

definition toLowerCase :: "string \<Rightarrow> string" where
  "toLowerCase s = map toLowerCase_char s"

fun startsWith :: "string \<Rightarrow> string \<Rightarrow> bool" where
  "startsWith s [] = True"
| "startsWith [] (c # cs) = False"
| "startsWith (x # xs) (c # cs) = (x = c \<and> startsWith xs cs)"

fun string_includes :: "string \<Rightarrow> string \<Rightarrow> bool" where
  "string_includes [] needle = (needle = [])"
| "string_includes (x # xs) needle = (startsWith (x # xs) needle \<or> string_includes xs needle)"

text \<open>
  An error object, with the properties the code reads: \<open>message\<close>, \<open>status\<close> and \<open>code\<close>
  (each may be undefined), and the \<open>statusCode\<close> that \<open>AppError\<close> sets. \<open>AppError\<close> stores
  neither a \<open>status\<close> nor the original error: \<open>OpenAIError\<close> only logs the error it wraps.
\<close>

record js_error =
  message :: "string option"
  status :: "int option"
  code :: "string option"
  statusCode :: "int option"

definition Error :: "string \<Rightarrow> js_error" where
  "Error msg = \<lparr>message = Some msg, status = None, code = None, statusCode = None\<rparr>"

definition AppError :: "string \<Rightarrow> int \<Rightarrow> string option \<Rightarrow> js_error" where
  "AppError msg sc c = \<lparr>message = Some msg, status = None, code = c, statusCode = Some sc\<rparr>"

definition OpenAIError :: "string \<Rightarrow> js_error" where
  "OpenAIError msg = AppError (''OpenAI API Error: '' @ msg) 503 (Some ''OPENAI_ERROR'')"

definition ValidationError :: "string \<Rightarrow> js_error" where
  "ValidationError msg = AppError (''Validation Error: '' @ msg) 400 (Some ''VALIDATION_ERROR'')"

definition TypeError :: "string \<Rightarrow> js_error" where
  "TypeError msg = Error msg"

definition message_includes :: "js_error \<Rightarrow> string \<Rightarrow> bool" where
  "message_includes error needle =
     (case message error of None \<Rightarrow> False | Some m \<Rightarrow> string_includes (toLowerCase m) needle)"

definition isRateLimitError :: "js_error \<Rightarrow> bool" where
  "isRateLimitError error \<longleftrightarrow>
     message_includes error ''rate limit'' \<or>
     status error = Some 429 \<or>
     code error = Some ''rate_limit_exceeded''"

definition isNetworkError :: "js_error \<Rightarrow> bool" where
  "isNetworkError error \<longleftrightarrow>
     message_includes error ''network'' \<or>
     message_includes error ''timeout'' \<or>
     code error = Some ''ECONNRESET'' \<or>
     code error = Some ''ENOTFOUND''"

section \<open>JavaScript values and numbers\<close>

text \<open>
  \<open>validateProductData\<close> takes \<open>any\<close> and checks types at run time, so the fields it
  inspects are dynamically typed values: \<open>undefined\<close>, \<open>null\<close>, a boolean, an (integer)
  number, a string or an array of strings.
\<close>

datatype jsval =
    JUndefined
  | JNull
  | JBoolean bool
  | JNumber int
  | JString string
  | JArray "string list"

fun truthy :: "jsval \<Rightarrow> bool" where
  "truthy JUndefined = False"
| "truthy JNull = False"
| "truthy (JBoolean b) = b"
| "truthy (JNumber n) = (n \<noteq> 0)"
| "truthy (JString s) = (s \<noteq> [])"
| "truthy (JArray xs) = True"

fun isString :: "jsval \<Rightarrow> bool" where
  "isString (JString s) = True"
| "isString v = False"

fun isArray :: "jsval \<Rightarrow> bool" where
  "isArray (JArray xs) = True"
| "isArray v = False"

text \<open>
  The scores are JavaScript numbers, that is IEEE 754 binary64 values; a finite one is
  represented by the rational it denotes. \<open>fl\<close> rounds a rational to the nearest binary64
  value, ties to even: with \<open>2^e \<le> |x| < 2^(e+1)\<close> the neighbours of \<open>x\<close> are the multiples
  of \<open>2^(e-52)\<close>. Overflow, subnormal numbers, \<open>NaN\<close> and the sign of zero are outside the
  model. Every arithmetic operation is the exact operation followed by \<open>fl\<close>
  (\<open>js_mul\<close>, \<open>js_add\<close>); \<open>Math.round\<close> is exact: the integer closest to its argument, the
  greater one on a tie.
\<close>

definition pow2 :: "int \<Rightarrow> rat" where
  "pow2 e = (if 0 \<le> e then 2 ^ nat e else 1 / 2 ^ nat (- e))"

definition binary_exponent :: "rat \<Rightarrow> int" where
  "binary_exponent x =
     (case quotient_of \<bar>x\<bar> of
        (p, q) \<Rightarrow> let d = bitlen p - bitlen q in if pow2 d \<le> \<bar>x\<bar> then d else d - 1)"

definition round_half_even :: "rat \<Rightarrow> int" where
  "round_half_even m =
     (let f = \<lfloor>m\<rfloor>; d = m - of_int f
      in if d < 1 / 2 then f else if 1 / 2 < d then f + 1 else if even f then f else f + 1)"

definition fl :: "rat \<Rightarrow> rat" where
  "fl x =
     (if x = 0 then 0
      else let u = pow2 (binary_exponent x - 52) in of_int (round_half_even (x / u)) * u)"

definition js_mul :: "rat \<Rightarrow> rat \<Rightarrow> rat" where
  "js_mul a b = fl (a * b)"

definition js_add :: "rat \<Rightarrow> rat \<Rightarrow> rat" where
  "js_add a b = fl (a + b)"

definition Math_round :: "rat \<Rightarrow> rat" where
  "Math_round x = of_int \<lfloor>x + 1 / 2\<rfloor>"

section \<open>Analysis results and the fallback policy (types/analysis.ts, error-handler.server.ts)\<close>

text \<open>
  The upstream response, as the system prompt asks for it: a JSON object whose values are
  category objects. Every property the code reads is optional; \<open>None\<close> is an absent (or
  otherwise falsy) property. The response is an association list in the enumeration order
  of \<open>Object.values\<close> and \<open>Object.entries\<close>. A \<open>reviewEnhancedRecommendations\<close> entry is one of
  these values as well, so a category object also has the five list properties of that
  block.
\<close>

record SpecificContentSuggestions =
  titleAdditions :: "string list option"
  descriptionSentences :: "string list option"
  suggestedTags :: "string list option"
  featureBenefitPairs :: "(string \<times> string) list option"
  conversationalPhrases :: "string list option"
  specifications :: "string list option"

record CategoryResponse =
  score :: "rat option"
  strengths :: "string list option"
  areasForImprovement :: "string list option"
  optimizationSuggestions :: "string list option"
  specificContentSuggestions :: "SpecificContentSuggestions option"
  customerLanguageSuggestions :: "string list option"
  addressedConcerns :: "string list option"
  highlightedBenefits :: "string list option"
  missingKeywords :: "string list option"
  socialProofSuggestions :: "string list option"

type_synonym openaiResponse = "(string \<times> CategoryResponse) list"

definition emptyObject :: SpecificContentSuggestions where
  "emptyObject = \<lparr>titleAdditions = None, descriptionSentences = None, suggestedTags = None,
     featureBenefitPairs = None, conversationalPhrases = None, specifications = None\<rparr>"

text \<open>\<open>ProductAnalysis\<close>. The two title fields echo \<open>product.title\<close> in a fallback result,
  whatever value the caller passed there.\<close>

record Scores =
  semanticClarity :: rat
  intentMatching :: rat
  featureBenefitStructure :: rat
  naturalLanguage :: rat
  structuredInfo :: rat
  discoveryPotential :: rat

record Optimization =
  category :: string
  score :: rat
  suggestions :: "string list"
  specificContent :: SpecificContentSuggestions

record SpecificEnhancements =
  copyPasteTitle :: jsval
  copyPasteDescriptionSentences :: "string list"
  suggestedTags :: "string list"
  featureBenefitPairs :: "(string \<times> string) list"
  specifications :: "string list"

record ImprovedContent =
  title :: jsval
  suggestions :: "string list"
  description :: string
  descriptionSuggestions :: "string list"
  specificEnhancements :: SpecificEnhancements

record ReviewEnhancedRecommendations =
  customerLanguageSuggestions :: "string list"
  addressedConcerns :: "string list"
  highlightedBenefits :: "string list"
  missingKeywords :: "string list"
  socialProofSuggestions :: "string list"

record ProductAnalysis =
  scores :: Scores
  contentStrengths :: "string list"
  contentGaps :: "string list"
  llmOptimizations :: "Optimization list"
  improvedContent :: ImprovedContent
  reviewEnhancedRecommendations :: "ReviewEnhancedRecommendations option"

text \<open>
  \<open>createFallbackAnalysis(productTitle = 'Unknown Product')\<close>: the default applies to an
  \<open>undefined\<close> argument only.
\<close>

definition createFallbackAnalysis :: "jsval \<Rightarrow> ProductAnalysis" where
  "createFallbackAnalysis productTitle' =
     (let productTitle =
            (if productTitle' = JUndefined then JString ''Unknown Product'' else productTitle')
      in \<lparr>scores = \<lparr>semanticClarity = 0, intentMatching = 0, featureBenefitStructure = 0,
                     naturalLanguage = 0, structuredInfo = 0, discoveryPotential = 0\<rparr>,
          contentStrengths = [''Product information is present''],
          contentGaps = [''Analysis temporarily unavailable - please try again''],
          llmOptimizations =
            [\<lparr>category = ''System Error'', score = 0,
              suggestions = [''Analysis service is temporarily unavailable. Please try again in a few moments.''],
              specificContent = emptyObject\<rparr>],
          improvedContent =
            \<lparr>title = productTitle,
             suggestions = [''Analysis service temporarily unavailable''],
             description = ''Please try analyzing this product again'',
             descriptionSuggestions = [''Analysis service temporarily unavailable''],
             specificEnhancements =
               \<lparr>copyPasteTitle = productTitle, copyPasteDescriptionSentences = [],
                suggestedTags = [], featureBenefitPairs = [], specifications = []\<rparr>\<rparr>,
          reviewEnhancedRecommendations =
            Some \<lparr>customerLanguageSuggestions = [''Analysis service temporarily unavailable''],
                  addressedConcerns = [''Analysis service temporarily unavailable''],
                  highlightedBenefits = [''Analysis service temporarily unavailable''],
                  missingKeywords = [''Analysis service temporarily unavailable''],
                  socialProofSuggestions = [''Analysis service temporarily unavailable'']\<rparr>\<rparr>)"

text \<open>\<open>handleAnalysisError\<close> logs the error and returns the fallback analysis.\<close>

definition handleAnalysisError :: "js_error \<Rightarrow> jsval \<Rightarrow> ProductAnalysis" where
  "handleAnalysisError error productTitle = createFallbackAnalysis productTitle"

section \<open>\<open>transformOpenAIResponse\<close> (llm-analysis.server.ts)\<close>

text \<open>
  The review data of a product is fetched by \<open>fetchProductReviewData\<close> and only passed on
  by the code modelled here: it is serialised into the content hash and tested for
  presence. It is represented by the text \<open>JSON.stringify\<close> gives for it.
\<close>

type_synonym ReviewData = string

definition orEmpty :: "'a list option \<Rightarrow> 'a list" where
  "orEmpty v = (case v of None \<Rightarrow> [] | Some xs \<Rightarrow> xs)"

text \<open>\<open>openaiResponse.Key?.score || 0\<close> and \<open>category.score || 0\<close>.\<close>

definition scoreOrZero :: "CategoryResponse option \<Rightarrow> rat" where
  "scoreOrZero c =
     (case c of
        None \<Rightarrow> 0
      | Some c' \<Rightarrow> (case CategoryResponse.score c' of None \<Rightarrow> 0 | Some s \<Rightarrow> s))"

text \<open>
  The composite score, with the operations in the order JavaScript evaluates them (the sum
  associates to the left); the literals \<open>0.25\<close>, \<open>0.20\<close> and \<open>0.15\<close> are the binary64 values
  nearest to them.
\<close>

definition weightedScore :: "rat \<Rightarrow> rat \<Rightarrow> rat \<Rightarrow> rat \<Rightarrow> rat \<Rightarrow> rat" where
  "weightedScore sc im fb nl si =
     Math_round
       (js_add
         (js_add
           (js_add
             (js_add (js_mul sc (fl (25 / 100))) (js_mul im (fl (25 / 100))))
             (js_mul fb (fl (20 / 100))))
           (js_mul nl (fl (15 / 100))))
         (js_mul si (fl (15 / 100))))"

text \<open>\<open>key.replace(/([A-Z])/g, ' $1').trim()\<close>; the white space of \<open>trim\<close> with a code
  below 256 is 9 to 13, 32 and 160.\<close>

definition spaceBeforeCapitals :: "string \<Rightarrow> string" where
  "spaceBeforeCapitals key =
     concat (map (\<lambda>c. if 65 \<le> (of_char c :: nat) \<and> (of_char c :: nat) \<le> 90
                        then [CHR '' '', c] else [c]) key)"

definition isWhiteSpace :: "char \<Rightarrow> bool" where
  "isWhiteSpace c \<longleftrightarrow>
     (let n = (of_char c :: nat) in (9 \<le> n \<and> n \<le> 13) \<or> n = 32 \<or> n = 160)"

definition trim :: "string \<Rightarrow> string" where
  "trim s = rev (dropWhile isWhiteSpace (rev (dropWhile isWhiteSpace s)))"

text \<open>\<open>xs[0] || d\<close> for an array of strings.\<close>

definition firstOr :: "string list \<Rightarrow> string \<Rightarrow> string" where
  "firstOr xs d = (case xs of [] \<Rightarrow> d | x # _ \<Rightarrow> if x = [] then d else x)"

definition specificOf ::
  "(SpecificContentSuggestions \<Rightarrow> 'a list option) \<Rightarrow> openaiResponse \<Rightarrow> 'a list" where
  "specificOf field response =
     concat (map (\<lambda>(key, c).
        case specificContentSuggestions c of
          None \<Rightarrow> []
        | Some specific \<Rightarrow> orEmpty (field specific)) response)"

definition transformOpenAIResponse :: "openaiResponse \<Rightarrow> ReviewData option \<Rightarrow> ProductAnalysis" where
  "transformOpenAIResponse response reviewData =
     (let sc = scoreOrZero (map_of response ''SemanticClarity'');
          im = scoreOrZero (map_of response ''IntentMatching'');
          fb = scoreOrZero (map_of response ''FeatureBenefitStructure'');
          nl = scoreOrZero (map_of response ''NaturalLanguageOptimization'');
          si = scoreOrZero (map_of response ''StructuredInformation'');
          titleSuggestions = specificOf titleAdditions response;
          descriptionSuggestions' = specificOf descriptionSentences response;
          tagSuggestions = specificOf SpecificContentSuggestions.suggestedTags response;
          pairs = specificOf SpecificContentSuggestions.featureBenefitPairs response;
          specs = specificOf SpecificContentSuggestions.specifications response
      in \<lparr>scores = \<lparr>semanticClarity = sc, intentMatching = im, featureBenefitStructure = fb,
                     naturalLanguage = nl, structuredInfo = si,
                     discoveryPotential = weightedScore sc im fb nl si\<rparr>,
          contentStrengths = concat (map (\<lambda>(key, c). orEmpty (strengths c)) response),
          contentGaps = concat (map (\<lambda>(key, c). orEmpty (areasForImprovement c)) response),
          llmOptimizations =
            map (\<lambda>(key, c).
              \<lparr>category = trim (spaceBeforeCapitals key),
               score = scoreOrZero (Some c),
               suggestions = orEmpty (optimizationSuggestions c),
               specificContent =
                 (case specificContentSuggestions c of None \<Rightarrow> emptyObject | Some s \<Rightarrow> s)\<rparr>)
              response,
          improvedContent =
            \<lparr>title = JString (firstOr titleSuggestions ''Enhanced title suggestions would appear here''),
             suggestions = titleSuggestions,
             description = firstOr descriptionSuggestions' ''Enhanced description would appear here'',
             descriptionSuggestions = descriptionSuggestions',
             specificEnhancements =
               \<lparr>copyPasteTitle = JString (firstOr titleSuggestions []),
                copyPasteDescriptionSentences = descriptionSuggestions',
                suggestedTags = tagSuggestions,
                featureBenefitPairs = pairs,
                specifications = specs\<rparr>\<rparr>,
          reviewEnhancedRecommendations =
            (case (reviewData, map_of response ''reviewEnhancedRecommendations'') of
               (Some rd, Some r) \<Rightarrow>
                 Some \<lparr>customerLanguageSuggestions =
                         orEmpty (CategoryResponse.customerLanguageSuggestions r),
                       addressedConcerns = orEmpty (CategoryResponse.addressedConcerns r),
                       highlightedBenefits = orEmpty (CategoryResponse.highlightedBenefits r),
                       missingKeywords = orEmpty (CategoryResponse.missingKeywords r),
                       socialProofSuggestions =
                         orEmpty (CategoryResponse.socialProofSuggestions r)\<rparr>
             | (Some rd, None) \<Rightarrow> None
             | (None, r) \<Rightarrow>
                 Some \<lparr>customerLanguageSuggestions =
                         [''Install Judge.me or similar review app to unlock customer language insights''],
                       addressedConcerns =
                         [''Customer concerns will be identified once review data is available''],
                       highlightedBenefits =
                         [''Customer-praised benefits will be highlighted when reviews are collected''],
                       missingKeywords =
                         [''Customer-used keywords will be suggested after gathering review data''],
                       socialProofSuggestions =
                         [''Set up Judge.me to start collecting reviews automatically'',
                          ''Enable review request emails after purchase'',
                          ''Display star ratings in product listings'',
                          ''Add review widgets to product pages'']\<rparr>)\<rparr>)"

section \<open>Product content and its validation\<close>

text \<open>
  \<open>ProductContent\<close>. The fields \<open>validateProductData\<close> inspects are dynamically typed; the
  others have the types of the interface. A metafield is a key with a value.
\<close>

record ProductContent =
  title :: jsval
  description :: jsval
  tags :: jsval
  vendor :: string
  productType :: string
  metafields :: "(string \<times> string) list"

text \<open>\<open>validateProductData\<close>; \<open>None\<close> is a \<open>null\<close> or \<open>undefined\<close> product.\<close>

definition validateProductData :: "ProductContent option \<Rightarrow> js_error + unit" where
  "validateProductData product =
     (case product of
        None \<Rightarrow> Inl (ValidationError ''Product data is required'')
      | Some p \<Rightarrow>
          if \<not> truthy (title p) \<or> \<not> isString (title p) then
            Inl (ValidationError ''Product title is required and must be a string'')
          else if (case title p of JString s \<Rightarrow> length s > 255 | _ \<Rightarrow> False) then
            Inl (ValidationError ''Product title must be less than 255 characters'')
          else if truthy (description p) \<and> \<not> isString (description p) then
            Inl (ValidationError ''Product description must be a string'')
          else if truthy (tags p) \<and> \<not> isArray (tags p) then
            Inl (ValidationError ''Product tags must be an array'')
          else Inr ())"

section \<open>Quota tracker: \<open>RateLimiter\<close> (rate-limiter.server.ts)\<close>

text \<open>
  The limiter keeps one entry per identifier. Times are \<open>Date.now()\<close> readings in
  milliseconds, modelled as integers; the reading taken by a call is an argument of the
  model. An entry stores the end of its window (\<open>resetTime = now + windowMs\<close> at the
  moment the window starts), so the window start of the specification is
  \<open>resetTime - windowMs\<close>.
\<close>

record RateLimitEntry =
  count :: int
  resetTime :: int

record RateLimiter =
  limits :: "string \<rightharpoonup> RateLimitEntry"
  maxRequests :: int
  windowMs :: int

text \<open>
  \<open>isAllowed\<close> mutates \<open>this.limits\<close>; the model returns the answer together with the
  limiter after the call.
\<close>

definition isAllowed :: "int \<Rightarrow> string \<Rightarrow> RateLimiter \<Rightarrow> bool \<times> RateLimiter" where
  "isAllowed now identifier rl =
     (case limits rl identifier of
        None \<Rightarrow>
          (True, rl\<lparr>limits := (limits rl)(identifier \<mapsto>
                     \<lparr>count = 1, resetTime = now + windowMs rl\<rparr>)\<rparr>)
      | Some entry \<Rightarrow>
          if now \<ge> resetTime entry then
            (True, rl\<lparr>limits := (limits rl)(identifier \<mapsto>
                     \<lparr>count = 1, resetTime = now + windowMs rl\<rparr>)\<rparr>)
          else if count entry \<ge> maxRequests rl then (False, rl)
          else (True, rl\<lparr>limits := (limits rl)(identifier \<mapsto>
                     entry\<lparr>count := count entry + 1\<rparr>)\<rparr>))"

definition getRemainingRequests :: "int \<Rightarrow> string \<Rightarrow> RateLimiter \<Rightarrow> int" where
  "getRemainingRequests now identifier rl =
     (case limits rl identifier of
        None \<Rightarrow> maxRequests rl
      | Some entry \<Rightarrow>
          if now \<ge> resetTime entry then maxRequests rl
          else max 0 (maxRequests rl - count entry))"

definition getResetTime :: "int \<Rightarrow> string \<Rightarrow> RateLimiter \<Rightarrow> int" where
  "getResetTime now identifier rl =
     (case limits rl identifier of
        None \<Rightarrow> now
      | Some entry \<Rightarrow> if now \<ge> resetTime entry then now else resetTime entry)"

text \<open>
  A tenant issuing one request at each of the given times, in order: the answers and the
  limiter after the last one.
\<close>

fun requests :: "int list \<Rightarrow> string \<Rightarrow> RateLimiter \<Rightarrow> bool list \<times> RateLimiter" where
  "requests [] identifier rl = ([], rl)"
| "requests (now # ts) identifier rl =
     (case isAllowed now identifier rl of
        (a, rl') \<Rightarrow> (case requests ts identifier rl' of (as, rl'') \<Rightarrow> (a # as, rl'')))"

section \<open>Content hash: \<open>generateContentHash\<close> (llm-analysis.server.ts)\<close>

subsection \<open>SHA-256\<close>

text \<open>
  \<open>crypto.createHash('sha256').update(s).digest('hex')\<close>: the SHA-256 digest (FIPS 180-4)
  of the UTF-8 encoding of the string, as 64 lower-case hexadecimal digits. Words are
  32 bits wide and addition wraps.
\<close>

unbundle bit_operations_syntax

type_synonym word32 = "32 word"

definition rotr :: "nat \<Rightarrow> word32 \<Rightarrow> word32" where
  "rotr n x = (drop_bit n x) OR (push_bit (32 - n) x)"

definition Ch :: "word32 \<Rightarrow> word32 \<Rightarrow> word32 \<Rightarrow> word32" where
  "Ch x y z = (x AND y) XOR ((NOT x) AND z)"

definition Maj :: "word32 \<Rightarrow> word32 \<Rightarrow> word32 \<Rightarrow> word32" where
  "Maj x y z = (x AND y) XOR (x AND z) XOR (y AND z)"

definition Sigma0 :: "word32 \<Rightarrow> word32" where
  "Sigma0 x = rotr 2 x XOR rotr 13 x XOR rotr 22 x"

definition Sigma1 :: "word32 \<Rightarrow> word32" where
  "Sigma1 x = rotr 6 x XOR rotr 11 x XOR rotr 25 x"

definition sigma0 :: "word32 \<Rightarrow> word32" where
  "sigma0 x = rotr 7 x XOR rotr 18 x XOR drop_bit 3 x"

definition sigma1 :: "word32 \<Rightarrow> word32" where
  "sigma1 x = rotr 17 x XOR rotr 19 x XOR drop_bit 10 x"

definition sha256_K :: "word32 list" where
  "sha256_K =
     [
      1116352408, 1899447441, 3049323471, 3921009573, 961987163, 1508970993,
      2453635748, 2870763221, 3624381080, 310598401, 607225278, 1426881987,
      1925078388, 2162078206, 2614888103, 3248222580, 3835390401, 4022224774,
      264347078, 604807628, 770255983, 1249150122, 1555081692, 1996064986,
      2554220882, 2821834349, 2952996808, 3210313671, 3336571891, 3584528711,
      113926993, 338241895, 666307205, 773529912, 1294757372, 1396182291,
      1695183700, 1986661051, 2177026350, 2456956037, 2730485921, 2820302411,
      3259730800, 3345764771, 3516065817, 3600352804, 4094571909, 275423344,
      430227734, 506948616, 659060556, 883997877, 958139571, 1322822218,
      1537002063, 1747873779, 1955562222, 2024104815, 2227730452, 2361852424,
      2428436474, 2756734187, 3204031479, 3329325298
     ]"

definition sha256_H0 :: "word32 list" where
  "sha256_H0 =
     [
      1779033703, 3144134277, 1013904242, 2773480762, 1359893119, 2600822924,
      528734635, 1541459225
     ]"

text \<open>Padding: a byte 128, zero bytes up to 56 modulo 64, and the bit length as 8 bytes,
  most significant first.\<close>

definition be_bytes4 :: "nat \<Rightarrow> nat list" where
  "be_bytes4 n = [n div 16777216 mod 256, n div 65536 mod 256, n div 256 mod 256, n mod 256]"

definition be_bytes8 :: "nat \<Rightarrow> nat list" where
  "be_bytes8 n = be_bytes4 (n div 4294967296) @ be_bytes4 (n mod 4294967296)"

fun byte_count :: "nat list \<Rightarrow> nat" where
  "byte_count [] = 0"
| "byte_count (b # bs) = 1 + byte_count bs"

definition sha256_pad :: "nat list \<Rightarrow> nat list" where
  "sha256_pad bytes =
     bytes @ [128] @ replicate ((55 + 64 - byte_count bytes mod 64) mod 64) 0 @
     be_bytes8 (8 * byte_count bytes)"

fun be_words :: "nat list \<Rightarrow> word32 list" where
  "be_words (a # b # c # d # rest) =
     word_of_nat (((a * 256 + b) * 256 + c) * 256 + d) # be_words rest"
| "be_words rest = []"

text \<open>
  The 64 rounds of one block. \<open>w\<close> is the window of the 16 latest words of the message
  schedule, oldest first: its head is the word of the current round, and the word 16
  rounds ahead is computed from it.
\<close>

definition next_window :: "word32 list \<Rightarrow> word32 list" where
  "next_window w = tl w @ [sigma1 (w ! 14) + w ! 9 + sigma0 (w ! 1) + w ! 0]"

definition sha256_step ::
  "word32 \<Rightarrow> word32 \<Rightarrow> word32 list \<Rightarrow> word32 list" where
  "sha256_step t1 t2 s = [t1 + t2, s ! 0, s ! 1, s ! 2, s ! 3 + t1, s ! 4, s ! 5, s ! 6]"

definition sha256_round :: "word32 list \<Rightarrow> word32 \<Rightarrow> word32 \<Rightarrow> word32 list" where
  "sha256_round s k w =
     sha256_step (s ! 7 + Sigma1 (s ! 4) + Ch (s ! 4) (s ! 5) (s ! 6) + k + w)
                 (Sigma0 (s ! 0) + Maj (s ! 0) (s ! 1) (s ! 2)) s"

fun sha256_rounds :: "word32 list \<Rightarrow> word32 list \<Rightarrow> word32 list \<Rightarrow> word32 list" where
  "sha256_rounds [] w s = s"
| "sha256_rounds (k # ks) w s = sha256_rounds ks (next_window w) (sha256_round s k (w ! 0))"

definition sha256_compress :: "word32 list \<Rightarrow> word32 list \<Rightarrow> word32 list" where
  "sha256_compress h block = map2 (+) h (sha256_rounds sha256_K block h)"

fun sha256_blocks :: "word32 list \<Rightarrow> word32 list \<Rightarrow> word32 list" where
  "sha256_blocks h (w0 # w1 # w2 # w3 # w4 # w5 # w6 # w7 # w8 # w9 # w10 # w11 # w12 # w13 #
      w14 # w15 # rest) =
     sha256_blocks
       (sha256_compress h [w0, w1, w2, w3, w4, w5, w6, w7, w8, w9, w10, w11, w12, w13, w14, w15])
       rest"
| "sha256_blocks h rest = h"

definition hex_digit :: "nat \<Rightarrow> char" where
  "hex_digit n = ''0123456789abcdef'' ! n"

definition hex_byte :: "nat \<Rightarrow> string" where
  "hex_byte n = [hex_digit (n div 16), hex_digit (n mod 16)]"

definition sha256_bytes :: "nat list \<Rightarrow> string" where
  "sha256_bytes bytes =
     concat (map (\<lambda>w. concat (map hex_byte (be_bytes4 (unat w))))
       (sha256_blocks sha256_H0 (be_words (sha256_pad bytes))))"

text \<open>UTF-8 of a string whose characters have codes below 256.\<close>

definition utf8_char :: "char \<Rightarrow> nat list" where
  "utf8_char c =
     (if (of_char c :: nat) < 128 then [of_char c]
      else [192 + of_char c div 64, 128 + of_char c mod 64])"

definition utf8 :: "string \<Rightarrow> nat list" where
  "utf8 s = concat (map utf8_char s)"

definition sha256_hex :: "string \<Rightarrow> string" where
  "sha256_hex s = sha256_bytes (utf8 s)"

subsection \<open>\<open>JSON.stringify\<close> of the hashed object\<close>

text \<open>
  A string is quoted with the escapes of \<open>JSON.stringify\<close>: the quote, the backslash, the
  short escapes for the codes 8, 9, 10, 12 and 13, and \<open>\u00XX\<close> for the other codes below
  32. A property whose value is \<open>undefined\<close> is left out of an object.
\<close>

definition json_escape :: "char \<Rightarrow> string" where
  "json_escape c =
     (let n = (of_char c :: nat)
      in if n = 34 then [CHR 0x5C, CHR 0x22]
         else if n = 92 then [CHR 0x5C, CHR 0x5C]
         else if n = 8 then [CHR 0x5C, CHR ''b'']
         else if n = 12 then [CHR 0x5C, CHR ''f'']
         else if n = 10 then [CHR 0x5C, CHR ''n'']
         else if n = 13 then [CHR 0x5C, CHR ''r'']
         else if n = 9 then [CHR 0x5C, CHR ''t'']
         else if n < 32 then [CHR 0x5C, CHR ''u'', CHR ''0'', CHR ''0''] @ hex_byte n
         else [c])"

definition json_string :: "string \<Rightarrow> string" where
  "json_string s = [CHR 0x22] @ concat (map json_escape s) @ [CHR 0x22]"

fun join :: "string \<Rightarrow> string list \<Rightarrow> string" where
  "join sep [] = []"
| "join sep [x] = x"
| "join sep (x # y # ys) = x @ sep @ join sep (y # ys)"

definition json_array :: "string list \<Rightarrow> string" where
  "json_array items = ''['' @ join '','' items @ '']''"

function decimal :: "nat \<Rightarrow> string" where
  "decimal n = (if n < 10 then [hex_digit n] else decimal (n div 10) @ [hex_digit (n mod 10)])"
  by pat_completeness auto
termination
  by (relation "measure id") auto

declare decimal.simps [simp del]

fun json_value :: "jsval \<Rightarrow> string option" where
  "json_value JUndefined = None"
| "json_value JNull = Some ''null''"
| "json_value (JBoolean b) = Some (if b then ''true'' else ''false'')"
| "json_value (JNumber n) = Some (if n < 0 then ''-'' @ decimal (nat (- n)) else decimal (nat n))"
| "json_value (JString s) = Some (json_string s)"
| "json_value (JArray xs) = Some (json_array (map json_string xs))"

definition json_property :: "string \<Rightarrow> string option \<Rightarrow> string list" where
  "json_property name v = (case v of None \<Rightarrow> [] | Some text \<Rightarrow> [json_string name @ '':'' @ text])"

definition json_object :: "string list list \<Rightarrow> string" where
  "json_object properties = ''{'' @ join '','' (concat properties) @ ''}''"

definition json_metafield :: "string \<times> string \<Rightarrow> string" where
  "json_metafield m =
     json_object [json_property ''key'' (Some (json_string (fst m))),
                  json_property ''value'' (Some (json_string (snd m)))]"

subsection \<open>\<open>generateContentHash\<close>\<close>

text \<open>\<open>ProductContentWithReviews\<close> is \<open>{...product, reviewData}\<close>.\<close>

record ProductContentWithReviews = ProductContent +
  reviewData :: "ReviewData option"

text \<open>
  \<open>Array.prototype.sort\<close> sorts the array it is called on, in place, and returns it. So the
  function has two results: the digest, and the product as the call leaves it, with
  \<open>tags\<close> and \<open>metafields\<close> sorted. The spread that built the argument copies references,
  so these are the caller's arrays.

  \<open>tags.sort()\<close> orders strings by their code units. The metafields are sorted, stably, by
  \<open>a.key.localeCompare(b.key)\<close>; the collation is a parameter: \<open>collate\<close> maps a key to its
  collation sort key, and \<open>localeCompare\<close> compares those. A \<open>tags\<close> that is not an array has
  no \<open>sort\<close> method: the call throws a \<open>TypeError\<close> before \<open>metafields\<close> is touched.
\<close>

definition contentString :: "ProductContentWithReviews \<Rightarrow> string" where
  "contentString p =
     json_object
       [json_property ''title'' (json_value (title p)),
        json_property ''description'' (json_value (description p)),
        json_property ''tags'' (json_value (tags p)),
        json_property ''vendor'' (Some (json_string (vendor p))),
        json_property ''productType'' (Some (json_string (productType p))),
        json_property ''metafields'' (Some (json_array (map json_metafield (metafields p)))),
        json_property ''reviewData'' (reviewData p)]"

definition generateContentHash ::
  "(string \<Rightarrow> string) \<Rightarrow> ProductContentWithReviews \<Rightarrow>
     js_error + (string \<times> ProductContentWithReviews)" where
  "generateContentHash collate product =
     (case tags product of
        JArray ts \<Rightarrow>
          (let product' = product\<lparr>tags := JArray (sort ts),
                           metafields := sort_key (\<lambda>m. collate (fst m)) (metafields product)\<rparr>
           in Inr (sha256_hex (contentString product'), product'))
      | JUndefined \<Rightarrow>
          Inl (TypeError ''Cannot read properties of undefined (reading 'sort')'')
      | JNull \<Rightarrow>
          Inl (TypeError ''Cannot read properties of null (reading 'sort')'')
      | _ \<Rightarrow> Inl (TypeError ''product.tags.sort is not a function''))"

text \<open>
  The two global limiter instances, \<open>getRateLimitIdentifier\<close> (\<open>session.shop || 'anonymous'\<close>)
  and \<open>checkRateLimit\<close>. The limits come from the environment of the process
  (\<open>OPENAI_RATE_LIMIT\<close>, \<open>BULK_ANALYSIS_LIMIT\<close>), so they are whatever the limiter records
  hold.
\<close>

record RateLimiters =
  openaiRateLimiter :: RateLimiter
  bulkAnalysisLimiter :: RateLimiter

record Session =
  shop :: "string option"

definition getRateLimitIdentifier :: "Session \<Rightarrow> string" where
  "getRateLimitIdentifier session =
     (case shop session of None \<Rightarrow> ''anonymous'' | Some s \<Rightarrow> if s = [] then ''anonymous'' else s)"

datatype limiter_type = openai | bulk

record RateLimitStatus =
  allowed :: bool
  remaining :: int
  resetsAt :: int

definition checkRateLimit ::
  "int \<Rightarrow> string \<Rightarrow> limiter_type \<Rightarrow> RateLimiters \<Rightarrow> RateLimitStatus \<times> RateLimiters" where
  "checkRateLimit now identifier type ls =
     (let limiter = (if type = bulk then bulkAnalysisLimiter ls else openaiRateLimiter ls);
          answer = isAllowed now identifier limiter;
          limiter' = snd answer
      in (\<lparr>allowed = fst answer,
           remaining = getRemainingRequests now identifier limiter',
           resetsAt = getResetTime now identifier limiter'\<rparr>,
          if type = bulk then ls\<lparr>bulkAnalysisLimiter := limiter'\<rparr>
          else ls\<lparr>openaiRateLimiter := limiter'\<rparr>))"

section \<open>Result cache (llm-analysis.server.ts)\<close>

text \<open>
  \<open>analysisCache\<close> is a JavaScript \<open>Map\<close> from content hash to entry. A \<open>Map\<close> iterates
  in insertion order, and \<open>setCachedAnalysis\<close> depends on that order when it looks for the
  oldest entry, so the cache is an association list in insertion order:
  \<open>Map.set\<close> is \<open>AList.update\<close> (an existing key keeps its position, a new key goes to
  the end), \<open>Map.delete\<close> is \<open>AList.delete\<close>, \<open>Map.get\<close> is \<open>map_of\<close>, and \<open>Map.size\<close>
  is the length of a list whose keys are distinct. The entry type is polymorphic in the
  stored analysis.
\<close>

record 'a CacheEntry =
  analysis :: 'a
  timestamp :: int
  contentHash :: string

type_synonym 'a analysisCache = "(string \<times> 'a CacheEntry) list"

definition CACHE_EXPIRATION_MS :: int where
  "CACHE_EXPIRATION_MS = 24 * 60 * 60 * 1000"

definition getCachedAnalysis ::
  "int \<Rightarrow> string \<Rightarrow> 'a analysisCache \<Rightarrow> 'a option \<times> 'a analysisCache" where
  "getCachedAnalysis now hash cache =
     (case map_of cache hash of
        None \<Rightarrow> (None, cache)
      | Some cached \<Rightarrow>
          if now - timestamp cached > CACHE_EXPIRATION_MS
          then (None, AList.delete hash cache)
          else (Some (analysis cached), cache))"

text \<open>
  \<open>entries.sort((a, b) => a[1].timestamp - b[1].timestamp)[0]\<close>: the sort is stable, so its
  first element is the first entry, in insertion order, among those with the least
  timestamp; \<open>sort_key\<close> is a stable insertion sort.
\<close>

definition setCachedAnalysis ::
  "int \<Rightarrow> string \<Rightarrow> 'a \<Rightarrow> 'a analysisCache \<Rightarrow> 'a analysisCache" where
  "setCachedAnalysis now hash a cache =
     (let cache' = AList.update hash \<lparr>analysis = a, timestamp = now, contentHash = hash\<rparr> cache
      in if length cache' > 1000 then
           (case sort_key (\<lambda>e. timestamp (snd e)) cache' of
              [] \<Rightarrow> cache'
            | oldestEntry # _ \<Rightarrow> AList.delete (fst oldestEntry) cache')
         else cache')"

text \<open>
  Inserting a sequence of (time, hash, analysis) triples, one \<open>setCachedAnalysis\<close> each.
\<close>

fun inserts :: "(int \<times> string \<times> 'a) list \<Rightarrow> 'a analysisCache \<Rightarrow> 'a analysisCache" where
  "inserts [] cache = cache"
| "inserts ((now, hash, a) # rest) cache = inserts rest (setCachedAnalysis now hash a cache)"

text \<open>
  The states the cache can be in at time \<open>now\<close> when the clock never runs backwards:
  distinct keys (it is a \<open>Map\<close>), at most 1000 entries, no timestamp in the future.
\<close>

definition cache_inv :: "int \<Rightarrow> 'a analysisCache \<Rightarrow> bool" where
  "cache_inv now cache \<longleftrightarrow>
     distinct (map fst cache) \<and> length cache \<le> 1000 \<and>
     list_all (\<lambda>e. timestamp (snd e) \<le> now) cache"

definition cache_entry :: "int \<times> string \<times> 'a \<Rightarrow> string \<times> 'a CacheEntry" where
  "cache_entry x =
     (case x of (now, hash, a) \<Rightarrow> (hash, \<lparr>analysis = a, timestamp = now, contentHash = hash\<rparr>))"

section \<open>Upstream caller: \<open>callOpenAIWithRetry\<close> (llm-analysis.server.ts)\<close>

text \<open>
  One attempt is \<open>Promise.race([apiPromise, timeoutPromise])\<close>. The API call of an attempt
  is given by the time it takes to settle and by how it settles; the timer rejects with
  \<open>Error('Request timeout')\<close> after 30000 ms, so the race is won by the API call when it
  settles earlier and by the timer otherwise.
\<close>

datatype 'r outcome = Resolved 'r | Rejected js_error

record 'r api_call =
  latency :: int
  settles :: "'r outcome"

definition race :: "'r api_call \<Rightarrow> 'r outcome" where
  "race c = (if latency c < 30000 then settles c else Rejected (Error ''Request timeout''))"

text \<open>
  What a run of the retry loop did: the value returned (\<open>Inr\<close>) or thrown (\<open>Inl\<close>; \<open>None\<close> is
  the \<open>undefined\<close> that \<open>throw lastError\<close> throws when no attempt was made), the number of
  API calls issued, and the backoff delays slept, in milliseconds and in order.
\<close>

record 'r retry_run =
  returned :: "js_error option + 'r"
  attempts :: nat
  delays :: "int list"

text \<open>
  The \<open>for\<close> loop from the iteration \<open>attempt\<close> on; \<open>upstream k\<close> is the API call that the
  \<open>k\<close>-th attempt issues. The error message of the client-error branch is the template
  \<open>`API Error (${error.status})`\<close>, reached only for the statuses 400, 401 and 403.
\<close>

function retryLoop ::
  "(nat \<Rightarrow> 'r api_call) \<Rightarrow> nat \<Rightarrow> nat \<Rightarrow> js_error option \<Rightarrow> int list \<Rightarrow> 'r retry_run" where
  "retryLoop upstream maxRetries attempt lastError slept =
     (if attempt \<le> maxRetries then
        (case race (upstream attempt) of
           Resolved r \<Rightarrow> \<lparr>returned = Inr r, attempts = attempt, delays = slept\<rparr>
         | Rejected error \<Rightarrow>
             if status error = Some 400 then
               \<lparr>returned = Inl (Some (OpenAIError ''API Error (400)'')),
                attempts = attempt, delays = slept\<rparr>
             else if status error = Some 401 then
               \<lparr>returned = Inl (Some (OpenAIError ''API Error (401)'')),
                attempts = attempt, delays = slept\<rparr>
             else if status error = Some 403 then
               \<lparr>returned = Inl (Some (OpenAIError ''API Error (403)'')),
                attempts = attempt, delays = slept\<rparr>
             else if attempt < maxRetries \<and> (isRateLimitError error \<or> isNetworkError error) then
               retryLoop upstream maxRetries (attempt + 1) (Some error)
                 (slept @ [2 ^ attempt * 1000])
             else
               \<lparr>returned = Inl (Some (OpenAIError
                   (case message error of
                      None \<Rightarrow> ''Unknown OpenAI error''
                    | Some m \<Rightarrow> if m = [] then ''Unknown OpenAI error'' else m))),
                attempts = attempt, delays = slept\<rparr>)
      else \<lparr>returned = Inl lastError, attempts = attempt - 1, delays = slept\<rparr>)"
  by pat_completeness auto
termination
  by (relation "measure (\<lambda>(upstream, maxRetries, attempt, lastError, slept). Suc maxRetries - attempt)") auto

declare retryLoop.simps [simp del]

definition callOpenAIWithRetry :: "(nat \<Rightarrow> 'r api_call) \<Rightarrow> nat \<Rightarrow> 'r retry_run" where
  "callOpenAIWithRetry upstream maxRetries = retryLoop upstream maxRetries 1 None []"

text \<open>
  The two failure classes of the loop: a client error (status 400, 401 or 403) ends it at
  once; a failure that is not a client error and that \<open>isRateLimitError\<close> or
  \<open>isNetworkError\<close> accepts is retried while attempts remain.
\<close>

definition clientError :: "js_error \<Rightarrow> bool" where
  "clientError error \<longleftrightarrow>
     status error = Some 400 \<or> status error = Some 401 \<or> status error = Some 403"

definition retryable :: "js_error \<Rightarrow> bool" where
  "retryable error \<longleftrightarrow>
     \<not> clientError error \<and> (isRateLimitError error \<or> isNetworkError error)"

definition messageOrUnknown :: "js_error \<Rightarrow> string" where
  "messageOrUnknown error =
     (case message error of
        None \<Rightarrow> ''Unknown OpenAI error''
      | Some m \<Rightarrow> if m = [] then ''Unknown OpenAI error'' else m)"

definition apiErrorMessage :: "js_error \<Rightarrow> string" where
  "apiErrorMessage error =
     (if status error = Some 400 then ''API Error (400)''
      else if status error = Some 401 then ''API Error (401)''
      else ''API Error (403)'')"

section \<open>Orchestrator: \<open>analyzeLLMDiscoverability\<close> (llm-analysis.server.ts)\<close>

text \<open>
  What one call takes from outside the program: the clock readings of the limiter, of the
  cache lookup and of the cache insert; the review data \<open>fetchProductReviewData\<close> returns
  (it catches its own errors and returns \<open>null\<close>, here \<open>None\<close>); the API call each upstream
  attempt issues; \<open>JSON.parse\<close>, which throws or gives the response object; and the
  collation of \<open>localeCompare\<close>. An upstream response is the list of the
  \<open>message.content\<close> of its choices.
\<close>

type_synonym response = "string option list"

record Environment =
  now_quota :: int
  now_lookup :: int
  now_store :: int
  fetchedReviewData :: "ReviewData option"
  apiCall :: "nat \<Rightarrow> response api_call"
  JSON_parse :: "string \<Rightarrow> js_error + openaiResponse"
  collate :: "string \<Rightarrow> string"

record Options =
  session :: "Session option"

text \<open>The module state: the limiters and the cache.\<close>

record World =
  limiters :: RateLimiters
  analysisCache :: "ProductAnalysis analysisCache"

text \<open>The returned object: \<open>{...analysis, cacheStatus, rateLimited}\<close>.\<close>

datatype CacheStatus = cached | fresh

record AnalysisResult = ProductAnalysis +
  cacheStatus :: "CacheStatus option"
  rateLimited :: "bool option"

definition withStatus :: "ProductAnalysis \<Rightarrow> CacheStatus \<Rightarrow> bool option \<Rightarrow> AnalysisResult" where
  "withStatus a cs rl = ProductAnalysis.extend a \<lparr>cacheStatus = Some cs, rateLimited = rl\<rparr>"

text \<open>
  What a call did: the value it returned (\<open>Inr\<close>) or the exception that left it (\<open>Inl\<close>),
  the module state after it, the caller's product after it, the number of upstream API
  calls it issued and the backoff delays it slept.
\<close>

record 'a Outcome =
  outcome :: 'a
  world :: World
  product_after :: "ProductContent option"
  upstream_calls :: nat
  backoff :: "int list"

text \<open>
  The steps after a cache miss: the upstream call, reading \<open>response.choices[0].message.content\<close>,
  \<open>JSON.parse\<close>, the transformation and the cache insert.
\<close>

definition readContent :: "response \<Rightarrow> js_error + string" where
  "readContent response =
     (case response of
        [] \<Rightarrow> Inl (TypeError ''Cannot read properties of undefined (reading 'message')'')
      | content # _ \<Rightarrow>
          (case content of
             None \<Rightarrow> Inl (OpenAIError ''Empty response received'')
           | Some c \<Rightarrow> if c = [] then Inl (OpenAIError ''Empty response received'') else Inr c))"

definition analyzeFresh ::
  "Environment \<Rightarrow> string \<Rightarrow> World \<Rightarrow> ProductContent \<Rightarrow> (js_error option + AnalysisResult) Outcome" where
  "analyzeFresh env hash w p =
     (let run = callOpenAIWithRetry (apiCall env) 3;
          failed = (\<lambda>e. \<lparr>outcome = Inl e, world = w, product_after = Some p,
                          upstream_calls = attempts run, backoff = delays run\<rparr>)
      in case returned run of
           Inl e \<Rightarrow> failed e
         | Inr response \<Rightarrow>
             (case readContent response of
                Inl e \<Rightarrow> failed (Some e)
              | Inr content \<Rightarrow>
                  (case JSON_parse env content of
                     Inl e \<Rightarrow> failed (Some e)
                   | Inr openaiResponse \<Rightarrow>
                       (let analysis = transformOpenAIResponse openaiResponse (fetchedReviewData env)
                        in \<lparr>outcome = Inr (withStatus analysis fresh None),
                            world = w\<lparr>analysisCache :=
                              setCachedAnalysis (now_store env) hash analysis (analysisCache w)\<rparr>,
                            product_after = Some p,
                            upstream_calls = attempts run, backoff = delays run\<rparr>))))"

text \<open>The steps after the quota check: hashing, the cache lookup and, on a miss, the
  steps above.\<close>

definition lookupOrAnalyze ::
  "Environment \<Rightarrow> World \<Rightarrow> ProductContent \<Rightarrow> (js_error option + AnalysisResult) Outcome" where
  "lookupOrAnalyze env w p =
     (case generateContentHash (collate env)
             (ProductContent.extend p \<lparr>reviewData = fetchedReviewData env\<rparr>) of
        Inl e \<Rightarrow>
          \<lparr>outcome = Inl (Some e), world = w, product_after = Some p,
           upstream_calls = 0, backoff = []\<rparr>
      | Inr hashed \<Rightarrow>
          (let p' = ProductContent.truncate (snd hashed);
               looked = getCachedAnalysis (now_lookup env) (fst hashed) (analysisCache w);
               w' = w\<lparr>analysisCache := snd looked\<rparr>
           in case fst looked of
                Some cachedAnalysis \<Rightarrow>
                  \<lparr>outcome = Inr (withStatus cachedAnalysis cached None),
                   world = w', product_after = Some p',
                   upstream_calls = 0, backoff = []\<rparr>
              | None \<Rightarrow> analyzeFresh env (fst hashed) w' p'))"

text \<open>The body of the \<open>try\<close> block; \<open>Inl\<close> is the value thrown inside it. The limiter is
  consulted only when \<open>options?.session\<close> is there.\<close>

definition tryBlock ::
  "Environment \<Rightarrow> ProductContent option \<Rightarrow> Options option \<Rightarrow> World \<Rightarrow>
     (js_error option + AnalysisResult) Outcome" where
  "tryBlock env product options w =
     (case validateProductData product of
        Inl e \<Rightarrow>
          \<lparr>outcome = Inl (Some e), world = w, product_after = product,
           upstream_calls = 0, backoff = []\<rparr>
      | Inr _ \<Rightarrow>
          (case product of
             None \<Rightarrow>
               \<lparr>outcome = Inl (Some (ValidationError ''Product data is required'')), world = w,
                product_after = product, upstream_calls = 0, backoff = []\<rparr>
           | Some p \<Rightarrow>
               (case (case options of None \<Rightarrow> None | Some opts \<Rightarrow> session opts) of
                  None \<Rightarrow> lookupOrAnalyze env w p
                | Some s \<Rightarrow>
                    (let rateLimit = checkRateLimit (now_quota env) (getRateLimitIdentifier s)
                                       openai (limiters w);
                         w' = w\<lparr>limiters := snd rateLimit\<rparr>
                     in if \<not> allowed (fst rateLimit) then
                          \<lparr>outcome = Inr (withStatus
                             (handleAnalysisError (Error ''Rate limit exceeded'') (title p))
                             fresh (Some True)),
                           world = w', product_after = Some p, upstream_calls = 0, backoff = []\<rparr>
                        else lookupOrAnalyze env w' p))))"

text \<open>
  The function with its \<open>catch\<close> block. The handler evaluates \<open>isRateLimitError(error)\<close> and
  \<open>product.title\<close>: the first throws a \<open>TypeError\<close> when the caught value is \<open>undefined\<close>, the
  second when \<open>product\<close> is \<open>null\<close> or \<open>undefined\<close>; an exception of the handler leaves the
  function.
\<close>

definition analyzeLLMDiscoverability ::
  "Environment \<Rightarrow> ProductContent option \<Rightarrow> Options option \<Rightarrow> World \<Rightarrow>
     (js_error + AnalysisResult) Outcome" where
  "analyzeLLMDiscoverability env product options w =
     (let t = tryBlock env product options w;
          finish = (\<lambda>r. \<lparr>outcome = r, world = world t, product_after = product_after t,
                          upstream_calls = upstream_calls t, backoff = backoff t\<rparr>)
      in case outcome t of
           Inr r \<Rightarrow> finish (Inr r)
         | Inl None \<Rightarrow>
             finish (Inl (TypeError ''Cannot read properties of undefined (reading 'message')''))
         | Inl (Some error) \<Rightarrow>
             (case product of
                None \<Rightarrow> finish (Inl (TypeError ''Cannot read properties of null (reading 'title')''))
              | Some p \<Rightarrow>
                  finish (Inr (withStatus (handleAnalysisError error (title p)) fresh
                                 (if isRateLimitError error then Some True else None)))))"

section \<open>Example data\<close>

text \<open>A product, a session, an environment and module states, used to instantiate the
  theorems below.\<close>

definition example_product :: ProductContent where
  "example_product =
     \<lparr>title = JString ''Board'', description = JString ''A board'',
      tags = JArray [''winter'', ''snow''], vendor = ''V'', productType = ''Snowboard'',
      metafields = [(''size'', ''156''), (''color'', ''red'')]\<rparr>"

definition example_options :: Options where
  "example_options = \<lparr>session = Some \<lparr>shop = Some ''s.example''\<rparr>\<rparr>"

definition example_env :: Environment where
  "example_env =
     \<lparr>now_quota = 500, now_lookup = 501, now_store = 502, fetchedReviewData = None,
      apiCall = (\<lambda>k. \<lparr>latency = 100, settles = Resolved [Some ''{}'']\<rparr>),
      JSON_parse = (\<lambda>s. Inr []),
      collate = (\<lambda>s. s)\<rparr>"

definition example_limiter :: "int \<Rightarrow> RateLimiter" where
  "example_limiter used =
     \<lparr>limits = [''s.example'' \<mapsto> \<lparr>count = used, resetTime = 1000\<rparr>],
      maxRequests = 50, windowMs = 3600000\<rparr>"

definition example_world :: "int \<Rightarrow> World" where
  "example_world used =
     \<lparr>limiters = \<lparr>openaiRateLimiter = example_limiter used,
                   bulkAnalysisLimiter = \<lparr>limits = Map.empty, maxRequests = 5, windowMs = 3600000\<rparr>\<rparr>,
      analysisCache = []\<rparr>"

definition rate_limit_rejection :: js_error where
  "rate_limit_rejection =
     \<lparr>message = Some ''Rate limit reached for requests'', status = Some 429,
      code = Some ''rate_limit_exceeded'', statusCode = None\<rparr>"

definition example_env_upstream_limited :: Environment where
  "example_env_upstream_limited =
     example_env\<lparr>apiCall := (\<lambda>k. \<lparr>latency = 100, settles = Rejected rate_limit_rejection\<rparr>)\<rparr>"

definition too_many_requests :: js_error where
  "too_many_requests =
     \<lparr>message = Some ''Too Many Requests'', status = Some 429, code = None,
      statusCode = None\<rparr>"

definition always_rejected :: "js_error \<Rightarrow> nat \<Rightarrow> string api_call" where
  "always_rejected e = (\<lambda>k. \<lparr>latency = 100, settles = Rejected e\<rparr>)"

text \<open>An environment whose upstream answers at once with the text \<open>rate limit\<close>, which is
  not JSON, and whose \<open>JSON.parse\<close> reports that the way V8 does, quoting the text.\<close>

definition example_env_parse_error :: Environment where
  "example_env_parse_error =
     example_env
       \<lparr>apiCall := (\<lambda>k. \<lparr>latency = 100, settles = Resolved [Some ''rate limit'']\<rparr>),
        JSON_parse := (\<lambda>s. if s = ''rate limit''
           then Inl (Error (''Unexpected token 'r', '' @ [CHR 0x22] @ ''rate limit'' @ [CHR 0x22] @
                            '' is not valid JSON''))
           else Inr [])\<rparr>"

text \<open>The object the orchestrator hands to \<open>generateContentHash\<close> for the example product:
  a shallow copy, so its \<open>tags\<close> and \<open>metafields\<close> arrays are the caller's own.\<close>

definition example_record :: ProductContentWithReviews where
  "example_record = ProductContent.extend example_product \<lparr>reviewData = None\<rparr>"



section \<open>The composite score of a result\<close>

text \<open>A set of scores is consistent when its \<open>discoveryPotential\<close> is the composite score of
  its own five sub-scores, as \<open>transformOpenAIResponse\<close> computes it.\<close>

definition composite_consistent :: "Scores \<Rightarrow> bool" where
  "composite_consistent s \<longleftrightarrow>
     discoveryPotential s =
       weightedScore (semanticClarity s) (intentMatching s) (featureBenefitStructure s)
         (naturalLanguage s) (structuredInfo s)"

text \<open>An upstream response with the sub-scores 80, 70, 90, 60, 50, and one with the
  sub-scores 0, 0, 0, 1, 9, whose exact weighted sum is 3/2.\<close>

definition scored :: "rat \<Rightarrow> CategoryResponse" where
  "scored s =
     \<lparr>CategoryResponse.score = Some s, CategoryResponse.strengths = None,
      CategoryResponse.areasForImprovement = None,
      CategoryResponse.optimizationSuggestions = None,
      CategoryResponse.specificContentSuggestions = None,
      CategoryResponse.customerLanguageSuggestions = None,
      CategoryResponse.addressedConcerns = None,
      CategoryResponse.highlightedBenefits = None,
      CategoryResponse.missingKeywords = None,
      CategoryResponse.socialProofSuggestions = None\<rparr>"

definition example_response :: openaiResponse where
  "example_response =
     [(''SemanticClarity'', scored 80), (''IntentMatching'', scored 70),
      (''FeatureBenefitStructure'', scored 90), (''NaturalLanguageOptimization'', scored 60),
      (''StructuredInformation'', scored 50)]"

definition tie_response :: openaiResponse where
  "tie_response =
     [(''SemanticClarity'', scored 0), (''IntentMatching'', scored 0),
      (''FeatureBenefitStructure'', scored 0), (''NaturalLanguageOptimization'', scored 1),
      (''StructuredInformation'', scored 9)]"

section \<open>Properties of the quota tracker\<close>

lemma isAllowed_new_window:
  assumes "limits rl identifier = None \<or>
           (\<exists>e. limits rl identifier = Some e \<and> now \<ge> resetTime e)"
  shows "isAllowed now identifier rl =
           (True, rl\<lparr>limits := (limits rl)(identifier \<mapsto>
                     \<lparr>count = 1, resetTime = now + windowMs rl\<rparr>)\<rparr>)"
  using assms by (auto simp: isAllowed_def)

lemma isAllowed_live_window:
  assumes "limits rl identifier = Some e" and "now < resetTime e"
  shows "isAllowed now identifier rl =
           (if count e < maxRequests rl
            then (True, rl\<lparr>limits := (limits rl)(identifier \<mapsto> e\<lparr>count := count e + 1\<rparr>)\<rparr>)
            else (False, rl))"
  using assms by (simp add: isAllowed_def)

lemma isAllowed_other_tenant:
  assumes "other \<noteq> identifier"
  shows "limits (snd (isAllowed now identifier rl)) other = limits rl other"
  using assms by (simp add: isAllowed_def split: option.splits)

lemma isAllowed_config:
  "maxRequests (snd (isAllowed now identifier rl)) = maxRequests rl \<and>
   windowMs (snd (isAllowed now identifier rl)) = windowMs rl"
  by (simp add: isAllowed_def split: option.splits)

lemma requests_five:
  assumes "maxRequests rl = 5"
    and "limits rl i = None \<or> (\<exists>e. limits rl i = Some e \<and> t1 \<ge> resetTime e)"
    and "t2 < t1 + windowMs rl" "t3 < t1 + windowMs rl" "t4 < t1 + windowMs rl"
        "t5 < t1 + windowMs rl" "t6 < t1 + windowMs rl"
  shows "requests [t1, t2, t3, t4, t5, t6] i rl =
           ([True, True, True, True, True, False],
            rl\<lparr>limits := (limits rl)(i \<mapsto> \<lparr>count = 5, resetTime = t1 + windowMs rl\<rparr>)\<rparr>)"
  using assms by (auto simp: isAllowed_def)

lemma requests_five_then_reset:
  assumes "maxRequests rl = 5"
    and "limits rl i = None \<or> (\<exists>e. limits rl i = Some e \<and> t1 \<ge> resetTime e)"
    and "t2 < t1 + windowMs rl" "t3 < t1 + windowMs rl" "t4 < t1 + windowMs rl"
        "t5 < t1 + windowMs rl" "t6 < t1 + windowMs rl"
    and "t7 \<ge> t1 + windowMs rl"
  shows "requests [t1, t2, t3, t4, t5, t6, t7] i rl =
           ([True, True, True, True, True, False, True],
            rl\<lparr>limits := (limits rl)(i \<mapsto> \<lparr>count = 1, resetTime = t7 + windowMs rl\<rparr>)\<rparr>)"
  using assms by (auto simp: isAllowed_def)

text \<open>
  Claim C1. \<open>isAllowed\<close> is a fixed-window counter, for every identifier, limit and window
  length. (1) On the first request of an identifier, or once the current time has reached
  the end of its window, a new window starts with count 1 and the request is allowed.
  (2) Inside a live window the request is allowed exactly when the count is below the
  limit; an allowed request adds one to the count and keeps the window, a denied request
  leaves the limiter as it was. (3) The windows of other identifiers are untouched.
  (4) With a limit of 5, six requests in one window are answered allowed five times and
  then denied, the count staying at 5; a seventh request at or after the end of the window
  is allowed and the count is 1 again.
\<close>

theorem quota_fixed_window:
  "((limits rl i = None \<or> (\<exists>e. limits rl i = Some e \<and> now \<ge> resetTime e)) \<longrightarrow>
      isAllowed now i rl =
        (True, rl\<lparr>limits := (limits rl)(i \<mapsto>
                  \<lparr>count = 1, resetTime = now + windowMs rl\<rparr>)\<rparr>)) \<and>
   (\<forall>e. limits rl i = Some e \<and> now < resetTime e \<longrightarrow>
      fst (isAllowed now i rl) = (count e < maxRequests rl) \<and>
      (count e < maxRequests rl \<longrightarrow>
         snd (isAllowed now i rl) =
           rl\<lparr>limits := (limits rl)(i \<mapsto> e\<lparr>count := count e + 1\<rparr>)\<rparr>) \<and>
      (\<not> count e < maxRequests rl \<longrightarrow> snd (isAllowed now i rl) = rl)) \<and>
   (\<forall>other. other \<noteq> i \<longrightarrow> limits (snd (isAllowed now i rl)) other = limits rl other) \<and>
   (maxRequests rl = 5 \<and>
    (limits rl i = None \<or> (\<exists>e. limits rl i = Some e \<and> t1 \<ge> resetTime e)) \<and>
    t2 < t1 + windowMs rl \<and> t3 < t1 + windowMs rl \<and> t4 < t1 + windowMs rl \<and>
    t5 < t1 + windowMs rl \<and> t6 < t1 + windowMs rl \<and> t7 \<ge> t1 + windowMs rl \<longrightarrow>
      requests [t1, t2, t3, t4, t5, t6] i rl =
        ([True, True, True, True, True, False],
         rl\<lparr>limits := (limits rl)(i \<mapsto> \<lparr>count = 5, resetTime = t1 + windowMs rl\<rparr>)\<rparr>) \<and>
      requests [t1, t2, t3, t4, t5, t6, t7] i rl =
        ([True, True, True, True, True, False, True],
         rl\<lparr>limits := (limits rl)(i \<mapsto> \<lparr>count = 1, resetTime = t7 + windowMs rl\<rparr>)\<rparr>))"
proof (intro conjI)
  show "(limits rl i = None \<or> (\<exists>e. limits rl i = Some e \<and> now \<ge> resetTime e)) \<longrightarrow>
      isAllowed now i rl =
        (True, rl\<lparr>limits := (limits rl)(i \<mapsto>
                  \<lparr>count = 1, resetTime = now + windowMs rl\<rparr>)\<rparr>)"
    using isAllowed_new_window by blast
next
  show "\<forall>e. limits rl i = Some e \<and> now < resetTime e \<longrightarrow>
      fst (isAllowed now i rl) = (count e < maxRequests rl) \<and>
      (count e < maxRequests rl \<longrightarrow>
         snd (isAllowed now i rl) =
           rl\<lparr>limits := (limits rl)(i \<mapsto> e\<lparr>count := count e + 1\<rparr>)\<rparr>) \<and>
      (\<not> count e < maxRequests rl \<longrightarrow> snd (isAllowed now i rl) = rl)"
    by (simp add: isAllowed_live_window)
next
  show "\<forall>other. other \<noteq> i \<longrightarrow> limits (snd (isAllowed now i rl)) other = limits rl other"
    by (simp add: isAllowed_other_tenant)
next
  show "maxRequests rl = 5 \<and>
    (limits rl i = None \<or> (\<exists>e. limits rl i = Some e \<and> t1 \<ge> resetTime e)) \<and>
    t2 < t1 + windowMs rl \<and> t3 < t1 + windowMs rl \<and> t4 < t1 + windowMs rl \<and>
    t5 < t1 + windowMs rl \<and> t6 < t1 + windowMs rl \<and> t7 \<ge> t1 + windowMs rl \<longrightarrow>
      requests [t1, t2, t3, t4, t5, t6] i rl =
        ([True, True, True, True, True, False],
         rl\<lparr>limits := (limits rl)(i \<mapsto> \<lparr>count = 5, resetTime = t1 + windowMs rl\<rparr>)\<rparr>) \<and>
      requests [t1, t2, t3, t4, t5, t6, t7] i rl =
        ([True, True, True, True, True, False, True],
         rl\<lparr>limits := (limits rl)(i \<mapsto> \<lparr>count = 1, resetTime = t7 + windowMs rl\<rparr>)\<rparr>)"
  proof (intro impI conjI)
    assume h: "maxRequests rl = 5 \<and>
      (limits rl i = None \<or> (\<exists>e. limits rl i = Some e \<and> t1 \<ge> resetTime e)) \<and>
      t2 < t1 + windowMs rl \<and> t3 < t1 + windowMs rl \<and> t4 < t1 + windowMs rl \<and>
      t5 < t1 + windowMs rl \<and> t6 < t1 + windowMs rl \<and> t7 \<ge> t1 + windowMs rl"
    then show "requests [t1, t2, t3, t4, t5, t6] i rl =
        ([True, True, True, True, True, False],
         rl\<lparr>limits := (limits rl)(i \<mapsto> \<lparr>count = 5, resetTime = t1 + windowMs rl\<rparr>)\<rparr>)"
      by (intro requests_five) simp_all
    from h show "requests [t1, t2, t3, t4, t5, t6, t7] i rl =
        ([True, True, True, True, True, False, True],
         rl\<lparr>limits := (limits rl)(i \<mapsto> \<lparr>count = 1, resetTime = t7 + windowMs rl\<rparr>)\<rparr>)"
      by (intro requests_five_then_reset) simp_all
  qed
qed

theorem quota_fixed_window_witness:
  "isAllowed 0 ''shop.example''
      \<lparr>limits = Map.empty, maxRequests = 5, windowMs = 3600000\<rparr> =
     (True, \<lparr>limits = [''shop.example'' \<mapsto> \<lparr>count = 1, resetTime = 3600000\<rparr>],
             maxRequests = 5, windowMs = 3600000\<rparr>) \<and>
   fst (isAllowed 10 ''shop.example''
      \<lparr>limits = [''shop.example'' \<mapsto> \<lparr>count = 5, resetTime = 3600000\<rparr>],
       maxRequests = 5, windowMs = 3600000\<rparr>) = False \<and>
   requests [0, 1000, 2000, 3000, 4000, 3599999, 3600000] ''shop.example''
      \<lparr>limits = Map.empty, maxRequests = 5, windowMs = 3600000\<rparr> =
     ([True, True, True, True, True, False, True],
      \<lparr>limits = [''shop.example'' \<mapsto> \<lparr>count = 1, resetTime = 7200000\<rparr>],
       maxRequests = 5, windowMs = 3600000\<rparr>)"
proof -
  let ?rl0 = "\<lparr>limits = Map.empty, maxRequests = 5, windowMs = 3600000\<rparr>"
  let ?rl5 = "\<lparr>limits = [''shop.example'' \<mapsto> \<lparr>count = 5, resetTime = 3600000\<rparr>],
       maxRequests = 5, windowMs = 3600000\<rparr>"
  note A = quota_fixed_window [where rl = ?rl0
      and i = "''shop.example''" and now = 0 and ?t1.0 = 0 and ?t2.0 = 1000 and ?t3.0 = 2000
      and ?t4.0 = 3000 and ?t5.0 = 4000 and ?t6.0 = 3599999 and ?t7.0 = 3600000]
  note B = quota_fixed_window [where rl = ?rl5 and i = "''shop.example''" and now = 10]
  have 1: "isAllowed 0 ''shop.example'' ?rl0 =
     (True, \<lparr>limits = [''shop.example'' \<mapsto> \<lparr>count = 1, resetTime = 3600000\<rparr>],
             maxRequests = 5, windowMs = 3600000\<rparr>)"
    using A [THEN conjunct1] by simp
  have 2: "fst (isAllowed 10 ''shop.example'' ?rl5) = False"
    using B [THEN conjunct2, THEN conjunct1, rule_format, of "\<lparr>count = 5, resetTime = 3600000\<rparr>"]
    by simp
  have 3: "requests [0, 1000, 2000, 3000, 4000, 3599999, 3600000] ''shop.example'' ?rl0 =
     ([True, True, True, True, True, False, True],
      \<lparr>limits = [''shop.example'' \<mapsto> \<lparr>count = 1, resetTime = 7200000\<rparr>],
       maxRequests = 5, windowMs = 3600000\<rparr>)"
    using A [THEN conjunct2, THEN conjunct2, THEN conjunct2] by simp
  show ?thesis by (rule conjI [OF 1 conjI [OF 2 3]])
qed

section \<open>Properties of the result cache\<close>

lemma update_absent: "k \<notin> fst ` set al \<Longrightarrow> AList.update k v al = al @ [(k, v)]"
  by (induction al) auto


lemma length_update_le: "length (AList.update k v al) \<le> Suc (length al)"
  by (induction al) auto

lemma hd_sort_key_min:
  assumes "xs \<noteq> []" and "x \<in> set xs"
  shows "f (hd (sort_key f xs)) \<le> f x"
proof -
  have s: "sorted (map f (sort_key f xs))" by simp
  have ne: "sort_key f xs \<noteq> []" using assms(1) by (metis length_sort list.size(3) length_0_conv)
  then obtain y ys where e: "sort_key f xs = y # ys" by (cases "sort_key f xs") auto
  have "x \<in> set (sort_key f xs)" using assms(2) by simp
  then show ?thesis using s e by auto
qed

lemma hd_sort_key_mem: "xs \<noteq> [] \<Longrightarrow> hd (sort_key f xs) \<in> set xs"
  by (metis hd_in_set length_sort length_0_conv set_sort)


lemma setCachedAnalysis_unfold:
  "setCachedAnalysis now hash a cache =
     (let cache' = AList.update hash \<lparr>analysis = a, timestamp = now, contentHash = hash\<rparr> cache
      in if length cache' > 1000
         then AList.delete (fst (hd (sort_key (\<lambda>e. timestamp (snd e)) cache'))) cache'
         else cache')"
proof -
  let ?c = "AList.update hash \<lparr>analysis = a, timestamp = now, contentHash = hash\<rparr> cache"
  have "sort_key (\<lambda>e. timestamp (snd e)) ?c \<noteq> []"
    by (metis length_sort length_0_conv update_nonempty)
  then show ?thesis
    by (cases "sort_key (\<lambda>e. timestamp (snd e)) ?c") (simp_all add: setCachedAnalysis_def Let_def)
qed

lemma delete_shortens:
  assumes "k \<in> fst ` set al"
  shows "length (AList.delete k al) < length al"
  using assms
proof (induction al)
  case Nil
  then show ?case by simp
next
  case (Cons p al)
  show ?case
  proof (cases "fst p = k")
    case True
    then show ?thesis using length_delete_le [of k al] by (simp add: less_Suc_eq_le)
  next
    case False
    with Cons.prems have "k \<in> fst ` set al" by auto
    with Cons.IH False show ?thesis by simp
  qed
qed

lemma setCachedAnalysis_length:
  assumes "length cache \<le> 1000"
  shows "length (setCachedAnalysis now hash a cache) \<le> 1000"
proof -
  let ?f = "\<lambda>e::string \<times> 'a CacheEntry. timestamp (snd e)"
  let ?c = "AList.update hash \<lparr>analysis = a, timestamp = now, contentHash = hash\<rparr> cache"
  show ?thesis
  proof (cases "length ?c > 1000")
    case False
    then show ?thesis by (simp add: setCachedAnalysis_unfold Let_def)
  next
    case True
    have "hd (sort_key ?f ?c) \<in> set ?c" by (rule hd_sort_key_mem) simp
    then have "fst (hd (sort_key ?f ?c)) \<in> fst ` set ?c" by (rule imageI)
    then have "length (AList.delete (fst (hd (sort_key ?f ?c))) ?c) < length ?c"
      by (rule delete_shortens)
    moreover have "length ?c \<le> Suc (length cache)" by (rule length_update_le)
    then have "length ?c \<le> 1001" using assms by linarith
    ultimately show ?thesis using True by (simp add: setCachedAnalysis_unfold Let_def)
  qed
qed

lemma setCachedAnalysis_distinct:
  assumes "distinct (map fst cache)"
  shows "distinct (map fst (setCachedAnalysis now hash a cache))"
  using assms by (simp add: setCachedAnalysis_unfold Let_def distinct_update distinct_delete)



lemma setCachedAnalysis_inv:
  assumes "cache_inv t cache" and "t \<le> now"
  shows "cache_inv now (setCachedAnalysis now hash a cache)"
proof -
  let ?v = "\<lparr>analysis = a, timestamp = now, contentHash = hash\<rparr>"
  have inv: "distinct (map fst cache)" "length cache \<le> 1000"
    "list_all (\<lambda>e. timestamp (snd e) \<le> t) cache"
    using assms by (simp_all add: cache_inv_def)
  have sub: "set (AList.update hash ?v cache) \<subseteq> insert (hash, ?v) (set cache)"
    by (induction cache) auto
  have del: "set (AList.delete k al) \<subseteq> set al" for k and al :: "'a analysisCache"
    by (auto simp: AList.delete_eq)
  have "set (setCachedAnalysis now hash a cache) \<subseteq> insert (hash, ?v) (set cache)"
  proof (cases "length (AList.update hash ?v cache) > 1000")
    case True
    then have "setCachedAnalysis now hash a cache =
        AList.delete (fst (hd (sort_key (\<lambda>e. timestamp (snd e)) (AList.update hash ?v cache))))
          (AList.update hash ?v cache)"
      by (simp add: setCachedAnalysis_unfold Let_def)
    then show ?thesis using order_trans [OF del sub] by simp
  next
    case False
    then show ?thesis using sub by (simp add: setCachedAnalysis_unfold Let_def)
  qed
  moreover have "\<forall>e \<in> insert (hash, ?v) (set cache). timestamp (snd e) \<le> now"
    using inv(3) assms(2) by (auto simp: list_all_iff)
  ultimately have "list_all (\<lambda>e. timestamp (snd e) \<le> now) (setCachedAnalysis now hash a cache)"
    unfolding list_all_iff by blast
  then show ?thesis
    using setCachedAnalysis_length [OF inv(2)] setCachedAnalysis_distinct [OF inv(1)]
    by (simp add: cache_inv_def)
qed

lemma getCachedAnalysis_inv:
  assumes "cache_inv t cache" and "t \<le> now"
  shows "cache_inv now (snd (getCachedAnalysis now hash cache))"
proof -
  have del: "set (AList.delete k al) \<subseteq> set al" for k and al :: "'a analysisCache"
    by (auto simp: AList.delete_eq)
  have l: "list_all (\<lambda>e. timestamp (snd e) \<le> now) cache"
    using assms by (auto simp: cache_inv_def list_all_iff)
  then have "list_all (\<lambda>e. timestamp (snd e) \<le> now) (AList.delete hash cache)"
    using del [of hash cache] unfolding list_all_iff by blast
  moreover have "length (AList.delete hash cache) \<le> 1000"
    using assms(1) length_delete_le [of hash cache] by (simp add: cache_inv_def)
  ultimately show ?thesis using assms(1) l
    by (simp add: getCachedAnalysis_def cache_inv_def distinct_delete split: option.splits)
qed


lemma setCachedAnalysis_append:
  assumes "hash \<notin> fst ` set cache" and "length cache < 1000"
  shows "setCachedAnalysis now hash a cache = cache @ [cache_entry (now, hash, a)]"
  using assms by (simp add: setCachedAnalysis_unfold update_absent cache_entry_def)

lemma fst_cache_entry: "fst (cache_entry x) = fst (snd x)"
  by (cases x) (simp add: cache_entry_def)

lemma timestamp_cache_entry: "timestamp (snd (cache_entry x)) = fst x"
  by (cases x) (simp add: cache_entry_def)

lemma inserts_small:
  assumes "distinct (map (\<lambda>x. fst (snd x)) ins)"
    and "fst ` set cache \<inter> (\<lambda>x. fst (snd x)) ` set ins = {}"
    and "length cache + length ins \<le> 1000"
  shows "inserts ins cache = cache @ map cache_entry ins"
  using assms
proof (induction ins arbitrary: cache)
  case Nil
  then show ?case by simp
next
  case (Cons x ins)
  obtain now hash a where x: "x = (now, hash, a)" by (cases x) auto
  have new: "hash \<notin> fst ` set cache" using Cons.prems(2) x by auto
  have len: "length cache < 1000" using Cons.prems(3) by simp
  have step: "setCachedAnalysis now hash a cache = cache @ [cache_entry x]"
    using setCachedAnalysis_append [OF new len] x by simp
  have "inserts ins (cache @ [cache_entry x]) = (cache @ [cache_entry x]) @ map cache_entry ins"
  proof (rule Cons.IH)
    show "distinct (map (\<lambda>x. fst (snd x)) ins)" using Cons.prems(1) by simp
    show "fst ` set (cache @ [cache_entry x]) \<inter> (\<lambda>x. fst (snd x)) ` set ins = {}"
      using Cons.prems(1,2) by (auto simp: fst_cache_entry image_iff)
    show "length (cache @ [cache_entry x]) + length ins \<le> 1000" using Cons.prems(3) by simp
  qed
  then show ?case using step x by simp
qed

lemma inserts_append: "inserts (xs @ ys) cache = inserts ys (inserts xs cache)"
  by (induction xs cache rule: inserts.induct) simp_all

lemma delete_first_key:
  assumes "distinct (map fst (p # ps))"
  shows "AList.delete (fst p) (p # ps) = ps"
proof -
  have "fst p \<notin> fst ` set ps" using assms by (auto simp: image_iff)
  then have "AList.delete (fst p) ps = ps" by (rule delete_id)
  then show ?thesis by simp
qed

lemma length_delete_distinct:
  assumes "distinct (map fst al)" and "k \<in> fst ` set al"
  shows "Suc (length (AList.delete k al)) = length al"
  using assms
proof (induction al)
  case Nil
  then show ?case by simp
next
  case (Cons p al)
  show ?case
  proof (cases "fst p = k")
    case True
    then have "AList.delete k (p # al) = al" using delete_first_key [OF Cons.prems(1)] by simp
    then show ?thesis by simp
  next
    case False
    with Cons.prems have "k \<in> fst ` set al" "distinct (map fst al)" by auto
    with Cons.IH False show ?thesis by simp
  qed
qed

lemma inserts_1001:
  fixes ins :: "(int \<times> string \<times> 'a) list"
  assumes len: "length ins = 1001"
    and d: "distinct (map (\<lambda>x. fst (snd x)) ins)"
    and s: "sorted (map fst ins)"
  shows "inserts ins [] = map cache_entry (tl ins)"
proof -
  let ?f = "\<lambda>e::string \<times> 'a CacheEntry. timestamp (snd e)"
  have ne: "ins \<noteq> []" using len by auto
  define xs where "xs = butlast ins"
  define x where "x = last ins"
  have ins: "ins = xs @ [x]" using ne by (simp add: xs_def x_def)
  have lxs: "length xs = 1000" using len by (simp add: xs_def)
  obtain now hash a where x: "x = (now, hash, a)" by (cases x) auto
  have dxs: "distinct (map (\<lambda>x. fst (snd x)) xs)" using d ins by simp
  have first: "inserts xs [] = map cache_entry xs"
    using inserts_small [OF dxs, of "[]"] lxs by simp
  let ?v = "\<lparr>analysis = a, timestamp = now, contentHash = hash\<rparr>"
  have keys: "map fst (map cache_entry ins) = map (\<lambda>x. fst (snd x)) ins"
    by (simp add: fst_cache_entry)
  have new: "hash \<notin> fst ` set (map cache_entry xs)"
    using d ins x by (auto simp: fst_cache_entry image_iff)
  have upd: "AList.update hash ?v (map cache_entry xs) = map cache_entry ins"
    using update_absent [OF new] ins x by (simp add: cache_entry_def)
  have "map ?f (map cache_entry ins) = map fst ins"
    by (simp add: timestamp_cache_entry)
  then have "sorted (map ?f (map cache_entry ins))" using s by (simp only:)
  then have srt: "sort_key ?f (map cache_entry ins) = map cache_entry ins"
    by (rule sort_key_id_if_sorted)
  obtain p ps where c: "map cache_entry ins = p # ps"
    using ne by (cases "map cache_entry ins") auto
  have dk: "distinct (map fst (p # ps))" using d keys c by metis
  have "setCachedAnalysis now hash a (map cache_entry xs) =
          AList.delete (fst (hd (map cache_entry ins))) (map cache_entry ins)"
    using len by (simp add: setCachedAnalysis_unfold upd srt Let_def del: AList.delete_simps)
  also have "\<dots> = tl (map cache_entry ins)"
    using delete_first_key [OF dk] c by simp
  also have "\<dots> = map cache_entry (tl ins)" by (simp add: map_tl)
  finally have "setCachedAnalysis now hash a (map cache_entry xs) = map cache_entry (tl ins)" .
  then show ?thesis using first by (simp add: ins inserts_append x)
qed

lemma eviction_is_oldest:
  fixes cache :: "'a analysisCache"
  assumes d: "distinct (map fst cache)" and len: "length cache = 1000"
    and new: "hash \<notin> fst ` set cache"
  shows "\<exists>victim \<in> set (cache @ [cache_entry (now, hash, a)]).
           (\<forall>e \<in> set (cache @ [cache_entry (now, hash, a)]).
              timestamp (snd victim) \<le> timestamp (snd e)) \<and>
           setCachedAnalysis now hash a cache =
             AList.delete (fst victim) (cache @ [cache_entry (now, hash, a)]) \<and>
           length (setCachedAnalysis now hash a cache) = 1000"
proof -
  let ?f = "\<lambda>e::string \<times> 'a CacheEntry. timestamp (snd e)"
  let ?c = "cache @ [cache_entry (now, hash, a)]"
  let ?h = "hd (sort_key ?f ?c)"
  have upd: "AList.update hash \<lparr>analysis = a, timestamp = now, contentHash = hash\<rparr> cache = ?c"
    using update_absent [OF new] by (simp add: cache_entry_def)
  have mem: "?h \<in> set ?c" by (rule hd_sort_key_mem) simp
  have least: "\<forall>e \<in> set ?c. ?f ?h \<le> ?f e"
    using hd_sort_key_min [of ?c _ ?f] by blast
  have eq: "setCachedAnalysis now hash a cache = AList.delete (fst ?h) ?c"
    using len by (simp add: setCachedAnalysis_unfold upd Let_def del: AList.delete_simps)
  have dc: "distinct (map fst ?c)" using d new by (auto simp: fst_cache_entry image_iff)
  have "fst ?h \<in> fst ` set ?c" using mem by (rule imageI)
  then have "Suc (length (AList.delete (fst ?h) ?c)) = length ?c"
    by (rule length_delete_distinct [OF dc])
  then have "length (setCachedAnalysis now hash a cache) = 1000" using eq len by simp
  with mem least eq show ?thesis by blast
qed

lemma numbered_entries:
  fixes n :: nat
  defines "ins \<equiv> map (\<lambda>i. (int i, replicate i CHR ''k'', i)) [0..<n]"
  shows "length ins = n"
    and "distinct (map (\<lambda>x. fst (snd x)) ins)"
    and "sorted (map fst ins)"
    and "0 < n \<Longrightarrow> hd ins = (0, [], 0)"
    and "1 < n \<Longrightarrow> (1, ''k'', 1) \<in> set (tl ins)"
proof -
  show "length ins = n" by (simp add: ins_def)
  have "inj_on (\<lambda>i. replicate i CHR ''k'') (set [0..<n])"
    by (rule inj_onI) (metis length_replicate)
  then show "distinct (map (\<lambda>x. fst (snd x)) ins)"
    by (simp add: ins_def distinct_map comp_def)
  have "sorted_wrt (\<lambda>i j. int i \<le> int j) [0..<n]"
    by (rule sorted_wrt_mono_rel [OF _ sorted_wrt_upt]) simp
  then show "sorted (map fst ins)"
    by (simp add: ins_def comp_def sorted_map)
  show "hd ins = (0, [], 0)" if "0 < n"
    using that by (simp add: ins_def hd_map)
  show "(1, ''k'', 1) \<in> set (tl ins)" if "1 < n"
  proof -
    have "tl ins = map (\<lambda>i. (int i, replicate i CHR ''k'', i)) [Suc 0..<n]"
      by (simp add: ins_def map_tl [symmetric])
    moreover have "(1::nat) \<in> set [Suc 0..<n]" using that by simp
    ultimately show ?thesis by (auto simp: image_iff intro!: bexI [of _ 1])
  qed
qed






text \<open>
  Claim C5. (1) An insert into a cache of at most 1000 entries leaves at most 1000 entries,
  so, starting empty, the cache never holds more than 1000 entries after an insert.
  (2) When the insert of a new key into a full cache (1000 entries) pushes the size to
  1001, exactly one entry is removed, and it is one whose timestamp is least among all
  1001 entries. (3) Inserting 1001 entries with distinct keys, at times that do not
  decrease, into the empty cache leaves exactly the last 1000 of them, in order: the
  first-inserted entry is the one evicted.
\<close>

theorem cache_capacity_bound:
  "(length cache \<le> 1000 \<longrightarrow> length (setCachedAnalysis now hash a cache) \<le> 1000) \<and>
   (distinct (map fst cache) \<and> length cache = 1000 \<and> hash \<notin> fst ` set cache \<longrightarrow>
      (\<exists>victim \<in> set (cache @ [cache_entry (now, hash, a)]).
         (\<forall>e \<in> set (cache @ [cache_entry (now, hash, a)]).
            timestamp (snd victim) \<le> timestamp (snd e)) \<and>
         setCachedAnalysis now hash a cache =
           AList.delete (fst victim) (cache @ [cache_entry (now, hash, a)]) \<and>
         length (setCachedAnalysis now hash a cache) = 1000)) \<and>
   (length ins = 1001 \<and> distinct (map (\<lambda>x. fst (snd x)) ins) \<and> sorted (map fst ins) \<longrightarrow>
      inserts ins [] = map cache_entry (tl ins) \<and>
      length (inserts ins []) = 1000 \<and>
      map_of (inserts ins []) (fst (snd (hd ins))) = None \<and>
      (\<forall>x \<in> set (tl ins). map_of (inserts ins []) (fst (snd x)) = Some (snd (cache_entry x))))"
proof (intro conjI impI)
  assume "length cache \<le> 1000"
  then show "length (setCachedAnalysis now hash a cache) \<le> 1000"
    by (rule setCachedAnalysis_length)
next
  assume h2: "distinct (map fst cache) \<and> length cache = 1000 \<and> hash \<notin> fst ` set cache"
  show "\<exists>victim \<in> set (cache @ [cache_entry (now, hash, a)]).
         (\<forall>e \<in> set (cache @ [cache_entry (now, hash, a)]).
            timestamp (snd victim) \<le> timestamp (snd e)) \<and>
         setCachedAnalysis now hash a cache =
           AList.delete (fst victim) (cache @ [cache_entry (now, hash, a)]) \<and>
         length (setCachedAnalysis now hash a cache) = 1000"
    by (rule eviction_is_oldest) (use h2 in simp_all)
next
  assume h: "length ins = 1001 \<and> distinct (map (\<lambda>x. fst (snd x)) ins) \<and> sorted (map fst ins)"
  then show eq: "inserts ins [] = map cache_entry (tl ins)"
    by (intro inserts_1001) simp_all
  from h show "length (inserts ins []) = 1000" by (simp add: eq)
  from h obtain x xs where ins: "ins = x # xs" by (cases ins) auto
  have keys: "map fst (map cache_entry xs) = map (\<lambda>x. fst (snd x)) xs"
    by (simp add: fst_cache_entry)
  have dx: "distinct (map (\<lambda>x. fst (snd x)) xs)" and nx': "fst (snd x) \<notin> set (map (\<lambda>x. fst (snd x)) xs)"
    using h ins by auto
  have d: "distinct (map fst (map cache_entry xs))" unfolding keys by (rule dx)
  have nx: "fst (snd x) \<notin> set (map fst (map cache_entry xs))" unfolding keys by (rule nx')
  have eq': "inserts ins [] = map cache_entry xs" using eq ins by simp
  have hd: "hd ins = x" using ins by simp
  show "map_of (inserts ins []) (fst (snd (hd ins))) = None"
    unfolding eq' hd map_of_eq_None_iff using nx by (simp add: image_image)
  show "\<forall>x \<in> set (tl ins). map_of (inserts ins []) (fst (snd x)) = Some (snd (cache_entry x))"
  proof
    fix y assume "y \<in> set (tl ins)"
    then have "cache_entry y \<in> set (map cache_entry xs)" using ins by simp
    moreover have "cache_entry y = (fst (snd y), snd (cache_entry y))"
      by (cases y) (simp add: cache_entry_def)
    ultimately have "(fst (snd y), snd (cache_entry y)) \<in> set (map cache_entry xs)"
      by (simp only:)
    then show "map_of (inserts ins []) (fst (snd y)) = Some (snd (cache_entry y))"
      unfolding eq' using d by (simp del: set_map)
  qed
qed

theorem cache_capacity_bound_witness:
  "length (map (\<lambda>i. (int i, replicate i CHR ''k'', i)) [0..<1001]) = 1001 \<and>
   length (inserts (map (\<lambda>i. (int i, replicate i CHR ''k'', i)) [0..<1001]) []) = 1000 \<and>
   map_of (inserts (map (\<lambda>i. (int i, replicate i CHR ''k'', i)) [0..<1001]) []) [] = None \<and>
   map_of (inserts (map (\<lambda>i. (int i, replicate i CHR ''k'', i)) [0..<1001]) []) ''k'' =
     Some \<lparr>analysis = 1, timestamp = 1, contentHash = ''k''\<rparr> \<and>
   length (setCachedAnalysis 5 ''k'' (0::nat) []) \<le> 1000"
proof -
  define ins where "ins = map (\<lambda>i. (int i, replicate i CHR ''k'', i)) [0..<1001]"
  note A = cache_capacity_bound [where ins = ins and cache = "[]" and now = 5
      and hash = "''k''" and a = "0::nat"]
  have len: "length ins = 1001"
    and d: "distinct (map (\<lambda>x. fst (snd x)) ins)"
    and s: "sorted (map fst ins)"
    unfolding ins_def by (rule numbered_entries)+
  have hd: "hd ins = (0, [], 0)" unfolding ins_def by (rule numbered_entries) simp
  have m: "(1, ''k'', 1) \<in> set (tl ins)" unfolding ins_def by (rule numbered_entries) simp
  note B = A [THEN conjunct2, THEN conjunct2, rule_format, OF conjI [OF len conjI [OF d s]]]
  have 1: "length (inserts ins []) = 1000"
    by (rule B [THEN conjunct2, THEN conjunct1])
  have 2: "map_of (inserts ins []) [] = None"
    using B [THEN conjunct2, THEN conjunct2, THEN conjunct1] unfolding hd by simp
  have "map_of (inserts ins []) (fst (snd (1::int, ''k'', 1::nat))) =
       Some (snd (cache_entry (1::int, ''k'', 1::nat)))"
    using B [THEN conjunct2, THEN conjunct2, THEN conjunct2] m by (rule bspec)
  then have 3: "map_of (inserts ins []) ''k'' = Some \<lparr>analysis = 1, timestamp = 1, contentHash = ''k''\<rparr>"
    by (simp add: cache_entry_def)
  have 4: "length (setCachedAnalysis 5 ''k'' (0::nat) []) \<le> 1000"
    using A [THEN conjunct1] by simp
  show ?thesis unfolding ins_def [symmetric]
    by (rule conjI [OF len conjI [OF 1 conjI [OF 2 conjI [OF 3 4]]]])
qed

section \<open>Properties of the upstream caller\<close>

lemma timeout_is_network_error: "isNetworkError (Error ''Request timeout'')"
  by (simp add: isNetworkError_def message_includes_def Error_def toLowerCase_def toLowerCase_char_def)

lemma timeout_retryable: "retryable (Error ''Request timeout'')"
  using timeout_is_network_error by (simp add: retryable_def clientError_def Error_def)

lemma retryLoop_resolved:
  assumes "attempt \<le> maxRetries" and "race (upstream attempt) = Resolved r"
  shows "retryLoop upstream maxRetries attempt lastError slept =
           \<lparr>returned = Inr r, attempts = attempt, delays = slept\<rparr>"
  using assms by (subst retryLoop.simps) simp

lemma retryLoop_client:
  assumes "attempt \<le> maxRetries" and "race (upstream attempt) = Rejected e" and "clientError e"
  shows "retryLoop upstream maxRetries attempt lastError slept =
           \<lparr>returned = Inl (Some (OpenAIError
               (apiErrorMessage e))),
            attempts = attempt, delays = slept\<rparr>"
  using assms by (subst retryLoop.simps) (auto simp: clientError_def apiErrorMessage_def)

lemma retryLoop_retry:
  assumes "attempt < maxRetries" and "race (upstream attempt) = Rejected e" and "retryable e"
  shows "retryLoop upstream maxRetries attempt lastError slept =
           retryLoop upstream maxRetries (attempt + 1) (Some e) (slept @ [2 ^ attempt * 1000])"
  using assms by (subst retryLoop.simps) (auto simp: retryable_def clientError_def)

lemma retryLoop_give_up:
  assumes "attempt \<le> maxRetries" and "race (upstream attempt) = Rejected e"
    and "\<not> clientError e" and "\<not> (attempt < maxRetries \<and> retryable e)"
  shows "retryLoop upstream maxRetries attempt lastError slept =
           \<lparr>returned = Inl (Some (OpenAIError (messageOrUnknown e))),
            attempts = attempt, delays = slept\<rparr>"
  using assms
  by (subst retryLoop.simps) (auto simp: retryable_def clientError_def messageOrUnknown_def)

lemma retryLoop_bounds:
  assumes "attempt \<le> maxRetries"
  shows "attempt \<le> attempts (retryLoop upstream maxRetries attempt lastError slept) \<and>
         attempts (retryLoop upstream maxRetries attempt lastError slept) \<le> maxRetries \<and>
         delays (retryLoop upstream maxRetries attempt lastError slept) =
           slept @ map (\<lambda>k. 2 ^ k * 1000)
             [attempt ..< attempts (retryLoop upstream maxRetries attempt lastError slept)]"
  using assms
proof (induction upstream maxRetries attempt lastError slept rule: retryLoop.induct)
  case (1 upstream maxRetries attempt lastError slept)
  show ?case
  proof (cases "race (upstream attempt)")
    case (Resolved r)
    then show ?thesis using "1.prems" by (simp add: retryLoop_resolved)
  next
    case (Rejected e)
    show ?thesis
    proof (cases "clientError e")
      case True
      then show ?thesis using "1.prems" Rejected by (simp add: retryLoop_client)
    next
      case nc: False
      show ?thesis
      proof (cases "attempt < maxRetries \<and> retryable e")
        case False
        then show ?thesis using "1.prems" Rejected nc by (simp add: retryLoop_give_up)
      next
        case True
        then have step: "retryLoop upstream maxRetries attempt lastError slept =
            retryLoop upstream maxRetries (attempt + 1) (Some e) (slept @ [2 ^ attempt * 1000])"
          using Rejected by (simp add: retryLoop_retry)
        have ih: "attempt + 1 \<le> attempts (retryLoop upstream maxRetries (attempt + 1) (Some e) (slept @ [2 ^ attempt * 1000])) \<and>
          attempts (retryLoop upstream maxRetries (attempt + 1) (Some e) (slept @ [2 ^ attempt * 1000])) \<le> maxRetries \<and>
          delays (retryLoop upstream maxRetries (attempt + 1) (Some e) (slept @ [2 ^ attempt * 1000])) =
            (slept @ [2 ^ attempt * 1000]) @ map (\<lambda>k. 2 ^ k * 1000)
              [attempt + 1 ..< attempts (retryLoop upstream maxRetries (attempt + 1) (Some e) (slept @ [2 ^ attempt * 1000]))]"
          using "1.IH" [OF "1.prems" Rejected] True nc
          by (simp add: clientError_def retryable_def)
        then show ?thesis unfolding step by (simp add: upt_conv_Cons)
      qed
    qed
  qed
qed

lemma retryLoop_history:
  assumes "attempt \<le> maxRetries"
  shows "(\<forall>k. attempt \<le> k \<and> k < attempts (retryLoop upstream maxRetries attempt lastError slept) \<longrightarrow>
            (\<exists>e. race (upstream k) = Rejected e \<and> retryable e)) \<and>
         (case race (upstream (attempts (retryLoop upstream maxRetries attempt lastError slept))) of
            Resolved r \<Rightarrow>
              returned (retryLoop upstream maxRetries attempt lastError slept) = Inr r
          | Rejected e \<Rightarrow>
              if clientError e then
                returned (retryLoop upstream maxRetries attempt lastError slept) =
                  Inl (Some (OpenAIError (apiErrorMessage e)))
              else
                returned (retryLoop upstream maxRetries attempt lastError slept) =
                  Inl (Some (OpenAIError (messageOrUnknown e))) \<and>
                \<not> (attempts (retryLoop upstream maxRetries attempt lastError slept) < maxRetries \<and>
                   retryable e))"
  using assms
proof (induction upstream maxRetries attempt lastError slept rule: retryLoop.induct)
  case (1 upstream maxRetries attempt lastError slept)
  show ?case
  proof (cases "race (upstream attempt)")
    case (Resolved r)
    then show ?thesis using "1.prems" by (auto simp: retryLoop_resolved)
  next
    case (Rejected e)
    show ?thesis
    proof (cases "clientError e")
      case True
      then show ?thesis using "1.prems" Rejected by (auto simp: retryLoop_client)
    next
      case nc: False
      show ?thesis
      proof (cases "attempt < maxRetries \<and> retryable e")
        case False
        then show ?thesis using "1.prems" Rejected nc by (auto simp: retryLoop_give_up)
      next
        case True
        let ?next = "retryLoop upstream maxRetries (attempt + 1) (Some e) (slept @ [2 ^ attempt * 1000])"
        have step: "retryLoop upstream maxRetries attempt lastError slept = ?next"
          using True Rejected by (simp add: retryLoop_retry)
        have ih: "(\<forall>k. attempt + 1 \<le> k \<and> k < attempts ?next \<longrightarrow>
              (\<exists>e. race (upstream k) = Rejected e \<and> retryable e)) \<and>
           (case race (upstream (attempts ?next)) of
              Resolved r \<Rightarrow> returned ?next = Inr r
            | Rejected e \<Rightarrow>
                if clientError e then returned ?next = Inl (Some (OpenAIError (apiErrorMessage e)))
                else returned ?next = Inl (Some (OpenAIError (messageOrUnknown e))) \<and>
                     \<not> (attempts ?next < maxRetries \<and> retryable e))"
          using "1.IH" [OF "1.prems" Rejected] True nc
          by (simp add: clientError_def retryable_def)
        have "\<exists>e. race (upstream k) = Rejected e \<and> retryable e"
          if "attempt \<le> k \<and> k < attempts ?next" for k
        proof (cases "k = attempt")
          case True
          then show ?thesis using Rejected \<open>attempt < maxRetries \<and> retryable e\<close> by simp
        next
          case False
          then have "attempt + 1 \<le> k \<and> k < attempts ?next" using that by simp
          then show ?thesis using ih by blast
        qed
        then show ?thesis unfolding step using ih by blast
      qed
    qed
  qed
qed

lemma callOpenAIWithRetry_exhausted:
  assumes "\<forall>k. race (up k) = Rejected e" and "retryable e"
  shows "callOpenAIWithRetry up 3 =
           \<lparr>returned = Inl (Some (OpenAIError (messageOrUnknown e))), attempts = 3,
            delays = [2000, 4000]\<rparr>"
proof -
  have nc: "\<not> clientError e" using assms(2) by (simp add: retryable_def)
  have r: "race (up k) = Rejected e" for k using assms(1) by simp
  have "callOpenAIWithRetry up 3 = retryLoop up 3 (1 + 1) (Some e) ([] @ [2 ^ 1 * 1000])"
    unfolding callOpenAIWithRetry_def
    by (rule retryLoop_retry [where upstream = up and attempt = 1, OF _ r assms(2)]) simp
  also have "\<dots> = retryLoop up 3 (1 + 1 + 1) (Some e) (([] @ [2 ^ 1 * 1000]) @ [2 ^ (1 + 1) * 1000])"
    by (rule retryLoop_retry [where upstream = up and attempt = "1 + 1", OF _ r assms(2)]) simp
  also have "\<dots> = \<lparr>returned = Inl (Some (OpenAIError (messageOrUnknown e))),
        attempts = 1 + 1 + 1, delays = ([] @ [2 ^ 1 * 1000]) @ [2 ^ (1 + 1) * 1000]\<rparr>"
    by (rule retryLoop_give_up [where upstream = up and attempt = "1 + 1 + 1", OF _ r nc]) simp_all
  finally show ?thesis by simp
qed

section \<open>Which errors count as rate-limit errors\<close>

lemmas lower_eval = toLowerCase_def toLowerCase_char_def latin1_lower_def

lemma toLowerCase_append: "toLowerCase (a @ b) = toLowerCase a @ toLowerCase b"
  by (simp add: toLowerCase_def)

lemma isRateLimitError_OpenAIError:
  "isRateLimitError (OpenAIError m) \<longleftrightarrow> string_includes (toLowerCase m) ''rate limit''"
proof -
  have "toLowerCase ''OpenAI API Error: '' = ''openai api error: ''"
    by (simp add: lower_eval)
  then have "string_includes (toLowerCase (''OpenAI API Error: '' @ m)) ''rate limit'' =
        string_includes (toLowerCase m) ''rate limit''"
    unfolding toLowerCase_append by simp
  then show ?thesis
    by (simp add: isRateLimitError_def OpenAIError_def AppError_def message_includes_def)
qed

lemma not_rate_limit_apiError: "\<not> isRateLimitError (OpenAIError (apiErrorMessage e))"
  by (simp add: isRateLimitError_OpenAIError apiErrorMessage_def lower_eval)

lemma isRateLimitError_messageOrUnknown:
  "isRateLimitError (OpenAIError (messageOrUnknown e)) \<longleftrightarrow> message_includes e ''rate limit''"
  by (cases "message e")
     (simp_all add: isRateLimitError_OpenAIError messageOrUnknown_def message_includes_def lower_eval)

lemma not_rate_limit_validation:
  assumes "validateProductData product = Inl e"
  shows "\<not> isRateLimitError e"
proof -
  have "\<not> isRateLimitError (ValidationError m)"
    if "m \<in> {''Product data is required'', ''Product title is required and must be a string'',
             ''Product title must be less than 255 characters'',
             ''Product description must be a string'', ''Product tags must be an array''}" for m
    using that
    by (auto simp: isRateLimitError_def ValidationError_def AppError_def message_includes_def lower_eval)
  moreover have "\<exists>m \<in> {''Product data is required'', ''Product title is required and must be a string'',
             ''Product title must be less than 255 characters'',
             ''Product description must be a string'', ''Product tags must be an array''}.
             e = ValidationError m"
    using assms by (auto simp: validateProductData_def split: option.splits if_splits)
  ultimately show ?thesis by blast
qed

lemma not_rate_limit_hash:
  assumes "generateContentHash c p = Inl e"
  shows "\<not> isRateLimitError e"
  using assms
  by (auto simp: generateContentHash_def Let_def TypeError_def Error_def isRateLimitError_def
        message_includes_def lower_eval split: jsval.splits)

lemma not_rate_limit_readContent:
  assumes "readContent r = Inl e"
  shows "\<not> isRateLimitError e"
  using assms
  by (auto simp: readContent_def TypeError_def Error_def isRateLimitError_OpenAIError
        lower_eval split: list.splits option.splits if_splits)
     (simp_all add: isRateLimitError_def message_includes_def lower_eval)


text \<open>
  Claim C3, amended in its last clause. For the loop as the orchestrator calls it
  (\<open>maxRetries = 3\<close>):
  (1) between one and three API calls are issued, and the delays slept are
  \<open>2^k\<close> seconds after the \<open>k\<close>-th attempt, for every attempt but the last;
  (2) every attempt is a race against the 30-second timer: an API call that settles in less
  than 30000 ms decides the attempt, and one that does not counts as the failure
  \<open>Error('Request timeout')\<close>, which is retryable;
  (3) every attempt before the last one failed with a retryable error, and a retryable
  failure of the first or second attempt is followed by another attempt;
  (4) a retryable failure followed by a success of the second attempt gives that success
  after exactly one delay of 2000 ms;
  (5) a failure with status 400, 401 or 403 ends the loop at the attempt where it occurs,
  with \<open>OpenAIError('API Error (status)')\<close>; at the first attempt that means no retry and
  no delay;
  (6) two retryable failures followed by a third failure that is not a client error end
  the loop after delays of 2000 and 4000 ms. The failure thrown is not the last error
  itself: it is a new \<open>OpenAIError\<close> (status code 503, code \<open>OPENAI_ERROR\<close>, no \<open>status\<close>)
  whose message is \<open>OpenAI API Error: \<close> followed by the message of the last error, or by
  \<open>Unknown OpenAI error\<close> when that error has no message;
  (7) the classes: a client error has status 400, 401 or 403; a retryable error is one
  that is not a client error and whose lower-cased message contains \<open>rate limit\<close>,
  \<open>network\<close> or \<open>timeout\<close>, or whose status is 429, or whose code is
  \<open>rate_limit_exceeded\<close>, \<open>ECONNRESET\<close> or \<open>ENOTFOUND\<close>.
\<close>

theorem retry_backoff:
  "(let run = callOpenAIWithRetry upstream 3 in
     (1 \<le> attempts run \<and> attempts run \<le> 3 \<and>
      delays run = map (\<lambda>k. 2 ^ k * 1000) [1 ..< attempts run]) \<and>
     ((\<forall>k. race (upstream k) =
          (if latency (upstream k) < 30000 then settles (upstream k)
           else Rejected \<lparr>message = Some ''Request timeout'', status = None, code = None,
                           statusCode = None\<rparr>)) \<and>
      retryable \<lparr>message = Some ''Request timeout'', status = None, code = None,
                  statusCode = None\<rparr>) \<and>
     (\<forall>k. 1 \<le> k \<and> k < attempts run \<longrightarrow>
        (\<exists>e. race (upstream k) = Rejected e \<and> retryable e)) \<and>
     (\<forall>k e. 1 \<le> k \<and> k \<le> attempts run \<and> k < 3 \<and>
        race (upstream k) = Rejected e \<and> retryable e \<longrightarrow> k < attempts run) \<and>
     (\<forall>e r. race (upstream 1) = Rejected e \<and> retryable e \<and> race (upstream 2) = Resolved r \<longrightarrow>
        run = \<lparr>returned = Inr r, attempts = 2, delays = [2000]\<rparr>) \<and>
     (\<forall>k e. 1 \<le> k \<and> k \<le> attempts run \<and> race (upstream k) = Rejected e \<and> clientError e \<longrightarrow>
        attempts run = k \<and>
        returned run = Inl (Some (OpenAIError
          (if status e = Some 400 then ''API Error (400)''
           else if status e = Some 401 then ''API Error (401)'' else ''API Error (403)'')))) \<and>
     (\<forall>e. race (upstream 1) = Rejected e \<and> clientError e \<longrightarrow>
        run = \<lparr>returned = Inl (Some (OpenAIError
                 (if status e = Some 400 then ''API Error (400)''
                  else if status e = Some 401 then ''API Error (401)'' else ''API Error (403)''))),
               attempts = 1, delays = []\<rparr>) \<and>
     (\<forall>e1 e2 e3. race (upstream 1) = Rejected e1 \<and> retryable e1 \<and>
        race (upstream 2) = Rejected e2 \<and> retryable e2 \<and>
        race (upstream 3) = Rejected e3 \<and> \<not> clientError e3 \<longrightarrow>
        run = \<lparr>returned = Inl (Some
                 \<lparr>message = Some (''OpenAI API Error: '' @
                    (case message e3 of
                       None \<Rightarrow> ''Unknown OpenAI error''
                     | Some m \<Rightarrow> if m = [] then ''Unknown OpenAI error'' else m)),
                  status = None, code = Some ''OPENAI_ERROR'', statusCode = Some 503\<rparr>),
               attempts = 3, delays = [2000, 4000]\<rparr>) \<and>
     ((\<forall>m. OpenAIError m =
          \<lparr>message = Some (''OpenAI API Error: '' @ m), status = None,
           code = Some ''OPENAI_ERROR'', statusCode = Some 503\<rparr>) \<and>
      (\<forall>e. clientError e \<longleftrightarrow>
          status e = Some 400 \<or> status e = Some 401 \<or> status e = Some 403) \<and>
      (\<forall>e. retryable e \<longleftrightarrow>
          \<not> clientError e \<and>
          (message_includes e ''rate limit'' \<or> status e = Some 429 \<or>
           code e = Some ''rate_limit_exceeded'' \<or>
           message_includes e ''network'' \<or> message_includes e ''timeout'' \<or>
           code e = Some ''ECONNRESET'' \<or> code e = Some ''ENOTFOUND'')) \<and>
      (\<forall>e needle. message_includes e needle \<longleftrightarrow>
          (\<exists>m. message e = Some m \<and> string_includes (toLowerCase m) needle))))"
proof -
  define run where "run = callOpenAIWithRetry upstream 3"
  have run: "run = retryLoop upstream 3 1 None []"
    by (simp add: run_def callOpenAIWithRetry_def)
  have le: "(1::nat) \<le> 3" by simp
  have bounds: "1 \<le> attempts run \<and> attempts run \<le> 3 \<and>
      delays run = map (\<lambda>k. 2 ^ k * 1000) [1 ..< attempts run]"
    using retryLoop_bounds [OF le, of upstream None "[]"] unfolding run by simp
  have hist: "\<forall>k. 1 \<le> k \<and> k < attempts run \<longrightarrow>
        (\<exists>e. race (upstream k) = Rejected e \<and> retryable e)"
    using retryLoop_history [OF le, of upstream None "[]"] unfolding run by blast
  have final: "case race (upstream (attempts run)) of
            Resolved r \<Rightarrow> returned run = Inr r
          | Rejected e \<Rightarrow>
              if clientError e then returned run = Inl (Some (OpenAIError (apiErrorMessage e)))
              else returned run = Inl (Some (OpenAIError (messageOrUnknown e))) \<and>
                   \<not> (attempts run < 3 \<and> retryable e)"
    using retryLoop_history [OF le, of upstream None "[]"] unfolding run by blast
  have timeout: "(\<forall>k. race (upstream k) =
          (if latency (upstream k) < 30000 then settles (upstream k)
           else Rejected \<lparr>message = Some ''Request timeout'', status = None, code = None,
                           statusCode = None\<rparr>)) \<and>
      retryable \<lparr>message = Some ''Request timeout'', status = None, code = None,
                  statusCode = None\<rparr>"
    using timeout_retryable by (simp add: race_def Error_def)
  have retried: "\<forall>k e. 1 \<le> k \<and> k \<le> attempts run \<and> k < 3 \<and>
        race (upstream k) = Rejected e \<and> retryable e \<longrightarrow> k < attempts run"
  proof (intro allI impI)
    fix k e
    assume h: "1 \<le> k \<and> k \<le> attempts run \<and> k < 3 \<and>
        race (upstream k) = Rejected e \<and> retryable e"
    show "k < attempts run"
    proof (rule ccontr)
      assume "\<not> k < attempts run"
      with h have "attempts run = k" by simp
      with final h show False by (simp add: retryable_def)
    qed
  qed
  have second: "\<forall>e r. race (upstream 1) = Rejected e \<and> retryable e \<and>
        race (upstream 2) = Resolved r \<longrightarrow>
        run = \<lparr>returned = Inr r, attempts = 2, delays = [2000]\<rparr>"
  proof (intro allI impI)
    fix e r
    assume h: "race (upstream 1) = Rejected e \<and> retryable e \<and> race (upstream 2) = Resolved r"
    then have h2: "race (upstream (1 + 1)) = Resolved r" by (simp add: numeral_2_eq_2)
    from h have "run = retryLoop upstream 3 (1 + 1) (Some e) ([] @ [2 ^ 1 * 1000])"
      unfolding run by (intro retryLoop_retry) simp_all
    also have "\<dots> = \<lparr>returned = Inr r, attempts = 1 + 1, delays = [] @ [2 ^ 1 * 1000]\<rparr>"
      by (rule retryLoop_resolved [where upstream = upstream and attempt = "1 + 1", OF _ h2]) simp
    finally show "run = \<lparr>returned = Inr r, attempts = 2, delays = [2000]\<rparr>" by simp
  qed
  have client: "\<forall>k e. 1 \<le> k \<and> k \<le> attempts run \<and> race (upstream k) = Rejected e \<and>
        clientError e \<longrightarrow>
        attempts run = k \<and>
        returned run = Inl (Some (OpenAIError
          (if status e = Some 400 then ''API Error (400)''
           else if status e = Some 401 then ''API Error (401)'' else ''API Error (403)'')))"
  proof (intro allI impI)
    fix k e
    assume h: "1 \<le> k \<and> k \<le> attempts run \<and> race (upstream k) = Rejected e \<and> clientError e"
    have "\<not> k < attempts run"
    proof
      assume "k < attempts run"
      with hist h obtain e' where "race (upstream k) = Rejected e'" "retryable e'" by blast
      with h show False by (simp add: retryable_def)
    qed
    with h have k: "attempts run = k" by simp
    with final h show "attempts run = k \<and>
        returned run = Inl (Some (OpenAIError
          (if status e = Some 400 then ''API Error (400)''
           else if status e = Some 401 then ''API Error (401)'' else ''API Error (403)'')))"
      by (simp add: apiErrorMessage_def)
  qed
  have client1: "\<forall>e. race (upstream 1) = Rejected e \<and> clientError e \<longrightarrow>
        run = \<lparr>returned = Inl (Some (OpenAIError
                 (if status e = Some 400 then ''API Error (400)''
                  else if status e = Some 401 then ''API Error (401)'' else ''API Error (403)''))),
               attempts = 1, delays = []\<rparr>"
  proof (intro allI impI)
    fix e
    assume h: "race (upstream 1) = Rejected e \<and> clientError e"
    then have "run = \<lparr>returned = Inl (Some (OpenAIError (apiErrorMessage e))),
               attempts = 1, delays = []\<rparr>"
      unfolding run using retryLoop_client [OF le] by blast
    then show "run = \<lparr>returned = Inl (Some (OpenAIError
                 (if status e = Some 400 then ''API Error (400)''
                  else if status e = Some 401 then ''API Error (401)'' else ''API Error (403)''))),
               attempts = 1, delays = []\<rparr>"
      by (simp only: apiErrorMessage_def)
  qed
  have wrap: "\<forall>m. OpenAIError m =
          \<lparr>message = Some (''OpenAI API Error: '' @ m), status = None,
           code = Some ''OPENAI_ERROR'', statusCode = Some 503\<rparr>"
    by (simp add: OpenAIError_def AppError_def)
  have exhausted: "\<forall>e1 e2 e3. race (upstream 1) = Rejected e1 \<and> retryable e1 \<and>
        race (upstream 2) = Rejected e2 \<and> retryable e2 \<and>
        race (upstream 3) = Rejected e3 \<and> \<not> clientError e3 \<longrightarrow>
        run = \<lparr>returned = Inl (Some
                 \<lparr>message = Some (''OpenAI API Error: '' @
                    (case message e3 of
                       None \<Rightarrow> ''Unknown OpenAI error''
                     | Some m \<Rightarrow> if m = [] then ''Unknown OpenAI error'' else m)),
                  status = None, code = Some ''OPENAI_ERROR'', statusCode = Some 503\<rparr>),
               attempts = 3, delays = [2000, 4000]\<rparr>"
  proof (intro allI impI)
    fix e1 e2 e3
    assume h: "race (upstream 1) = Rejected e1 \<and> retryable e1 \<and>
        race (upstream 2) = Rejected e2 \<and> retryable e2 \<and>
        race (upstream 3) = Rejected e3 \<and> \<not> clientError e3"
    then have h2: "race (upstream (1 + 1)) = Rejected e2"
      and h3: "race (upstream (1 + 1 + 1)) = Rejected e3"
      by (simp_all add: numeral_2_eq_2 numeral_3_eq_3)
    have r2: "retryable e2" and r3: "\<not> clientError e3" using h by simp_all
    from h have "run = retryLoop upstream 3 (1 + 1) (Some e1) ([] @ [2 ^ 1 * 1000])"
      unfolding run by (intro retryLoop_retry) simp_all
    also have "\<dots> = retryLoop upstream 3 (1 + 1 + 1) (Some e2)
        (([] @ [2 ^ 1 * 1000]) @ [2 ^ (1 + 1) * 1000])"
      by (rule retryLoop_retry [where upstream = upstream and attempt = "1 + 1", OF _ h2 r2]) simp
    also have "\<dots> = \<lparr>returned = Inl (Some (OpenAIError (messageOrUnknown e3))),
        attempts = 1 + 1 + 1, delays = ([] @ [2 ^ 1 * 1000]) @ [2 ^ (1 + 1) * 1000]\<rparr>"
      by (rule retryLoop_give_up [where upstream = upstream and attempt = "1 + 1 + 1", OF _ h3 r3]) simp_all
    finally have "run = \<lparr>returned = Inl (Some (OpenAIError (messageOrUnknown e3))),
               attempts = 3, delays = [2000, 4000]\<rparr>" by simp
    then show "run = \<lparr>returned = Inl (Some
                 \<lparr>message = Some (''OpenAI API Error: '' @
                    (case message e3 of
                       None \<Rightarrow> ''Unknown OpenAI error''
                     | Some m \<Rightarrow> if m = [] then ''Unknown OpenAI error'' else m)),
                  status = None, code = Some ''OPENAI_ERROR'', statusCode = Some 503\<rparr>),
               attempts = 3, delays = [2000, 4000]\<rparr>"
      by (simp only: messageOrUnknown_def wrap [rule_format])
  qed
  have cls1: "\<forall>e. clientError e \<longleftrightarrow>
          status e = Some 400 \<or> status e = Some 401 \<or> status e = Some 403"
    by (simp add: clientError_def)
  have cls2: "\<forall>e. retryable e \<longleftrightarrow>
          \<not> clientError e \<and>
          (message_includes e ''rate limit'' \<or> status e = Some 429 \<or>
           code e = Some ''rate_limit_exceeded'' \<or>
           message_includes e ''network'' \<or> message_includes e ''timeout'' \<or>
           code e = Some ''ECONNRESET'' \<or> code e = Some ''ENOTFOUND'')"
    unfolding retryable_def isRateLimitError_def isNetworkError_def by (intro allI) (simp only: disj_assoc)
  have cls3: "\<forall>e needle. message_includes e needle \<longleftrightarrow>
          (\<exists>m. message e = Some m \<and> string_includes (toLowerCase m) needle)"
    by (simp add: message_includes_def split: option.splits)
  show ?thesis
    unfolding Let_def run_def [symmetric]
    by (intro conjI bounds [THEN conjunct1] bounds [THEN conjunct2, THEN conjunct1]
        bounds [THEN conjunct2, THEN conjunct2] timeout [THEN conjunct1] timeout [THEN conjunct2]
        hist retried second client client1 exhausted wrap cls1 cls2 cls3)
qed

text \<open>
  The run of C3 on three concrete API behaviours: a first call that is still pending after
  45 seconds followed by a call that answers in 1.2 seconds; a call rejected with status 401;
  a call rejected with status 429 three times.
\<close>

theorem retry_backoff_witness:
  "race \<lparr>latency = 1200, settles = Resolved ''ok''\<rparr> = Resolved ''ok'' \<and>
   race \<lparr>latency = 29999, settles = Resolved ''ok''\<rparr> = Resolved ''ok'' \<and>
   race \<lparr>latency = 30000, settles = Resolved ''late''\<rparr> =
     Rejected \<lparr>message = Some ''Request timeout'', status = None, code = None,
               statusCode = None\<rparr> \<and>
   callOpenAIWithRetry
      (\<lambda>k. if k = 1 then \<lparr>latency = 45000, settles = Resolved ''late''\<rparr>
           else \<lparr>latency = 1200, settles = Resolved ''ok''\<rparr>) 3 =
     \<lparr>returned = Inr ''ok'', attempts = 2, delays = [2000]\<rparr> \<and>
   callOpenAIWithRetry
      (\<lambda>k. \<lparr>latency = 300, settles = (Rejected \<lparr>message = Some ''Unauthorized'',
           status = Some 401, code = None, statusCode = None\<rparr> :: string outcome)\<rparr>) 3 =
     \<lparr>returned = Inl (Some \<lparr>message = Some ''OpenAI API Error: API Error (401)'',
           status = None, code = Some ''OPENAI_ERROR'', statusCode = Some 503\<rparr>),
      attempts = 1, delays = []\<rparr> \<and>
   callOpenAIWithRetry
      (\<lambda>k. \<lparr>latency = 100, settles = (Rejected \<lparr>message = Some ''Too Many Requests'',
           status = Some 429, code = None, statusCode = None\<rparr> :: string outcome)\<rparr>) 3 =
     \<lparr>returned = Inl (Some \<lparr>message = Some ''OpenAI API Error: Too Many Requests'',
           status = None, code = Some ''OPENAI_ERROR'', statusCode = Some 503\<rparr>),
      attempts = 3, delays = [2000, 4000]\<rparr>"
proof -
  let ?up1 = "\<lambda>k::nat. if k = 1 then \<lparr>latency = 45000, settles = Resolved ''late''\<rparr>
           else \<lparr>latency = 1200, settles = Resolved ''ok''\<rparr>"
  let ?e2 = "\<lparr>message = Some ''Unauthorized'', status = Some 401, code = None, statusCode = None\<rparr>"
  let ?up2 = "\<lambda>k::nat. \<lparr>latency = 300, settles = (Rejected ?e2 :: string outcome)\<rparr>"
  let ?e3 = "\<lparr>message = Some ''Too Many Requests'', status = Some 429, code = None, statusCode = None\<rparr>"
  let ?up3 = "\<lambda>k::nat. \<lparr>latency = 100, settles = (Rejected ?e3 :: string outcome)\<rparr>"
  let ?t = "\<lparr>message = Some ''Request timeout'', status = None, code = None, statusCode = None\<rparr>"
  note T = retry_backoff [unfolded Let_def]
  note R = T [THEN conjunct2, THEN conjunct1, THEN conjunct1, rule_format]
  note C = T [THEN conjunct2, THEN conjunct2, THEN conjunct2, THEN conjunct2, THEN conjunct2,
        THEN conjunct2, THEN conjunct2, THEN conjunct2]
  have a: "race \<lparr>latency = 1200, settles = Resolved ''ok''\<rparr> = Resolved ''ok''"
    using R [of "\<lambda>k. \<lparr>latency = 1200, settles = Resolved ''ok''\<rparr>" 1] by simp
  have b: "race \<lparr>latency = 29999, settles = Resolved ''ok''\<rparr> = Resolved ''ok''"
    using R [of "\<lambda>k. \<lparr>latency = 29999, settles = Resolved ''ok''\<rparr>" 1] by simp
  have c: "race \<lparr>latency = 30000, settles = Resolved ''late''\<rparr> = Rejected ?t"
    using R [of "\<lambda>k. \<lparr>latency = 30000, settles = Resolved ''late''\<rparr>" 1] by simp
  have t: "retryable ?t"
    by (rule T [of ?up1, THEN conjunct2, THEN conjunct1, THEN conjunct2])
  have r1: "race (?up1 1) = Rejected ?t" using R [of ?up1 1] by simp
  have r2: "race (?up1 2) = Resolved ''ok''" using R [of ?up1 2] by simp
  have 1: "callOpenAIWithRetry ?up1 3 = \<lparr>returned = Inr ''ok'', attempts = 2, delays = [2000]\<rparr>"
    by (rule T [of ?up1, THEN conjunct2, THEN conjunct2, THEN conjunct2, THEN conjunct2,
        THEN conjunct1, rule_format, of ?t "''ok''", OF conjI [OF r1 conjI [OF t r2]]])
  have ce: "clientError ?e2" by (simp add: C [THEN conjunct2, THEN conjunct1, rule_format])
  have r3: "race (?up2 1) = Rejected ?e2" using R [of ?up2 1] by simp
  have 2: "callOpenAIWithRetry ?up2 3 =
     \<lparr>returned = Inl (Some \<lparr>message = Some ''OpenAI API Error: API Error (401)'',
           status = None, code = Some ''OPENAI_ERROR'', statusCode = Some 503\<rparr>),
      attempts = 1, delays = []\<rparr>"
    using T [of ?up2, THEN conjunct2, THEN conjunct2, THEN conjunct2, THEN conjunct2,
        THEN conjunct2, THEN conjunct2, THEN conjunct1, rule_format, of ?e2,
        OF conjI [OF r3 ce]]
    by (simp add: C [THEN conjunct1, rule_format])
  have nc: "\<not> clientError ?e3"
    by (simp add: C [THEN conjunct2, THEN conjunct1, rule_format])
  have r: "retryable ?e3"
    by (simp add: C [THEN conjunct2, THEN conjunct2, THEN conjunct1, rule_format]
        C [THEN conjunct2, THEN conjunct1, rule_format])
  have r4: "\<And>k. race (?up3 k) = Rejected ?e3" using R [of ?up3] by simp
  have 3: "callOpenAIWithRetry ?up3 3 =
     \<lparr>returned = Inl (Some \<lparr>message = Some ''OpenAI API Error: Too Many Requests'',
           status = None, code = Some ''OPENAI_ERROR'', statusCode = Some 503\<rparr>),
      attempts = 3, delays = [2000, 4000]\<rparr>"
    using T [of ?up3, THEN conjunct2, THEN conjunct2, THEN conjunct2, THEN conjunct2,
        THEN conjunct2, THEN conjunct2, THEN conjunct2, THEN conjunct1, rule_format,
        of ?e3 ?e3 ?e3, OF conjI [OF r4 conjI [OF r conjI [OF r4 conjI [OF r conjI [OF r4 nc]]]]]]
    by simp
  show ?thesis by (rule conjI [OF a conjI [OF b conjI [OF c conjI [OF 1 conjI [OF 2 3]]]]])
qed

text \<open>
  Counterexample to the last clause of C3 as the specification words it. An API call that is
  rejected three times with status 429 and the message \<open>Too Many Requests\<close> exhausts the
  attempts, and the failure thrown is not that error: its status is gone, and the predicate
  \<open>isRateLimitError\<close>, true of the error observed, is false of the error thrown.
\<close>

theorem retry_exhaustion_drops_last_error:
  "returned (callOpenAIWithRetry (always_rejected too_many_requests) 3) =
     Inl (Some \<lparr>message = Some ''OpenAI API Error: Too Many Requests'', status = None,
                code = Some ''OPENAI_ERROR'', statusCode = Some 503\<rparr>) \<and>
   returned (callOpenAIWithRetry (always_rejected too_many_requests) 3) \<noteq>
     Inl (Some too_many_requests) \<and>
   too_many_requests =
     \<lparr>message = Some ''Too Many Requests'', status = Some 429, code = None,
      statusCode = None\<rparr> \<and>
   race (always_rejected too_many_requests 3) = Rejected too_many_requests \<and>
   isRateLimitError too_many_requests \<and>
   \<not> isRateLimitError \<lparr>message = Some ''OpenAI API Error: Too Many Requests'', status = None,
                code = Some ''OPENAI_ERROR'', statusCode = Some 503\<rparr>"
proof -
  have r: "\<forall>k. race (always_rejected too_many_requests k) =
      Rejected too_many_requests"
    by (simp add: always_rejected_def race_def)
  have rt: "retryable too_many_requests"
    by (simp add: retryable_def clientError_def isRateLimitError_def too_many_requests_def)
  have run: "callOpenAIWithRetry (always_rejected too_many_requests) 3 =
      \<lparr>returned = Inl (Some (OpenAIError (messageOrUnknown too_many_requests))),
       attempts = 3, delays = [2000, 4000]\<rparr>"
    by (rule callOpenAIWithRetry_exhausted [OF r rt])
  have thrown: "OpenAIError (messageOrUnknown too_many_requests) =
      \<lparr>message = Some ''OpenAI API Error: Too Many Requests'', status = None,
       code = Some ''OPENAI_ERROR'', statusCode = Some 503\<rparr>"
    by (simp add: OpenAIError_def AppError_def messageOrUnknown_def too_many_requests_def)
  have 1: "returned (callOpenAIWithRetry (always_rejected too_many_requests) 3) =
     Inl (Some \<lparr>message = Some ''OpenAI API Error: Too Many Requests'', status = None,
                code = Some ''OPENAI_ERROR'', statusCode = Some 503\<rparr>)"
    by (simp add: run thrown)
  have 2: "returned (callOpenAIWithRetry (always_rejected too_many_requests) 3) \<noteq>
     Inl (Some too_many_requests)"
    unfolding 1 by (simp add: too_many_requests_def)
  have 3: "too_many_requests =
     \<lparr>message = Some ''Too Many Requests'', status = Some 429, code = None,
      statusCode = None\<rparr>"
    by (simp add: too_many_requests_def)
  have 4: "isRateLimitError too_many_requests"
    by (simp add: isRateLimitError_def too_many_requests_def)
  have 5: "\<not> isRateLimitError \<lparr>message = Some ''OpenAI API Error: Too Many Requests'',
      status = None, code = Some ''OPENAI_ERROR'', statusCode = Some 503\<rparr>"
  proof -
    have "\<not> isRateLimitError (OpenAIError ''Too Many Requests'')"
      by (simp add: isRateLimitError_OpenAIError lower_eval)
    then show ?thesis by (simp add: OpenAIError_def AppError_def)
  qed
  show ?thesis
    by (rule conjI [OF 1 conjI [OF 2 conjI [OF 3 conjI [OF r [rule_format] conjI [OF 4 5]]]]])
qed

section \<open>Properties of the orchestrator\<close>

lemma isAllowed_denied:
  assumes "\<not> fst (isAllowed now i rl)"
  shows "snd (isAllowed now i rl) = rl"
  using assms by (cases "limits rl i") (auto simp: isAllowed_def split: if_splits)

lemma isAllowed_denied_iff:
  "\<not> fst (isAllowed now i rl) \<longleftrightarrow>
     (\<exists>e. limits rl i = Some e \<and> now < resetTime e \<and> maxRequests rl \<le> count e)"
  by (cases "limits rl i") (auto simp: isAllowed_def split: if_splits)

lemma callOpenAIWithRetry_final:
  "1 \<le> attempts (callOpenAIWithRetry up 3) \<and>
   (case race (up (attempts (callOpenAIWithRetry up 3))) of
      Resolved r \<Rightarrow> returned (callOpenAIWithRetry up 3) = Inr r
    | Rejected e \<Rightarrow>
        returned (callOpenAIWithRetry up 3) =
          Inl (Some (OpenAIError (if clientError e then apiErrorMessage e else messageOrUnknown e))))"
proof -
  have le: "(1::nat) \<le> 3" by simp
  have a: "1 \<le> attempts (retryLoop up 3 1 None [])"
    using retryLoop_bounds [OF le, of up None "[]"] by simp
  have b: "case race (up (attempts (retryLoop up 3 1 None []))) of
            Resolved r \<Rightarrow> returned (retryLoop up 3 1 None []) = Inr r
          | Rejected e \<Rightarrow>
              if clientError e then
                returned (retryLoop up 3 1 None []) = Inl (Some (OpenAIError (apiErrorMessage e)))
              else
                returned (retryLoop up 3 1 None []) = Inl (Some (OpenAIError (messageOrUnknown e))) \<and>
                \<not> (attempts (retryLoop up 3 1 None []) < 3 \<and> retryable e)"
    using retryLoop_history [OF le, of up None "[]"] by (rule conjunct2)
  show ?thesis
    unfolding callOpenAIWithRetry_def using a b
    by (cases "race (up (attempts (retryLoop up 3 1 None [])))") (simp_all split: if_splits)
qed

lemma upstream_rate_limited:
  assumes "returned (callOpenAIWithRetry up 3) = Inl thrown"
  shows "\<exists>e. thrown = Some e \<and>
          (isRateLimitError e \<longrightarrow>
             (\<exists>e'. race (up (attempts (callOpenAIWithRetry up 3))) = Rejected e' \<and>
                   \<not> clientError e' \<and> message_includes e' ''rate limit''))"
proof (cases "race (up (attempts (callOpenAIWithRetry up 3)))")
  case (Resolved r)
  then show ?thesis using callOpenAIWithRetry_final [of up] assms by simp
next
  case (Rejected e')
  then have t: "thrown = Some (OpenAIError (if clientError e' then apiErrorMessage e' else messageOrUnknown e'))"
    using callOpenAIWithRetry_final [of up] assms by simp
  show ?thesis
  proof (cases "clientError e'")
    case True
    then show ?thesis using t not_rate_limit_apiError by simp
  next
    case False
    then show ?thesis using t Rejected isRateLimitError_messageOrUnknown by simp
  qed
qed

lemma tryBlock_invalid:
  assumes "validateProductData product = Inl e"
  shows "tryBlock env product options w =
           \<lparr>outcome = Inl (Some e), world = w, product_after = product,
            upstream_calls = 0, backoff = []\<rparr>"
  using assms by (simp add: tryBlock_def)

lemma validate_Inr_product:
  assumes "validateProductData product = Inr u"
  shows "\<exists>p. product = Some p"
  using assms by (cases product) (simp_all add: validateProductData_def)

lemma tryBlock_no_session:
  assumes "validateProductData (Some p) = Inr u"
    and "options = None \<or> (\<exists>opts. options = Some opts \<and> session opts = None)"
  shows "tryBlock env (Some p) options w = lookupOrAnalyze env w p"
  using assms by (auto simp: tryBlock_def)

lemma checkRateLimit_openai:
  "allowed (fst (checkRateLimit now i openai ls)) = fst (isAllowed now i (openaiRateLimiter ls)) \<and>
   snd (checkRateLimit now i openai ls) =
     ls\<lparr>openaiRateLimiter := snd (isAllowed now i (openaiRateLimiter ls))\<rparr>"
  by (simp add: checkRateLimit_def Let_def)

lemma tryBlock_denied:
  assumes "validateProductData (Some p) = Inr u"
    and "options = Some opts" and "session opts = Some s"
    and "\<not> fst (isAllowed (now_quota env) (getRateLimitIdentifier s) (openaiRateLimiter (limiters w)))"
  shows "tryBlock env (Some p) options w =
           \<lparr>outcome = Inr (withStatus (createFallbackAnalysis (title p)) fresh (Some True)),
            world = w, product_after = Some p, upstream_calls = 0, backoff = []\<rparr>"
  using assms isAllowed_denied [OF assms(4)]
  by (simp add: tryBlock_def Let_def checkRateLimit_openai handleAnalysisError_def)

lemma tryBlock_allowed:
  assumes "validateProductData (Some p) = Inr u"
    and "options = Some opts" and "session opts = Some s"
    and "fst (isAllowed (now_quota env) (getRateLimitIdentifier s) (openaiRateLimiter (limiters w)))"
  shows "tryBlock env (Some p) options w =
           lookupOrAnalyze env
             (w\<lparr>limiters := (limiters w)\<lparr>openaiRateLimiter :=
                 snd (isAllowed (now_quota env) (getRateLimitIdentifier s)
                        (openaiRateLimiter (limiters w)))\<rparr>\<rparr>) p"
  using assms by (simp add: tryBlock_def Let_def checkRateLimit_openai)

lemma analyzeFresh_frame:
  "limiters (world (analyzeFresh env hash w p)) = limiters w \<and>
   product_after (analyzeFresh env hash w p) = Some p \<and>
   upstream_calls (analyzeFresh env hash w p) = attempts (callOpenAIWithRetry (apiCall env) 3) \<and>
   backoff (analyzeFresh env hash w p) = delays (callOpenAIWithRetry (apiCall env) 3)"
  by (simp add: analyzeFresh_def Let_def split: sum.splits)

lemma lookupOrAnalyze_limiters:
  "limiters (world (lookupOrAnalyze env w p)) = limiters w"
  by (simp add: lookupOrAnalyze_def Let_def analyzeFresh_frame split: sum.splits option.splits)

lemma analyze_of_tryBlock_Inr:
  assumes "tryBlock env product options w =
             \<lparr>outcome = Inr r, world = w', product_after = pa, upstream_calls = n, backoff = b\<rparr>"
  shows "analyzeLLMDiscoverability env product options w =
             \<lparr>outcome = Inr r, world = w', product_after = pa, upstream_calls = n, backoff = b\<rparr>"
  using assms by (simp add: analyzeLLMDiscoverability_def Let_def)

lemma analyze_frame:
  "world (analyzeLLMDiscoverability env product options w) = world (tryBlock env product options w) \<and>
   product_after (analyzeLLMDiscoverability env product options w) =
     product_after (tryBlock env product options w) \<and>
   upstream_calls (analyzeLLMDiscoverability env product options w) =
     upstream_calls (tryBlock env product options w) \<and>
   backoff (analyzeLLMDiscoverability env product options w) =
     backoff (tryBlock env product options w)"
  by (simp add: analyzeLLMDiscoverability_def Let_def split: sum.splits option.splits)

lemma withStatus_rateLimited [simp]: "rateLimited (withStatus a cs rl) = rl"
  by (simp add: withStatus_def ProductAnalysis.extend_def)

lemma withStatus_cacheStatus [simp]: "cacheStatus (withStatus a cs rl) = Some cs"
  by (simp add: withStatus_def ProductAnalysis.extend_def)

lemma analyzeFresh_rateLimit_source:
  assumes "outcome (analyzeFresh env hash w p) = Inl thrown"
  shows "\<exists>e. thrown = Some e \<and>
          (isRateLimitError e \<longrightarrow>
             (\<exists>e'. race (apiCall env (attempts (callOpenAIWithRetry (apiCall env) 3))) = Rejected e' \<and>
                   \<not> clientError e' \<and> message_includes e' ''rate limit'') \<or>
             (\<exists>response content.
                 returned (callOpenAIWithRetry (apiCall env) 3) = Inr response \<and>
                 readContent response = Inr content \<and> JSON_parse env content = Inl e))"
proof (cases "returned (callOpenAIWithRetry (apiCall env) 3)")
  case (Inl t)
  then have "thrown = t" using assms by (simp add: analyzeFresh_def Let_def)
  with upstream_rate_limited [OF Inl] show ?thesis
    by (auto simp: isRateLimitError_def)
next
  case (Inr response)
  show ?thesis
  proof (cases "readContent response")
    case (Inl e)
    then have "thrown = Some e" using assms Inr by (simp add: analyzeFresh_def Let_def)
    then show ?thesis using not_rate_limit_readContent [OF Inl] by simp
  next
    case c: (Inr content)
    show ?thesis
    proof (cases "JSON_parse env content")
      case (Inl e)
      then have "thrown = Some e" using assms Inr c by (simp add: analyzeFresh_def Let_def)
      then show ?thesis using Inr c Inl by blast
    next
      case r: (Inr resp)
      then show ?thesis using assms Inr c by (simp add: analyzeFresh_def Let_def)
    qed
  qed
qed

lemma analyzeFresh_Inr_not_rateLimited:
  assumes "outcome (analyzeFresh env hash w p) = Inr r"
  shows "rateLimited r = None"
  using assms by (auto simp: analyzeFresh_def Let_def split: sum.splits)

lemma lookupOrAnalyze_Inr_not_rateLimited:
  assumes "outcome (lookupOrAnalyze env w p) = Inr r"
  shows "rateLimited r = None"
  using assms analyzeFresh_Inr_not_rateLimited
  by (auto simp: lookupOrAnalyze_def Let_def split: sum.splits option.splits)

lemma lookupOrAnalyze_rateLimit_source:
  assumes "outcome (lookupOrAnalyze env w p) = Inl thrown"
  shows "\<exists>e. thrown = Some e \<and>
          (isRateLimitError e \<longrightarrow>
             1 \<le> upstream_calls (lookupOrAnalyze env w p) \<and>
             ((\<exists>e'. race (apiCall env (upstream_calls (lookupOrAnalyze env w p))) = Rejected e' \<and>
                   \<not> clientError e' \<and> message_includes e' ''rate limit'') \<or>
              (\<exists>response content.
                 returned (callOpenAIWithRetry (apiCall env) 3) = Inr response \<and>
                 readContent response = Inr content \<and> JSON_parse env content = Inl e)))"
proof (cases "generateContentHash (collate env)
             (ProductContent.extend p \<lparr>reviewData = fetchedReviewData env\<rparr>)")
  case (Inl e)
  then have "thrown = Some e" using assms by (simp add: lookupOrAnalyze_def)
  then show ?thesis using not_rate_limit_hash [OF Inl] by simp
next
  case (Inr hashed)
  let ?looked = "getCachedAnalysis (now_lookup env) (fst hashed) (analysisCache w)"
  let ?w = "w\<lparr>analysisCache := snd ?looked\<rparr>"
  let ?p = "ProductContent.truncate (snd hashed)"
  show ?thesis
  proof (cases "fst ?looked")
    case (Some a)
    then show ?thesis using assms Inr by (simp add: lookupOrAnalyze_def Let_def)
  next
    case None
    then have eq: "lookupOrAnalyze env w p = analyzeFresh env (fst hashed) ?w ?p"
      using Inr by (simp add: lookupOrAnalyze_def Let_def)
    have calls: "upstream_calls (analyzeFresh env (fst hashed) ?w ?p) =
        attempts (callOpenAIWithRetry (apiCall env) 3)"
      using analyzeFresh_frame by blast
    have one: "1 \<le> attempts (callOpenAIWithRetry (apiCall env) 3)"
      using callOpenAIWithRetry_final by blast
    show ?thesis
      using analyzeFresh_rateLimit_source [of env "fst hashed" ?w ?p thrown] assms one
      unfolding eq calls by auto
  qed
qed

lemma analyzeFresh_limiters_irrelevant:
  assumes "analysisCache w' = analysisCache w"
  shows "analyzeFresh env hash w' p =
     (analyzeFresh env hash w p)
       \<lparr>world := (world (analyzeFresh env hash w p))\<lparr>limiters := limiters w'\<rparr>\<rparr>"
proof -
  have w': "w' = w\<lparr>limiters := limiters w'\<rparr>" using assms by (cases w, cases w') simp
  show ?thesis
    by (subst w') (simp add: analyzeFresh_def Let_def split: sum.splits)
qed

lemma lookupOrAnalyze_limiters_irrelevant:
  "lookupOrAnalyze env (w\<lparr>limiters := ls\<rparr>) p =
     (lookupOrAnalyze env w p)\<lparr>world := (world (lookupOrAnalyze env w p))\<lparr>limiters := ls\<rparr>\<rparr>"
proof (cases "generateContentHash (collate env)
             (ProductContent.extend p \<lparr>reviewData = fetchedReviewData env\<rparr>)")
  case (Inl e)
  then show ?thesis by (simp add: lookupOrAnalyze_def)
next
  case (Inr hashed)
  let ?looked = "getCachedAnalysis (now_lookup env) (fst hashed) (analysisCache w)"
  let ?p = "ProductContent.truncate (snd hashed)"
  show ?thesis
  proof (cases "fst ?looked")
    case (Some a)
    then show ?thesis using Inr by (simp add: lookupOrAnalyze_def Let_def)
  next
    case None
    have 1: "lookupOrAnalyze env w p =
        analyzeFresh env (fst hashed) (w\<lparr>analysisCache := snd ?looked\<rparr>) ?p"
      using Inr None by (simp add: lookupOrAnalyze_def Let_def)
    have 2: "lookupOrAnalyze env (w\<lparr>limiters := ls\<rparr>) p =
        analyzeFresh env (fst hashed) (w\<lparr>limiters := ls, analysisCache := snd ?looked\<rparr>) ?p"
      using Inr None by (simp add: lookupOrAnalyze_def Let_def)
    have 3: "analyzeFresh env (fst hashed) (w\<lparr>limiters := ls, analysisCache := snd ?looked\<rparr>) ?p =
        (analyzeFresh env (fst hashed) (w\<lparr>analysisCache := snd ?looked\<rparr>) ?p)
          \<lparr>world := (world (analyzeFresh env (fst hashed) (w\<lparr>analysisCache := snd ?looked\<rparr>) ?p))
              \<lparr>limiters := limiters (w\<lparr>limiters := ls, analysisCache := snd ?looked\<rparr>)\<rparr>\<rparr>"
      by (rule analyzeFresh_limiters_irrelevant) simp
    show ?thesis unfolding 1 2 3 by simp
  qed
qed

lemma tryBlock_no_session_limiters_irrelevant:
  assumes "options = None \<or> (\<exists>opts. options = Some opts \<and> session opts = None)"
  shows "tryBlock env product options (w\<lparr>limiters := ls\<rparr>) =
     (tryBlock env product options w)\<lparr>world := (world (tryBlock env product options w))\<lparr>limiters := ls\<rparr>\<rparr>"
proof (cases "validateProductData product")
  case (Inl e)
  then show ?thesis by (simp add: tryBlock_invalid)
next
  case (Inr u)
  then obtain p where p: "product = Some p" using validate_Inr_product by blast
  show ?thesis
    using tryBlock_no_session [OF Inr [unfolded p] assms]
    by (simp add: p lookupOrAnalyze_limiters_irrelevant)
qed

lemma analyze_no_session_limiters_irrelevant:
  assumes "options = None \<or> (\<exists>opts. options = Some opts \<and> session opts = None)"
  shows "analyzeLLMDiscoverability env product options (w\<lparr>limiters := ls\<rparr>) =
     (analyzeLLMDiscoverability env product options w)
       \<lparr>world := (world (analyzeLLMDiscoverability env product options w))\<lparr>limiters := ls\<rparr>\<rparr>"
  unfolding analyzeLLMDiscoverability_def Let_def
    tryBlock_no_session_limiters_irrelevant [OF assms]
  by (simp split: sum.splits option.splits)

lemma tryBlock_no_session_limiters:
  assumes "options = None \<or> (\<exists>opts. options = Some opts \<and> session opts = None)"
  shows "limiters (world (tryBlock env product options w)) = limiters w"
proof (cases "validateProductData product")
  case (Inl e)
  then show ?thesis by (simp add: tryBlock_invalid)
next
  case (Inr u)
  then obtain p where p: "product = Some p" using validate_Inr_product by blast
  show ?thesis
    using tryBlock_no_session [OF Inr [unfolded p] assms]
    by (simp add: p lookupOrAnalyze_limiters)
qed

lemma tryBlock_no_session_rateLimit_source:
  assumes ns: "options = None \<or> (\<exists>opts. options = Some opts \<and> session opts = None)"
  shows "(\<forall>r. outcome (tryBlock env product options w) = Inr r \<longrightarrow> rateLimited r = None) \<and>
         (\<forall>thrown. outcome (tryBlock env product options w) = Inl thrown \<longrightarrow>
            (\<exists>e. thrown = Some e \<and>
              (isRateLimitError e \<longrightarrow>
                 1 \<le> upstream_calls (tryBlock env product options w) \<and>
                 ((\<exists>e'. race (apiCall env (upstream_calls (tryBlock env product options w))) = Rejected e' \<and>
                       \<not> clientError e' \<and> message_includes e' ''rate limit'') \<or>
                  (\<exists>response content.
                     returned (callOpenAIWithRetry (apiCall env) 3) = Inr response \<and>
                     readContent response = Inr content \<and> JSON_parse env content = Inl e)))))"
proof (cases "validateProductData product")
  case (Inl e)
  then show ?thesis using not_rate_limit_validation [OF Inl] by (simp add: tryBlock_invalid)
next
  case (Inr u)
  then obtain p where p: "product = Some p" using validate_Inr_product by blast
  have eq: "tryBlock env product options w = lookupOrAnalyze env w p"
    using tryBlock_no_session [OF Inr [unfolded p] ns] by (simp add: p)
  show ?thesis
    unfolding eq
    using lookupOrAnalyze_Inr_not_rateLimited [of env w p]
      lookupOrAnalyze_rateLimit_source [of env w p]
    by blast
qed

lemma example_upstream_limited_run:
  "callOpenAIWithRetry (apiCall example_env_upstream_limited) 3 =
     \<lparr>returned = Inl (Some (OpenAIError ''Rate limit reached for requests'')), attempts = 3,
      delays = [2000, 4000]\<rparr>"
proof -
  have "retryable rate_limit_rejection"
    by (simp add: retryable_def clientError_def isRateLimitError_def rate_limit_rejection_def)
  moreover have "\<forall>k. race (apiCall example_env_upstream_limited k) = Rejected rate_limit_rejection"
    by (simp add: example_env_upstream_limited_def example_env_def race_def)
  ultimately have "callOpenAIWithRetry (apiCall example_env_upstream_limited) 3 =
       \<lparr>returned = Inl (Some (OpenAIError (messageOrUnknown rate_limit_rejection))), attempts = 3,
            delays = [2000, 4000]\<rparr>"
    by (intro callOpenAIWithRetry_exhausted) simp_all
  then show ?thesis by (simp add: messageOrUnknown_def rate_limit_rejection_def)
qed

lemma example_no_session_upstream_limited:
  "analyzeLLMDiscoverability example_env_upstream_limited (Some example_product) None
       (example_world 50) =
     \<lparr>outcome = Inr (withStatus (createFallbackAnalysis (JString ''Board'')) fresh (Some True)),
      world = example_world 50,
      product_after = Some (example_product\<lparr>tags := JArray [''snow'', ''winter''],
                               metafields := [(''color'', ''red''), (''size'', ''156'')]\<rparr>),
      upstream_calls = 3, backoff = [2000, 4000]\<rparr>"
proof -
  have v: "validateProductData (Some example_product) = Inr ()"
    by (simp add: validateProductData_def example_product_def)
  have t: "tryBlock example_env_upstream_limited (Some example_product) None (example_world 50) =
      lookupOrAnalyze example_env_upstream_limited (example_world 50) example_product"
    by (rule tryBlock_no_session [OF v]) simp
  have rl: "isRateLimitError (OpenAIError ''Rate limit reached for requests'')"
    by (simp add: isRateLimitError_OpenAIError lower_eval)
  have env: "collate example_env_upstream_limited = (\<lambda>s. s)"
    "now_lookup example_env_upstream_limited = 501"
    "fetchedReviewData example_env_upstream_limited = None"
    by (simp_all add: example_env_upstream_limited_def example_env_def)
  have l: "lookupOrAnalyze example_env_upstream_limited (example_world 50) example_product =
     \<lparr>outcome = Inl (Some (OpenAIError ''Rate limit reached for requests'')),
      world = example_world 50,
      product_after = Some (example_product\<lparr>tags := JArray [''snow'', ''winter''],
                               metafields := [(''color'', ''red''), (''size'', ''156'')]\<rparr>),
      upstream_calls = 3, backoff = [2000, 4000]\<rparr>"
    by (simp add: lookupOrAnalyze_def generateContentHash_def Let_def getCachedAnalysis_def
        analyzeFresh_def example_upstream_limited_run example_product_def example_world_def
        env ProductContent.extend_def ProductContent.truncate_def)
  show ?thesis
    unfolding analyzeLLMDiscoverability_def Let_def t l
    using rl by (simp add: handleAnalysisError_def example_product_def)
qed

text \<open>
  Claim C7. When the product passes validation, a session is supplied and the quota
  tracker denies the request, which it does exactly when the tenant's window is live and
  its count has reached the limit, the call returns the fallback analysis for the
  product's title with \<open>cacheStatus = 'fresh'\<close> and \<open>rateLimited = true\<close>; it issues no upstream
  API call, sleeps no backoff delay, and leaves the limiters, the cache and the product as
  they were. The tenant is the session's shop, \<open>anonymous\<close> when the session has none. The
  value returned is written out in full: the six scores are 0, each list
  holds its fixed message, the one optimisation entry has category \<open>System Error\<close> and an
  empty \<open>specificContent\<close>, both title fields repeat the product's title, the review block
  is present, and the two flags are set. The last part gives the same value for any title
  argument, \<open>Unknown Product\<close> standing in for an undefined one.
\<close>

theorem quota_denied_returns_rate_limited_fallback:
  "(validateProductData (Some p) = Inr () \<and> options = Some opts \<and> session opts = Some s \<and>
    \<not> fst (isAllowed (now_quota env) (getRateLimitIdentifier s)
             (openaiRateLimiter (limiters w))) \<longrightarrow>
      analyzeLLMDiscoverability env (Some p) options w =
        \<lparr>outcome = Inr
           \<lparr>ProductAnalysis.scores =
              \<lparr>Scores.semanticClarity = 0, Scores.intentMatching = 0,
               Scores.featureBenefitStructure = 0, Scores.naturalLanguage = 0,
               Scores.structuredInfo = 0, Scores.discoveryPotential = 0\<rparr>,
            ProductAnalysis.contentStrengths = [''Product information is present''],
            ProductAnalysis.contentGaps = [''Analysis temporarily unavailable - please try again''],
            ProductAnalysis.llmOptimizations =
              [\<lparr>Optimization.category = ''System Error'', Optimization.score = 0,
                Optimization.suggestions =
                  [''Analysis service is temporarily unavailable. Please try again in a few moments.''],
                Optimization.specificContent =
                  \<lparr>SpecificContentSuggestions.titleAdditions = None,
                   SpecificContentSuggestions.descriptionSentences = None,
                   SpecificContentSuggestions.suggestedTags = None,
                   SpecificContentSuggestions.featureBenefitPairs = None,
                   SpecificContentSuggestions.conversationalPhrases = None,
                   SpecificContentSuggestions.specifications = None\<rparr>\<rparr>],
            ProductAnalysis.improvedContent =
              \<lparr>ImprovedContent.title = title p,
               ImprovedContent.suggestions = [''Analysis service temporarily unavailable''],
               ImprovedContent.description = ''Please try analyzing this product again'',
               ImprovedContent.descriptionSuggestions = [''Analysis service temporarily unavailable''],
               ImprovedContent.specificEnhancements =
                 \<lparr>SpecificEnhancements.copyPasteTitle = title p,
                  SpecificEnhancements.copyPasteDescriptionSentences = [],
                  SpecificEnhancements.suggestedTags = [],
                  SpecificEnhancements.featureBenefitPairs = [],
                  SpecificEnhancements.specifications = []\<rparr>\<rparr>,
            ProductAnalysis.reviewEnhancedRecommendations =
              Some \<lparr>ReviewEnhancedRecommendations.customerLanguageSuggestions =
                      [''Analysis service temporarily unavailable''],
                    ReviewEnhancedRecommendations.addressedConcerns =
                      [''Analysis service temporarily unavailable''],
                    ReviewEnhancedRecommendations.highlightedBenefits =
                      [''Analysis service temporarily unavailable''],
                    ReviewEnhancedRecommendations.missingKeywords =
                      [''Analysis service temporarily unavailable''],
                    ReviewEnhancedRecommendations.socialProofSuggestions =
                      [''Analysis service temporarily unavailable'']\<rparr>,
            AnalysisResult.cacheStatus = Some fresh, AnalysisResult.rateLimited = Some True\<rparr>,
         world = w, product_after = Some p, upstream_calls = 0, backoff = []\<rparr>) \<and>
   ((\<exists>e. limits (openaiRateLimiter (limiters w)) (getRateLimitIdentifier s) = Some e \<and>
         now_quota env < resetTime e \<and> maxRequests (openaiRateLimiter (limiters w)) \<le> count e) \<longleftrightarrow>
      \<not> fst (isAllowed (now_quota env) (getRateLimitIdentifier s)
             (openaiRateLimiter (limiters w)))) \<and>
   getRateLimitIdentifier s =
     (case shop s of None \<Rightarrow> ''anonymous'' | Some d \<Rightarrow> if d = [] then ''anonymous'' else d) \<and>
   withStatus (createFallbackAnalysis t) fresh (Some True) =
     \<lparr>ProductAnalysis.scores =
        \<lparr>Scores.semanticClarity = 0, Scores.intentMatching = 0,
         Scores.featureBenefitStructure = 0, Scores.naturalLanguage = 0,
         Scores.structuredInfo = 0, Scores.discoveryPotential = 0\<rparr>,
      ProductAnalysis.contentStrengths = [''Product information is present''],
      ProductAnalysis.contentGaps = [''Analysis temporarily unavailable - please try again''],
      ProductAnalysis.llmOptimizations =
        [\<lparr>Optimization.category = ''System Error'', Optimization.score = 0,
          Optimization.suggestions =
            [''Analysis service is temporarily unavailable. Please try again in a few moments.''],
          Optimization.specificContent =
            \<lparr>SpecificContentSuggestions.titleAdditions = None,
             SpecificContentSuggestions.descriptionSentences = None,
             SpecificContentSuggestions.suggestedTags = None,
             SpecificContentSuggestions.featureBenefitPairs = None,
             SpecificContentSuggestions.conversationalPhrases = None,
             SpecificContentSuggestions.specifications = None\<rparr>\<rparr>],
      ProductAnalysis.improvedContent =
        \<lparr>ImprovedContent.title = (if t = JUndefined then JString ''Unknown Product'' else t),
         ImprovedContent.suggestions = [''Analysis service temporarily unavailable''],
         ImprovedContent.description = ''Please try analyzing this product again'',
         ImprovedContent.descriptionSuggestions = [''Analysis service temporarily unavailable''],
         ImprovedContent.specificEnhancements =
           \<lparr>SpecificEnhancements.copyPasteTitle = (if t = JUndefined then JString ''Unknown Product'' else t),
            SpecificEnhancements.copyPasteDescriptionSentences = [],
            SpecificEnhancements.suggestedTags = [],
            SpecificEnhancements.featureBenefitPairs = [],
            SpecificEnhancements.specifications = []\<rparr>\<rparr>,
      ProductAnalysis.reviewEnhancedRecommendations =
        Some \<lparr>ReviewEnhancedRecommendations.customerLanguageSuggestions =
                [''Analysis service temporarily unavailable''],
              ReviewEnhancedRecommendations.addressedConcerns =
                [''Analysis service temporarily unavailable''],
              ReviewEnhancedRecommendations.highlightedBenefits =
                [''Analysis service temporarily unavailable''],
              ReviewEnhancedRecommendations.missingKeywords =
                [''Analysis service temporarily unavailable''],
              ReviewEnhancedRecommendations.socialProofSuggestions =
                [''Analysis service temporarily unavailable'']\<rparr>,
      AnalysisResult.cacheStatus = Some fresh, AnalysisResult.rateLimited = Some True\<rparr>"
proof -
  have fb: "withStatus (createFallbackAnalysis x) fresh (Some True) =
     \<lparr>ProductAnalysis.scores =
        \<lparr>Scores.semanticClarity = 0, Scores.intentMatching = 0,
         Scores.featureBenefitStructure = 0, Scores.naturalLanguage = 0,
         Scores.structuredInfo = 0, Scores.discoveryPotential = 0\<rparr>,
      ProductAnalysis.contentStrengths = [''Product information is present''],
      ProductAnalysis.contentGaps = [''Analysis temporarily unavailable - please try again''],
      ProductAnalysis.llmOptimizations =
        [\<lparr>Optimization.category = ''System Error'', Optimization.score = 0,
          Optimization.suggestions =
            [''Analysis service is temporarily unavailable. Please try again in a few moments.''],
          Optimization.specificContent =
            \<lparr>SpecificContentSuggestions.titleAdditions = None,
             SpecificContentSuggestions.descriptionSentences = None,
             SpecificContentSuggestions.suggestedTags = None,
             SpecificContentSuggestions.featureBenefitPairs = None,
             SpecificContentSuggestions.conversationalPhrases = None,
             SpecificContentSuggestions.specifications = None\<rparr>\<rparr>],
      ProductAnalysis.improvedContent =
        \<lparr>ImprovedContent.title = (if x = JUndefined then JString ''Unknown Product'' else x),
         ImprovedContent.suggestions = [''Analysis service temporarily unavailable''],
         ImprovedContent.description = ''Please try analyzing this product again'',
         ImprovedContent.descriptionSuggestions = [''Analysis service temporarily unavailable''],
         ImprovedContent.specificEnhancements =
           \<lparr>SpecificEnhancements.copyPasteTitle = (if x = JUndefined then JString ''Unknown Product'' else x),
            SpecificEnhancements.copyPasteDescriptionSentences = [],
            SpecificEnhancements.suggestedTags = [],
            SpecificEnhancements.featureBenefitPairs = [],
            SpecificEnhancements.specifications = []\<rparr>\<rparr>,
      ProductAnalysis.reviewEnhancedRecommendations =
        Some \<lparr>ReviewEnhancedRecommendations.customerLanguageSuggestions =
                [''Analysis service temporarily unavailable''],
              ReviewEnhancedRecommendations.addressedConcerns =
                [''Analysis service temporarily unavailable''],
              ReviewEnhancedRecommendations.highlightedBenefits =
                [''Analysis service temporarily unavailable''],
              ReviewEnhancedRecommendations.missingKeywords =
                [''Analysis service temporarily unavailable''],
              ReviewEnhancedRecommendations.socialProofSuggestions =
                [''Analysis service temporarily unavailable'']\<rparr>,
      AnalysisResult.cacheStatus = Some fresh, AnalysisResult.rateLimited = Some True\<rparr>" for x
    by (simp add: withStatus_def ProductAnalysis.extend_def createFallbackAnalysis_def Let_def
        emptyObject_def)
  have first: "analyzeLLMDiscoverability env (Some p) options w =
        \<lparr>outcome = Inr
           \<lparr>ProductAnalysis.scores =
              \<lparr>Scores.semanticClarity = 0, Scores.intentMatching = 0,
               Scores.featureBenefitStructure = 0, Scores.naturalLanguage = 0,
               Scores.structuredInfo = 0, Scores.discoveryPotential = 0\<rparr>,
            ProductAnalysis.contentStrengths = [''Product information is present''],
            ProductAnalysis.contentGaps = [''Analysis temporarily unavailable - please try again''],
            ProductAnalysis.llmOptimizations =
              [\<lparr>Optimization.category = ''System Error'', Optimization.score = 0,
                Optimization.suggestions =
                  [''Analysis service is temporarily unavailable. Please try again in a few moments.''],
                Optimization.specificContent =
                  \<lparr>SpecificContentSuggestions.titleAdditions = None,
                   SpecificContentSuggestions.descriptionSentences = None,
                   SpecificContentSuggestions.suggestedTags = None,
                   SpecificContentSuggestions.featureBenefitPairs = None,
                   SpecificContentSuggestions.conversationalPhrases = None,
                   SpecificContentSuggestions.specifications = None\<rparr>\<rparr>],
            ProductAnalysis.improvedContent =
              \<lparr>ImprovedContent.title = title p,
               ImprovedContent.suggestions = [''Analysis service temporarily unavailable''],
               ImprovedContent.description = ''Please try analyzing this product again'',
               ImprovedContent.descriptionSuggestions = [''Analysis service temporarily unavailable''],
               ImprovedContent.specificEnhancements =
                 \<lparr>SpecificEnhancements.copyPasteTitle = title p,
                  SpecificEnhancements.copyPasteDescriptionSentences = [],
                  SpecificEnhancements.suggestedTags = [],
                  SpecificEnhancements.featureBenefitPairs = [],
                  SpecificEnhancements.specifications = []\<rparr>\<rparr>,
            ProductAnalysis.reviewEnhancedRecommendations =
              Some \<lparr>ReviewEnhancedRecommendations.customerLanguageSuggestions =
                      [''Analysis service temporarily unavailable''],
                    ReviewEnhancedRecommendations.addressedConcerns =
                      [''Analysis service temporarily unavailable''],
                    ReviewEnhancedRecommendations.highlightedBenefits =
                      [''Analysis service temporarily unavailable''],
                    ReviewEnhancedRecommendations.missingKeywords =
                      [''Analysis service temporarily unavailable''],
                    ReviewEnhancedRecommendations.socialProofSuggestions =
                      [''Analysis service temporarily unavailable'']\<rparr>,
            AnalysisResult.cacheStatus = Some fresh, AnalysisResult.rateLimited = Some True\<rparr>,
         world = w, product_after = Some p, upstream_calls = 0, backoff = []\<rparr>"
    if h: "validateProductData (Some p) = Inr () \<and> options = Some opts \<and> session opts = Some s \<and>
    \<not> fst (isAllowed (now_quota env) (getRateLimitIdentifier s)
             (openaiRateLimiter (limiters w)))"
  proof -
    from h have "tryBlock env (Some p) options w =
        \<lparr>outcome = Inr (withStatus (createFallbackAnalysis (title p)) fresh (Some True)),
         world = w, product_after = Some p, upstream_calls = 0, backoff = []\<rparr>"
      by (intro tryBlock_denied [where opts = opts and s = s and u = "()"]) simp_all
    then have a: "analyzeLLMDiscoverability env (Some p) options w =
        \<lparr>outcome = Inr (withStatus (createFallbackAnalysis (title p)) fresh (Some True)),
         world = w, product_after = Some p, upstream_calls = 0, backoff = []\<rparr>"
      by (rule analyze_of_tryBlock_Inr)
    from h have "isString (title p)"
      by (simp add: validateProductData_def split: if_splits)
    then have t: "title p \<noteq> JUndefined" by (cases "title p") simp_all
    show ?thesis unfolding a fb using t by simp
  qed
  have second: "(\<exists>e. limits (openaiRateLimiter (limiters w)) (getRateLimitIdentifier s) = Some e \<and>
         now_quota env < resetTime e \<and> maxRequests (openaiRateLimiter (limiters w)) \<le> count e) \<longleftrightarrow>
      \<not> fst (isAllowed (now_quota env) (getRateLimitIdentifier s)
             (openaiRateLimiter (limiters w)))"
    by (simp only: isAllowed_denied_iff)
  have third: "getRateLimitIdentifier s =
     (case shop s of None \<Rightarrow> ''anonymous'' | Some d \<Rightarrow> if d = [] then ''anonymous'' else d)"
    by (simp add: getRateLimitIdentifier_def)
  show ?thesis
    by (rule conjI [OF impI [OF first] conjI [OF second conjI [OF third fb]]])
qed

theorem quota_denied_returns_rate_limited_fallback_witness:
  "validateProductData (Some example_product) = Inr () \<and>
   \<not> fst (isAllowed 500 ''s.example'' (example_limiter 50)) \<and>
   analyzeLLMDiscoverability example_env (Some example_product) (Some example_options)
       (example_world 50) =
     \<lparr>outcome = Inr
        \<lparr>ProductAnalysis.scores =
           \<lparr>Scores.semanticClarity = 0, Scores.intentMatching = 0,
            Scores.featureBenefitStructure = 0, Scores.naturalLanguage = 0,
            Scores.structuredInfo = 0, Scores.discoveryPotential = 0\<rparr>,
         ProductAnalysis.contentStrengths = [''Product information is present''],
         ProductAnalysis.contentGaps = [''Analysis temporarily unavailable - please try again''],
         ProductAnalysis.llmOptimizations =
           [\<lparr>Optimization.category = ''System Error'', Optimization.score = 0,
             Optimization.suggestions =
               [''Analysis service is temporarily unavailable. Please try again in a few moments.''],
             Optimization.specificContent =
               \<lparr>SpecificContentSuggestions.titleAdditions = None,
                SpecificContentSuggestions.descriptionSentences = None,
                SpecificContentSuggestions.suggestedTags = None,
                SpecificContentSuggestions.featureBenefitPairs = None,
                SpecificContentSuggestions.conversationalPhrases = None,
                SpecificContentSuggestions.specifications = None\<rparr>\<rparr>],
         ProductAnalysis.improvedContent =
           \<lparr>ImprovedContent.title = JString ''Board'',
            ImprovedContent.suggestions = [''Analysis service temporarily unavailable''],
            ImprovedContent.description = ''Please try analyzing this product again'',
            ImprovedContent.descriptionSuggestions = [''Analysis service temporarily unavailable''],
            ImprovedContent.specificEnhancements =
              \<lparr>SpecificEnhancements.copyPasteTitle = JString ''Board'',
               SpecificEnhancements.copyPasteDescriptionSentences = [],
               SpecificEnhancements.suggestedTags = [],
               SpecificEnhancements.featureBenefitPairs = [],
               SpecificEnhancements.specifications = []\<rparr>\<rparr>,
         ProductAnalysis.reviewEnhancedRecommendations =
           Some \<lparr>ReviewEnhancedRecommendations.customerLanguageSuggestions =
                   [''Analysis service temporarily unavailable''],
                 ReviewEnhancedRecommendations.addressedConcerns =
                   [''Analysis service temporarily unavailable''],
                 ReviewEnhancedRecommendations.highlightedBenefits =
                   [''Analysis service temporarily unavailable''],
                 ReviewEnhancedRecommendations.missingKeywords =
                   [''Analysis service temporarily unavailable''],
                 ReviewEnhancedRecommendations.socialProofSuggestions =
                   [''Analysis service temporarily unavailable'']\<rparr>,
         AnalysisResult.cacheStatus = Some fresh, AnalysisResult.rateLimited = Some True\<rparr>,
      world = example_world 50, product_after = Some example_product,
      upstream_calls = 0, backoff = []\<rparr>"
proof -
  note T = quota_denied_returns_rate_limited_fallback
    [where p = example_product and options = "Some example_options" and opts = example_options
       and s = "\<lparr>shop = Some ''s.example''\<rparr>" and env = example_env and w = "example_world 50"]
  have v: "validateProductData (Some example_product) = Inr ()"
    by (simp add: validateProductData_def example_product_def)
  have i: "getRateLimitIdentifier \<lparr>shop = Some ''s.example''\<rparr> = ''s.example''"
    by (simp add: getRateLimitIdentifier_def)
  have l: "openaiRateLimiter (limiters (example_world 50)) = example_limiter 50"
    by (simp add: example_world_def)
  have q: "now_quota example_env = 500" by (simp add: example_env_def)
  have d: "\<not> fst (isAllowed 500 ''s.example'' (example_limiter 50))"
    using T [THEN conjunct2, THEN conjunct1] unfolding i l q
    by (simp add: example_limiter_def)
  have t: "title example_product = JString ''Board''" by (simp add: example_product_def)
  have o: "Some example_options = Some example_options \<and>
      session example_options = Some \<lparr>shop = Some ''s.example''\<rparr>"
    by (simp add: example_options_def)
  have d': "\<not> fst (isAllowed (now_quota example_env)
      (getRateLimitIdentifier \<lparr>shop = Some ''s.example''\<rparr>)
      (openaiRateLimiter (limiters (example_world 50))))"
    unfolding i l q by (rule d)
  have r: "analyzeLLMDiscoverability example_env (Some example_product) (Some example_options)
       (example_world 50) =
     \<lparr>outcome = Inr
        \<lparr>ProductAnalysis.scores =
           \<lparr>Scores.semanticClarity = 0, Scores.intentMatching = 0,
            Scores.featureBenefitStructure = 0, Scores.naturalLanguage = 0,
            Scores.structuredInfo = 0, Scores.discoveryPotential = 0\<rparr>,
         ProductAnalysis.contentStrengths = [''Product information is present''],
         ProductAnalysis.contentGaps = [''Analysis temporarily unavailable - please try again''],
         ProductAnalysis.llmOptimizations =
           [\<lparr>Optimization.category = ''System Error'', Optimization.score = 0,
             Optimization.suggestions =
               [''Analysis service is temporarily unavailable. Please try again in a few moments.''],
             Optimization.specificContent =
               \<lparr>SpecificContentSuggestions.titleAdditions = None,
                SpecificContentSuggestions.descriptionSentences = None,
                SpecificContentSuggestions.suggestedTags = None,
                SpecificContentSuggestions.featureBenefitPairs = None,
                SpecificContentSuggestions.conversationalPhrases = None,
                SpecificContentSuggestions.specifications = None\<rparr>\<rparr>],
         ProductAnalysis.improvedContent =
           \<lparr>ImprovedContent.title = JString ''Board'',
            ImprovedContent.suggestions = [''Analysis service temporarily unavailable''],
            ImprovedContent.description = ''Please try analyzing this product again'',
            ImprovedContent.descriptionSuggestions = [''Analysis service temporarily unavailable''],
            ImprovedContent.specificEnhancements =
              \<lparr>SpecificEnhancements.copyPasteTitle = JString ''Board'',
               SpecificEnhancements.copyPasteDescriptionSentences = [],
               SpecificEnhancements.suggestedTags = [],
               SpecificEnhancements.featureBenefitPairs = [],
               SpecificEnhancements.specifications = []\<rparr>\<rparr>,
         ProductAnalysis.reviewEnhancedRecommendations =
           Some \<lparr>ReviewEnhancedRecommendations.customerLanguageSuggestions =
                   [''Analysis service temporarily unavailable''],
                 ReviewEnhancedRecommendations.addressedConcerns =
                   [''Analysis service temporarily unavailable''],
                 ReviewEnhancedRecommendations.highlightedBenefits =
                   [''Analysis service temporarily unavailable''],
                 ReviewEnhancedRecommendations.missingKeywords =
                   [''Analysis service temporarily unavailable''],
                 ReviewEnhancedRecommendations.socialProofSuggestions =
                   [''Analysis service temporarily unavailable'']\<rparr>,
         AnalysisResult.cacheStatus = Some fresh, AnalysisResult.rateLimited = Some True\<rparr>,
      world = example_world 50, product_after = Some example_product,
      upstream_calls = 0, backoff = []\<rparr>"
    using T [THEN conjunct1, rule_format, OF conjI [OF v conjI [OF o [THEN conjunct1]
      conjI [OF o [THEN conjunct2] d']]]]
    unfolding t by simp
  show ?thesis by (rule conjI [OF v conjI [OF d r]])
qed

text \<open>
  Claim C10, amended in its last clause. When no session is supplied (\<open>options\<close> is absent,
  or it has no \<open>session\<close>), for every product, every environment and every state of the
  module:
  (1) the call leaves both limiters as they were: no window is created or incremented;
  (2) the limiters have no influence on the call: with any other limiter state in place
  of the current one, the call returns the same value, issues the same upstream calls and
  leaves the same cache, so no request history can make it deny the request;
  (3) if the returned value has \<open>rateLimited = true\<close>, then the upstream caller was invoked
  and one of two things happened: the last upstream attempt was rejected with an error that
  is not a client error and whose lower-cased message contains \<open>rate limit\<close>, or the upstream
  caller returned a response and \<open>JSON.parse\<close> of its content threw an error that
  \<open>isRateLimitError\<close> accepts (by its message, status 429 or code \<open>rate_limit_exceeded\<close>).
  The second case is not an upstream rate-limit error; it is what the specification's
  wording leaves out.
\<close>

theorem no_session_no_local_quota:
  "options = None \<or> (\<exists>opts. options = Some opts \<and> session opts = None) \<longrightarrow>
     limiters (world (analyzeLLMDiscoverability env product options w)) = limiters w \<and>
     (\<forall>ls. analyzeLLMDiscoverability env product options (w\<lparr>limiters := ls\<rparr>) =
            (analyzeLLMDiscoverability env product options w)
              \<lparr>world := (world (analyzeLLMDiscoverability env product options w))
                  \<lparr>limiters := ls\<rparr>\<rparr>) \<and>
     (\<forall>r. outcome (analyzeLLMDiscoverability env product options w) = Inr r \<and>
          rateLimited r = Some True \<longrightarrow>
          1 \<le> upstream_calls (analyzeLLMDiscoverability env product options w) \<and>
          ((\<exists>e. race (apiCall env (upstream_calls (analyzeLLMDiscoverability env product options w))) =
                  Rejected e \<and> \<not> clientError e \<and> message_includes e ''rate limit'') \<or>
           (\<exists>response content e.
               returned (callOpenAIWithRetry (apiCall env) 3) = Inr response \<and>
               readContent response = Inr content \<and>
               JSON_parse env content = Inl e \<and>
               (message_includes e ''rate limit'' \<or> status e = Some 429 \<or>
                code e = Some ''rate_limit_exceeded''))))"
proof (rule impI)
  assume ns: "options = None \<or> (\<exists>opts. options = Some opts \<and> session opts = None)"
  have first: "limiters (world (analyzeLLMDiscoverability env product options w)) = limiters w"
    using analyze_frame [of env product options w] tryBlock_no_session_limiters [OF ns]
    by simp
  have second: "\<forall>ls. analyzeLLMDiscoverability env product options (w\<lparr>limiters := ls\<rparr>) =
            (analyzeLLMDiscoverability env product options w)
              \<lparr>world := (world (analyzeLLMDiscoverability env product options w))
                  \<lparr>limiters := ls\<rparr>\<rparr>"
    by (intro allI analyze_no_session_limiters_irrelevant [OF ns])
  have third: "\<forall>r. outcome (analyzeLLMDiscoverability env product options w) = Inr r \<and>
          rateLimited r = Some True \<longrightarrow>
          1 \<le> upstream_calls (analyzeLLMDiscoverability env product options w) \<and>
          ((\<exists>e. race (apiCall env (upstream_calls (analyzeLLMDiscoverability env product options w))) =
                  Rejected e \<and> \<not> clientError e \<and> message_includes e ''rate limit'') \<or>
           (\<exists>response content e.
               returned (callOpenAIWithRetry (apiCall env) 3) = Inr response \<and>
               readContent response = Inr content \<and>
               JSON_parse env content = Inl e \<and> isRateLimitError e))"
  proof (intro allI impI)
    fix r
    assume h: "outcome (analyzeLLMDiscoverability env product options w) = Inr r \<and>
          rateLimited r = Some True"
    let ?t = "tryBlock env product options w"
    note src = tryBlock_no_session_rateLimit_source [OF ns, of env product w]
    have calls: "upstream_calls (analyzeLLMDiscoverability env product options w) = upstream_calls ?t"
      using analyze_frame by blast
    show "1 \<le> upstream_calls (analyzeLLMDiscoverability env product options w) \<and>
          ((\<exists>e. race (apiCall env (upstream_calls (analyzeLLMDiscoverability env product options w))) =
                  Rejected e \<and> \<not> clientError e \<and> message_includes e ''rate limit'') \<or>
           (\<exists>response content e.
               returned (callOpenAIWithRetry (apiCall env) 3) = Inr response \<and>
               readContent response = Inr content \<and>
               JSON_parse env content = Inl e \<and> isRateLimitError e))"
    proof (cases "outcome ?t")
      case (Inr r')
      then have "r = r'" using h by (simp add: analyzeLLMDiscoverability_def Let_def)
      then show ?thesis using src Inr h by simp
    next
      case (Inl thrown)
      then obtain e where e: "thrown = Some e" using src by blast
      show ?thesis
      proof (cases product)
        case None
        then show ?thesis using h Inl e by (simp add: analyzeLLMDiscoverability_def Let_def)
      next
        case (Some p)
        then have "r = withStatus (handleAnalysisError e (title p)) fresh
                       (if isRateLimitError e then Some True else None)"
          using h Inl e by (simp add: analyzeLLMDiscoverability_def Let_def)
        then have "isRateLimitError e" using h by (simp split: if_splits)
        then show ?thesis using src Inl e unfolding calls by blast
      qed
    qed
  qed
  show "limiters (world (analyzeLLMDiscoverability env product options w)) = limiters w \<and>
     (\<forall>ls. analyzeLLMDiscoverability env product options (w\<lparr>limiters := ls\<rparr>) =
            (analyzeLLMDiscoverability env product options w)
              \<lparr>world := (world (analyzeLLMDiscoverability env product options w))
                  \<lparr>limiters := ls\<rparr>\<rparr>) \<and>
     (\<forall>r. outcome (analyzeLLMDiscoverability env product options w) = Inr r \<and>
          rateLimited r = Some True \<longrightarrow>
          1 \<le> upstream_calls (analyzeLLMDiscoverability env product options w) \<and>
          ((\<exists>e. race (apiCall env (upstream_calls (analyzeLLMDiscoverability env product options w))) =
                  Rejected e \<and> \<not> clientError e \<and> message_includes e ''rate limit'') \<or>
           (\<exists>response content e.
               returned (callOpenAIWithRetry (apiCall env) 3) = Inr response \<and>
               readContent response = Inr content \<and>
               JSON_parse env content = Inl e \<and>
               (message_includes e ''rate limit'' \<or> status e = Some 429 \<or>
                code e = Some ''rate_limit_exceeded''))))"
    by (rule conjI [OF first conjI [OF second third [unfolded isRateLimitError_def]]])
qed

text \<open>
  The theorem on a call without options whose upstream rejects every attempt with a 429
  whose message names the rate limit: the flag is set, the limiters are as before, and the
  upstream was called.
\<close>

theorem no_session_no_local_quota_witness:
  "outcome (analyzeLLMDiscoverability example_env_upstream_limited (Some example_product) None
       (example_world 50)) =
     Inr (withStatus (createFallbackAnalysis (JString ''Board'')) fresh (Some True)) \<and>
   rateLimited (withStatus (createFallbackAnalysis (JString ''Board'')) fresh (Some True)) =
     Some True \<and>
   limiters (world (analyzeLLMDiscoverability example_env_upstream_limited (Some example_product)
       None (example_world 50))) = limiters (example_world 50) \<and>
   1 \<le> upstream_calls (analyzeLLMDiscoverability example_env_upstream_limited
       (Some example_product) None (example_world 50)) \<and>
   race (apiCall example_env_upstream_limited 3) = Rejected rate_limit_rejection \<and>
   message_includes rate_limit_rejection ''rate limit''"
proof -
  let ?out = "analyzeLLMDiscoverability example_env_upstream_limited (Some example_product) None
       (example_world 50)"
  let ?r = "withStatus (createFallbackAnalysis (JString ''Board'')) fresh (Some True)"
  have n: "None = None \<or> (\<exists>opts. (None :: Options option) = Some opts \<and> session opts = None)"
    by simp
  note T = no_session_no_local_quota [where options = None and env = example_env_upstream_limited
      and product = "Some example_product" and w = "example_world 50", rule_format, OF n]
  have o: "outcome ?out = Inr ?r"
    by (simp add: example_no_session_upstream_limited)
  have f: "rateLimited ?r = Some True" by simp
  have l: "limiters (world ?out) = limiters (example_world 50)"
    by (rule T [THEN conjunct1])
  have u: "1 \<le> upstream_calls ?out"
    by (rule T [THEN conjunct2, THEN conjunct2, rule_format, of ?r,
        OF conjI [OF o f], THEN conjunct1])
  have r: "race (apiCall example_env_upstream_limited 3) = Rejected rate_limit_rejection"
    by (simp add: example_env_upstream_limited_def example_env_def race_def)
  have i: "message_includes rate_limit_rejection ''rate limit''"
    by (simp add: message_includes_def rate_limit_rejection_def lower_eval)
  show ?thesis by (rule conjI [OF o conjI [OF f conjI [OF l conjI [OF u conjI [OF r i]]]]])
qed

text \<open>
  Counterexample to the last clause of C10 as the specification words it. No session is
  supplied and the only upstream call succeeds at once, so there is no upstream error of any
  kind; its content is the text \<open>rate limit\<close>, \<open>JSON.parse\<close> throws a syntax error whose
  message quotes that text, \<open>isRateLimitError\<close> accepts the error by its message, and the
  value returned carries \<open>rateLimited = true\<close>.
\<close>

theorem parse_error_marks_rate_limited:
  "analyzeLLMDiscoverability example_env_parse_error (Some example_product) None
       (example_world 0) =
     \<lparr>outcome = Inr (withStatus (createFallbackAnalysis (JString ''Board'')) fresh (Some True)),
      world = example_world 0,
      product_after = Some (example_product\<lparr>tags := JArray [''snow'', ''winter''],
                               metafields := [(''color'', ''red''), (''size'', ''156'')]\<rparr>),
      upstream_calls = 1, backoff = []\<rparr> \<and>
   rateLimited (withStatus (createFallbackAnalysis (JString ''Board'')) fresh (Some True)) =
     Some True \<and>
   callOpenAIWithRetry (apiCall example_env_parse_error) 3 =
     \<lparr>returned = Inr [Some ''rate limit''], attempts = 1, delays = []\<rparr> \<and>
   race (apiCall example_env_parse_error 1) = Resolved [Some ''rate limit''] \<and>
   readContent [Some ''rate limit''] = Inr ''rate limit'' \<and>
   JSON_parse example_env_parse_error ''rate limit'' =
     Inl \<lparr>message = Some (''Unexpected token 'r', '' @ [CHR 0x22] @ ''rate limit'' @
                           [CHR 0x22] @ '' is not valid JSON''),
          status = None, code = None, statusCode = None\<rparr>"
proof -
  let ?e = "\<lparr>message = Some (''Unexpected token 'r', '' @ [CHR 0x22] @ ''rate limit'' @
                           [CHR 0x22] @ '' is not valid JSON''),
          status = None, code = None, statusCode = None\<rparr>"
  have v: "validateProductData (Some example_product) = Inr ()"
    by (simp add: validateProductData_def example_product_def)
  have t: "tryBlock example_env_parse_error (Some example_product) None (example_world 0) =
      lookupOrAnalyze example_env_parse_error (example_world 0) example_product"
    by (rule tryBlock_no_session [OF v]) simp
  have env: "collate example_env_parse_error = (\<lambda>s. s)"
    "now_lookup example_env_parse_error = 501"
    "fetchedReviewData example_env_parse_error = None"
    by (simp_all add: example_env_parse_error_def example_env_def)
  have race1: "race (apiCall example_env_parse_error 1) = Resolved [Some ''rate limit'']"
    by (simp add: example_env_parse_error_def example_env_def race_def)
  have run: "callOpenAIWithRetry (apiCall example_env_parse_error) 3 =
     \<lparr>returned = Inr [Some ''rate limit''], attempts = 1, delays = []\<rparr>"
    unfolding callOpenAIWithRetry_def
    by (rule retryLoop_resolved
        [where upstream = "apiCall example_env_parse_error" and attempt = 1, OF _ race1]) simp
  have content: "readContent [Some ''rate limit''] = Inr ''rate limit''"
    by (simp add: readContent_def)
  have parse: "JSON_parse example_env_parse_error ''rate limit'' = Inl ?e"
    by (simp add: example_env_parse_error_def example_env_def Error_def)
  have rl: "isRateLimitError ?e"
    by (simp add: isRateLimitError_def message_includes_def lower_eval)
  have l: "lookupOrAnalyze example_env_parse_error (example_world 0) example_product =
     \<lparr>outcome = Inl (Some ?e),
      world = example_world 0,
      product_after = Some (example_product\<lparr>tags := JArray [''snow'', ''winter''],
                               metafields := [(''color'', ''red''), (''size'', ''156'')]\<rparr>),
      upstream_calls = 1, backoff = []\<rparr>"
    by (simp add: lookupOrAnalyze_def generateContentHash_def Let_def getCachedAnalysis_def
        analyzeFresh_def run content parse example_product_def example_world_def
        env ProductContent.extend_def ProductContent.truncate_def)
  have 1: "analyzeLLMDiscoverability example_env_parse_error (Some example_product) None
       (example_world 0) =
     \<lparr>outcome = Inr (withStatus (createFallbackAnalysis (JString ''Board'')) fresh (Some True)),
      world = example_world 0,
      product_after = Some (example_product\<lparr>tags := JArray [''snow'', ''winter''],
                               metafields := [(''color'', ''red''), (''size'', ''156'')]\<rparr>),
      upstream_calls = 1, backoff = []\<rparr>"
    unfolding analyzeLLMDiscoverability_def Let_def t l
    using rl by (simp add: handleAnalysisError_def example_product_def)
  have 2: "rateLimited (withStatus (createFallbackAnalysis (JString ''Board'')) fresh (Some True)) =
     Some True" by simp
  show ?thesis
    by (rule conjI [OF 1 conjI [OF 2 conjI [OF run conjI [OF race1 conjI [OF content parse]]]]])
qed

section \<open>The fingerprinter and its input\<close>

text \<open>
  Claim C9 does not hold of the code. \<open>generateContentHash\<close> calls \<open>product.tags.sort()\<close> and
  \<open>product.metafields.sort(...)\<close>, which sort the arrays of its argument in place. For the
  example record, whose tags are \<open>winter, snow\<close> and whose metafields have the keys
  \<open>size, color\<close>, the call returns a digest and leaves the record with the tags
  \<open>snow, winter\<close> and the metafield keys \<open>color, size\<close>; every other field is as before.
\<close>

theorem generateContentHash_reorders_input:
  "(case generateContentHash (\<lambda>s. s) example_record of
      Inl e \<Rightarrow> None
    | Inr (digest, after) \<Rightarrow> Some after) =
     Some (example_record\<lparr>tags := JArray [''snow'', ''winter''],
                          metafields := [(''color'', ''red''), (''size'', ''156'')]\<rparr>) \<and>
   tags example_record = JArray [''winter'', ''snow''] \<and>
   metafields example_record = [(''size'', ''156''), (''color'', ''red'')] \<and>
   example_record\<lparr>tags := JArray [''snow'', ''winter''],
                  metafields := [(''color'', ''red''), (''size'', ''156'')]\<rparr> \<noteq> example_record"
proof -
  have t: "tags example_record = JArray [''winter'', ''snow'']"
    and m: "metafields example_record = [(''size'', ''156''), (''color'', ''red'')]"
    by (simp_all add: example_record_def example_product_def ProductContent.extend_def)
  have 1: "(case generateContentHash (\<lambda>s. s) example_record of
      Inl e \<Rightarrow> None
    | Inr (digest, after) \<Rightarrow> Some after) =
     Some (example_record\<lparr>tags := JArray [''snow'', ''winter''],
                          metafields := [(''color'', ''red''), (''size'', ''156'')]\<rparr>)"
    by (simp add: generateContentHash_def Let_def t m)
  have "tags (example_record\<lparr>tags := JArray [''snow'', ''winter''],
                  metafields := [(''color'', ''red''), (''size'', ''156'')]\<rparr>) \<noteq> tags example_record"
    unfolding t by simp
  then have 2: "example_record\<lparr>tags := JArray [''snow'', ''winter''],
                  metafields := [(''color'', ''red''), (''size'', ''156'')]\<rparr> \<noteq> example_record"
    by (rule contrapos_nn) simp
  show ?thesis by (rule conjI [OF 1 conjI [OF t conjI [OF m 2]]])
qed

section \<open>What the caller sees of a failure\<close>













section \<open>The composite score\<close>

lemma set_update_subset: "set (AList.update k v al) \<subseteq> insert (k, v) (set al)"
  by (induction al) auto

lemma set_delete_subset: "set (AList.delete k al) \<subseteq> set al"
  by (auto simp: AList.delete_eq)

lemma set_setCachedAnalysis:
  "set (setCachedAnalysis now hash a cache) \<subseteq>
     insert (hash, \<lparr>analysis = a, timestamp = now, contentHash = hash\<rparr>) (set cache)"
proof -
  let ?c = "AList.update hash \<lparr>analysis = a, timestamp = now, contentHash = hash\<rparr> cache"
  have "set (setCachedAnalysis now hash a cache) \<subseteq> set ?c"
    unfolding setCachedAnalysis_unfold Let_def using set_delete_subset [of _ ?c] by simp
  also have "\<dots> \<subseteq> insert (hash, \<lparr>analysis = a, timestamp = now, contentHash = hash\<rparr>) (set cache)"
    by (rule set_update_subset)
  finally show ?thesis .
qed

lemma getCachedAnalysis_entries:
  "set (snd (getCachedAnalysis now hash cache)) \<subseteq> set cache \<and>
   (\<forall>a. fst (getCachedAnalysis now hash cache) = Some a \<longrightarrow>
        (\<exists>entry \<in> set cache. analysis (snd entry) = a))"
proof (cases "map_of cache hash")
  case None
  then show ?thesis by (simp add: getCachedAnalysis_def)
next
  case (Some cached)
  then have "(hash, cached) \<in> set cache" by (rule map_of_SomeD)
  then have "\<exists>entry \<in> set cache. analysis (snd entry) = analysis cached"
    by (intro bexI [of _ "(hash, cached)"]) simp_all
  then show ?thesis
    using Some set_delete_subset [of hash cache]
    by (simp add: getCachedAnalysis_def)
qed

lemma weightedScore_zero: "weightedScore 0 0 0 0 0 = 0"
proof -
  have "\<lfloor>1 / 2 :: rat\<rfloor> = 0" by (rule floor_unique) simp_all
  then show ?thesis
    by (simp add: weightedScore_def js_mul_def js_add_def fl_def Math_round_def)
qed

lemma composite_transform:
  "composite_consistent (scores (transformOpenAIResponse response rd))"
  by (simp add: composite_consistent_def transformOpenAIResponse_def Let_def)

lemma composite_fallback: "composite_consistent (scores (createFallbackAnalysis t))"
  by (simp add: composite_consistent_def createFallbackAnalysis_def Let_def weightedScore_zero)

lemma scores_withStatus [simp]: "scores (withStatus a cs rl) = scores a"
  by (simp add: withStatus_def ProductAnalysis.extend_def)

lemma composite_analyzeFresh:
  assumes "\<forall>entry \<in> set (analysisCache w). composite_consistent (scores (analysis (snd entry)))"
  shows "(\<forall>r. outcome (analyzeFresh env hash w p) = Inr r \<longrightarrow> composite_consistent (scores r)) \<and>
         (\<forall>entry \<in> set (analysisCache (world (analyzeFresh env hash w p))).
            composite_consistent (scores (analysis (snd entry))))"
proof -
  have new: "\<forall>entry \<in> set (setCachedAnalysis now hash
        (transformOpenAIResponse resp rd) (analysisCache w)).
      composite_consistent (scores (analysis (snd entry)))" for now resp rd
    using set_setCachedAnalysis [of now hash "transformOpenAIResponse resp rd" "analysisCache w"]
      assms composite_transform [of resp rd]
    by auto
  show ?thesis
    using assms new composite_transform
    by (simp add: analyzeFresh_def Let_def split: sum.splits)
qed

lemma composite_lookupOrAnalyze:
  assumes "\<forall>entry \<in> set (analysisCache w). composite_consistent (scores (analysis (snd entry)))"
  shows "(\<forall>r. outcome (lookupOrAnalyze env w p) = Inr r \<longrightarrow> composite_consistent (scores r)) \<and>
         (\<forall>entry \<in> set (analysisCache (world (lookupOrAnalyze env w p))).
            composite_consistent (scores (analysis (snd entry))))"
proof (cases "generateContentHash (collate env)
             (ProductContent.extend p \<lparr>reviewData = fetchedReviewData env\<rparr>)")
  case (Inl e)
  then show ?thesis using assms by (simp add: lookupOrAnalyze_def)
next
  case (Inr hashed)
  let ?looked = "getCachedAnalysis (now_lookup env) (fst hashed) (analysisCache w)"
  let ?w = "w\<lparr>analysisCache := snd ?looked\<rparr>"
  have sub: "\<forall>entry \<in> set (analysisCache ?w). composite_consistent (scores (analysis (snd entry)))"
    using getCachedAnalysis_entries [of "now_lookup env" "fst hashed" "analysisCache w"] assms
    by auto
  show ?thesis
  proof (cases "fst ?looked")
    case None
    then show ?thesis
      using Inr composite_analyzeFresh [OF sub]
      by (simp add: lookupOrAnalyze_def Let_def)
  next
    case (Some a)
    then have "\<exists>entry \<in> set (analysisCache w). analysis (snd entry) = a"
      using getCachedAnalysis_entries [of "now_lookup env" "fst hashed" "analysisCache w"]
      by simp
    then have "composite_consistent (scores a)" using assms by auto
    then show ?thesis
      using Inr Some sub by (simp add: lookupOrAnalyze_def Let_def)
  qed
qed

lemma composite_tryBlock:
  assumes "\<forall>entry \<in> set (analysisCache w). composite_consistent (scores (analysis (snd entry)))"
  shows "(\<forall>r. outcome (tryBlock env product options w) = Inr r \<longrightarrow> composite_consistent (scores r)) \<and>
         (\<forall>entry \<in> set (analysisCache (world (tryBlock env product options w))).
            composite_consistent (scores (analysis (snd entry))))"
proof (cases "validateProductData product")
  case (Inl e)
  then show ?thesis using assms by (simp add: tryBlock_invalid)
next
  case (Inr u)
  then obtain p where p: "product = Some p" using validate_Inr_product by blast
  show ?thesis
  proof (cases "case options of None \<Rightarrow> None | Some opts \<Rightarrow> session opts")
    case None
    then have "options = None \<or> (\<exists>opts. options = Some opts \<and> session opts = None)"
      by (cases options) simp_all
    then have "tryBlock env product options w = lookupOrAnalyze env w p"
      unfolding p by (rule tryBlock_no_session [OF Inr [unfolded p]])
    then show ?thesis using composite_lookupOrAnalyze [OF assms] by simp
  next
    case (Some s)
    then obtain opts where o: "options = Some opts" "session opts = Some s"
      by (cases options) simp_all
    show ?thesis
    proof (cases "fst (isAllowed (now_quota env) (getRateLimitIdentifier s)
        (openaiRateLimiter (limiters w)))")
      case True
      let ?w = "w\<lparr>limiters := (limiters w)\<lparr>openaiRateLimiter :=
                 snd (isAllowed (now_quota env) (getRateLimitIdentifier s)
                        (openaiRateLimiter (limiters w)))\<rparr>\<rparr>"
      have "\<forall>entry \<in> set (analysisCache ?w). composite_consistent (scores (analysis (snd entry)))"
        using assms by simp
      then show ?thesis
        unfolding p tryBlock_allowed [OF Inr [unfolded p] o True]
        by (rule composite_lookupOrAnalyze)
    next
      case False
      show ?thesis
        unfolding p tryBlock_denied [OF Inr [unfolded p] o False]
        using assms composite_fallback by simp
    qed
  qed
qed

lemma composite_analyze:
  assumes "\<forall>entry \<in> set (analysisCache w). composite_consistent (scores (analysis (snd entry)))"
  shows "(\<forall>r. outcome (analyzeLLMDiscoverability env product options w) = Inr r \<longrightarrow>
            composite_consistent (scores r)) \<and>
         (\<forall>entry \<in> set (analysisCache (world (analyzeLLMDiscoverability env product options w))).
            composite_consistent (scores (analysis (snd entry))))"
proof -
  have w: "world (analyzeLLMDiscoverability env product options w) =
      world (tryBlock env product options w)"
    using analyze_frame by blast
  have r: "\<forall>r. outcome (analyzeLLMDiscoverability env product options w) = Inr r \<longrightarrow>
            composite_consistent (scores r)"
    using composite_tryBlock [OF assms, of env product options] composite_fallback
    by (auto simp: analyzeLLMDiscoverability_def Let_def handleAnalysisError_def
        split: sum.splits option.splits)
  show ?thesis
    unfolding w using r composite_tryBlock [OF assms, of env product options] by blast
qed

lemma fl_weights:
  "fl (1 / 4) = 1 / 4 \<and>
   fl (1 / 5) = 3602879701896397 / 18014398509481984 \<and>
   fl (3 / 20) = 5404319552844595 / 36028797018963968"
  by code_simp

lemma tie_sum:
  "js_add (js_add (js_add (js_add (js_mul 0 (fl (1 / 4))) (js_mul 0 (fl (1 / 4))))
       (js_mul 0 (fl (1 / 5)))) (js_mul 1 (fl (3 / 20)))) (js_mul 9 (fl (3 / 20))) =
     6755399441055743 / 4503599627370496"
  by code_simp

lemma weightedScore_tie: "weightedScore 0 0 0 1 9 = 1"
  by code_simp

lemma weightedScore_example: "weightedScore 80 70 90 60 50 = 72"
  by code_simp

lemma scores_example_response:
  "scores (transformOpenAIResponse example_response rd) =
     \<lparr>semanticClarity = 80, intentMatching = 70, featureBenefitStructure = 90,
      naturalLanguage = 60, structuredInfo = 50,
      discoveryPotential = weightedScore 80 70 90 60 50\<rparr>"
  by (simp add: transformOpenAIResponse_def Let_def example_response_def scored_def
      scoreOrZero_def)

lemma scores_tie_response:
  "scores (transformOpenAIResponse tie_response rd) =
     \<lparr>semanticClarity = 0, intentMatching = 0, featureBenefitStructure = 0,
      naturalLanguage = 1, structuredInfo = 9,
      discoveryPotential = weightedScore 0 0 0 1 9\<rparr>"
  by (simp add: transformOpenAIResponse_def Let_def tie_response_def scored_def
      scoreOrZero_def)

text \<open>
  Claim C6, amended. The composite score is \<open>Math.round\<close> of the weighted sum as JavaScript
  evaluates it, in binary64 arithmetic:
  (1) \<open>weightedScore\<close> is \<open>Math.round\<close> of the five products added from left to right, every
  product and every sum rounded to the nearest binary64 value, and \<open>Math.round x\<close> is the
  floor of \<open>x + 1/2\<close>;
  (2) the weights are the binary64 values nearest to 0.25, 0.25, 0.20, 0.15 and 0.15; the
  first is exact, the others are not, and the five add up to exactly 1;
  (3) the scores of a freshly transformed response are consistent: their
  \<open>discoveryPotential\<close> is the composite score of their own five sub-scores;
  (4) so are the scores of the fallback analysis, all 0;
  (5) if every analysis in the cache has consistent scores, then every value a call of
  \<open>analyzeLLMDiscoverability\<close> returns, fresh, cached or fallback, has consistent scores, and
  so has every analysis in the cache after the call. The cache starts empty, so this holds
  of every result the system produces.
\<close>

theorem composite_score_is_rounded_weighted_sum:
  "(\<forall>sc im fb nl si.
      weightedScore sc im fb nl si =
        Math_round
          (js_add
            (js_add
              (js_add
                (js_add (js_mul sc (fl (1 / 4))) (js_mul im (fl (1 / 4))))
                (js_mul fb (fl (1 / 5))))
              (js_mul nl (fl (3 / 20))))
            (js_mul si (fl (3 / 20))))) \<and>
   (\<forall>a b. js_mul a b = fl (a * b) \<and> js_add a b = fl (a + b)) \<and>
   (\<forall>x. Math_round x = of_int \<lfloor>x + 1 / 2\<rfloor>) \<and>
   (fl (1 / 4) = 1 / 4 \<and>
    fl (1 / 5) = 3602879701896397 / 18014398509481984 \<and>
    fl (3 / 20) = 5404319552844595 / 36028797018963968 \<and>
    fl (1 / 4) + fl (1 / 4) + fl (1 / 5) + fl (3 / 20) + fl (3 / 20) = 1) \<and>
   composite_consistent (scores (transformOpenAIResponse response rd)) \<and>
   composite_consistent (scores (createFallbackAnalysis t)) \<and>
   ((\<forall>entry \<in> set (analysisCache w). composite_consistent (scores (analysis (snd entry)))) \<longrightarrow>
      (\<forall>r. outcome (analyzeLLMDiscoverability env product options w) = Inr r \<longrightarrow>
           discoveryPotential (scores r) =
             weightedScore (semanticClarity (scores r)) (intentMatching (scores r))
               (featureBenefitStructure (scores r)) (naturalLanguage (scores r))
               (structuredInfo (scores r))) \<and>
      (\<forall>entry \<in> set (analysisCache (world (analyzeLLMDiscoverability env product options w))).
           composite_consistent (scores (analysis (snd entry)))))"
proof -
  have 1: "\<forall>sc im fb nl si.
      weightedScore sc im fb nl si =
        Math_round
          (js_add
            (js_add
              (js_add
                (js_add (js_mul sc (fl (1 / 4))) (js_mul im (fl (1 / 4))))
                (js_mul fb (fl (1 / 5))))
              (js_mul nl (fl (3 / 20))))
            (js_mul si (fl (3 / 20))))"
    by (simp add: weightedScore_def)
  have 2: "\<forall>a b. js_mul a b = fl (a * b) \<and> js_add a b = fl (a + b)"
    by (simp add: js_mul_def js_add_def)
  have 3: "\<forall>x. Math_round x = of_int \<lfloor>x + 1 / 2\<rfloor>"
    by (simp add: Math_round_def)
  have 4: "fl (1 / 4) = 1 / 4 \<and>
    fl (1 / 5) = 3602879701896397 / 18014398509481984 \<and>
    fl (3 / 20) = 5404319552844595 / 36028797018963968 \<and>
    fl (1 / 4) + fl (1 / 4) + fl (1 / 5) + fl (3 / 20) + fl (3 / 20) = 1"
    using fl_weights by simp
  have 7: "(\<forall>entry \<in> set (analysisCache w). composite_consistent (scores (analysis (snd entry)))) \<longrightarrow>
      (\<forall>r. outcome (analyzeLLMDiscoverability env product options w) = Inr r \<longrightarrow>
           discoveryPotential (scores r) =
             weightedScore (semanticClarity (scores r)) (intentMatching (scores r))
               (featureBenefitStructure (scores r)) (naturalLanguage (scores r))
               (structuredInfo (scores r))) \<and>
      (\<forall>entry \<in> set (analysisCache (world (analyzeLLMDiscoverability env product options w))).
           composite_consistent (scores (analysis (snd entry))))"
  proof (rule impI)
    assume "\<forall>entry \<in> set (analysisCache w). composite_consistent (scores (analysis (snd entry)))"
    from composite_analyze [OF this, of env product options]
    show "(\<forall>r. outcome (analyzeLLMDiscoverability env product options w) = Inr r \<longrightarrow>
           discoveryPotential (scores r) =
             weightedScore (semanticClarity (scores r)) (intentMatching (scores r))
               (featureBenefitStructure (scores r)) (naturalLanguage (scores r))
               (structuredInfo (scores r))) \<and>
      (\<forall>entry \<in> set (analysisCache (world (analyzeLLMDiscoverability env product options w))).
           composite_consistent (scores (analysis (snd entry))))"
      by (simp add: composite_consistent_def)
  qed
  show ?thesis
    by (rule conjI [OF 1 conjI [OF 2 conjI [OF 3 conjI [OF 4 conjI [OF composite_transform
        conjI [OF composite_fallback 7]]]]]])
qed

theorem composite_score_is_rounded_weighted_sum_witness:
  "discoveryPotential (scores (transformOpenAIResponse example_response None)) = 72 \<and>
   scores (transformOpenAIResponse example_response None) =
     \<lparr>semanticClarity = 80, intentMatching = 70, featureBenefitStructure = 90,
      naturalLanguage = 60, structuredInfo = 50, discoveryPotential = 72\<rparr> \<and>
   outcome (analyzeLLMDiscoverability example_env_upstream_limited (Some example_product) None
       (example_world 50)) =
     Inr (withStatus (createFallbackAnalysis (JString ''Board'')) fresh (Some True)) \<and>
   discoveryPotential
       (scores (withStatus (createFallbackAnalysis (JString ''Board'')) fresh (Some True))) =
     weightedScore 0 0 0 0 0"
proof -
  let ?r = "withStatus (createFallbackAnalysis (JString ''Board'')) fresh (Some True)"
  note T = composite_score_is_rounded_weighted_sum [where response = example_response
      and rd = None and env = example_env_upstream_limited and product = "Some example_product"
      and options = None and w = "example_world 50"]
  note C = T [THEN conjunct2, THEN conjunct2, THEN conjunct2, THEN conjunct2]
  have c: "composite_consistent (scores (transformOpenAIResponse example_response None))"
    by (rule C [THEN conjunct1])
  have 1: "discoveryPotential (scores (transformOpenAIResponse example_response None)) = 72"
    using c unfolding composite_consistent_def scores_example_response
    by (simp add: weightedScore_example)
  have 2: "scores (transformOpenAIResponse example_response None) =
     \<lparr>semanticClarity = 80, intentMatching = 70, featureBenefitStructure = 90,
      naturalLanguage = 60, structuredInfo = 50, discoveryPotential = 72\<rparr>"
    by (simp add: scores_example_response weightedScore_example)
  have e: "\<forall>entry \<in> set (analysisCache (example_world 50)).
      composite_consistent (scores (analysis (snd entry)))"
    by (simp add: example_world_def)
  have 3: "outcome (analyzeLLMDiscoverability example_env_upstream_limited (Some example_product)
       None (example_world 50)) = Inr ?r"
    by (simp add: example_no_session_upstream_limited)
  have "discoveryPotential (scores ?r) =
      weightedScore (semanticClarity (scores ?r)) (intentMatching (scores ?r))
        (featureBenefitStructure (scores ?r)) (naturalLanguage (scores ?r))
        (structuredInfo (scores ?r))"
    by (rule C [THEN conjunct2, THEN conjunct2, THEN mp, OF e, THEN conjunct1,
        rule_format, OF 3])
  then have 4: "discoveryPotential (scores ?r) = weightedScore 0 0 0 0 0"
    by (simp add: createFallbackAnalysis_def Let_def)
  show ?thesis by (rule conjI [OF 1 conjI [OF 2 conjI [OF 3 4]]])
qed

text \<open>
  Counterexample to C6 as the specification words it. For the sub-scores 0, 0, 0, 1, 9 the
  weighted sum is 3/2, and 3/2 rounded to the nearest integer is 2. In binary64 the product
  of 9 and 0.15 falls short of 1.35, the sum comes out one unit in the last place below
  3/2, and the composite score of the transformed response is 1.
\<close>

theorem composite_score_tie:
  "scores (transformOpenAIResponse tie_response None) =
     \<lparr>semanticClarity = 0, intentMatching = 0, featureBenefitStructure = 0,
      naturalLanguage = 1, structuredInfo = 9, discoveryPotential = 1\<rparr> \<and>
   (1 / 4 * 0 + 1 / 4 * 0 + 1 / 5 * 0 + 3 / 20 * 1 + 3 / 20 * 9 :: rat) = 3 / 2 \<and>
   Math_round (3 / 2) = 2 \<and>
   js_add (js_add (js_add (js_add (js_mul 0 (fl (1 / 4))) (js_mul 0 (fl (1 / 4))))
       (js_mul 0 (fl (1 / 5)))) (js_mul 1 (fl (3 / 20)))) (js_mul 9 (fl (3 / 20))) =
     6755399441055743 / 4503599627370496 \<and>
   Math_round (6755399441055743 / 4503599627370496) = 1"
proof -
  have 1: "scores (transformOpenAIResponse tie_response None) =
     \<lparr>semanticClarity = 0, intentMatching = 0, featureBenefitStructure = 0,
      naturalLanguage = 1, structuredInfo = 9, discoveryPotential = 1\<rparr>"
    by (simp add: scores_tie_response weightedScore_tie)
  have 2: "(1 / 4 * 0 + 1 / 4 * 0 + 1 / 5 * 0 + 3 / 20 * 1 + 3 / 20 * 9 :: rat) = 3 / 2"
    by simp
  have 3: "Math_round (3 / 2) = 2" by code_simp
  have 5: "Math_round (6755399441055743 / 4503599627370496) = 1" by code_simp
  show ?thesis by (rule conjI [OF 1 conjI [OF 2 conjI [OF 3 conjI [OF tie_sum 5]]]])
qed

end
